theory Spec2Isabelle
  imports Main
begin

section \<open>Cluster objects, errors and the log\<close>

text \<open>
  The two command-line tools of the repository (\<^verbatim>\<open>src/main.go\<close>: quota migration and
  zero initialisation; \<^verbatim>\<open>src/unnamed/part_000\<close>: adding and removing a storage-class
  restriction) talk to a Kubernetes API server through client-go. The model keeps the
  tools' own functions as they are written and makes everything they do beyond returning a
  value explicit: the klog output, the patch requests sent, and the resource-quota objects
  held by the server are fields of a \<open>world\<close> record that every function takes and returns.
\<close>

text \<open>
  Modelled from the spec: \<open>resource.Quantity\<close> is a type of the Kubernetes library, not
  of this repository. The spec (4.1) has a quantity serialise to one fixed canonical
  string. The tools only ever call \<open>String()\<close> on a quantity, so a quantity is represented
  by that canonical string. The library never yields the empty string; where a statement
  needs that, it says so.
\<close>

datatype quantity = Quantity (String: string)

record ResourceQuota =
  Namespace :: string
  Name :: string
  Hard :: "string \<rightharpoonup> quantity"

text \<open>
  Go's \<open>error\<close> values. \<open>StatusError nf msg\<close> is an error returned by a client-go call,
  with \<open>nf\<close> the answer of \<open>apierrors.IsNotFound\<close>; \<open>Errorf\<close> is \<open>fmt.Errorf\<close> with
  its format string and arguments; \<open>Aggregate\<close> is the value built by
  \<open>utilerrors.NewAggregate\<close> from a non-empty list.
\<close>

datatype error =
    StatusError bool string
  | Errorf string "string list"
  | Aggregate "error list"

fun IsNotFound :: "error \<Rightarrow> bool" where
  "IsNotFound (StatusError nf msg) = nf"
| "IsNotFound (Errorf f as) = False"
| "IsNotFound (Aggregate es) = False"

text \<open>
  Modelled from the spec: \<open>utilerrors.NewAggregate\<close> is library code. The spec (3, 4.5)
  has the batch return success when no failure was collected and an aggregate built from
  all failures otherwise: \<open>nil\<close> for an empty list, the aggregate of the list otherwise.
\<close>

fun NewAggregate :: "error list \<Rightarrow> error option" where
  "NewAggregate [] = None"
| "NewAggregate (e # es) = Some (Aggregate (e # es))"

text \<open>
  A klog call is recorded with its format string and its arguments, unformatted.
  \<open>VInfof n\<close> is \<open>klog.V(n).Infof\<close>. An \<open>Exitln\<close> or \<open>Exitf\<close> entry ends the process
  with status 1.
\<close>

datatype arg = Str string | Err error | Nil

fun Verr :: "error option \<Rightarrow> arg" where
  "Verr None = Nil"
| "Verr (Some e) = Err e"

datatype entry =
    Infoln string
  | Infof string "arg list"
  | VInfof nat string "arg list"
  | Warningf string "arg list"
  | Exitln string
  | Exitf string "arg list"

text \<open>
  The fate of one object in a batch. The loops of the tools do not build such a value; they
  leave the loop body through one of three exits (a \<open>continue\<close> before the request, a
  \<open>continue\<close> after a failed request, the end of the body). The field \<open>outcomes\<close> of the
  world is an observation variable that records which exit was taken, with the object's
  namespace and name.
\<close>

datatype PatchOutcome = Applied | Skipped string | Failed error

text \<open>
  A request carries the patch as the text the tool has built (\<open>[]byte(patchData)\<close>).
  What the server reads in that text is a \<open>patch\<close>: the members of the \<open>hard\<close> object
  of \<^verbatim>\<open>{"spec":{"hard":{...}}}\<close> in the order they are written, a key with \<open>Some v\<close>
  for the JSON string \<open>v\<close> and \<open>None\<close> for JSON \<open>null\<close>. The list keeps duplicate
  keys apart.
\<close>

type_synonym patch = "(string \<times> string option) list"

record request =
  req_namespace :: string
  req_name :: string
  req_patch :: string
  FieldManager :: string

record world =
  klog :: "entry list"
  requests :: "request list"
  quotas :: "ResourceQuota list"
  outcomes :: "(string \<times> string \<times> PatchOutcome) list"

definition say :: "entry \<Rightarrow> world \<Rightarrow> world" where
  "say e w = w\<lparr>klog := klog w @ [e]\<rparr>"

definition observe :: "ResourceQuota \<Rightarrow> PatchOutcome \<Rightarrow> world \<Rightarrow> world" where
  "observe rq out w = w\<lparr>outcomes := outcomes w @ [(Namespace rq, Name rq, out)]\<rparr>"

section \<open>The API server as seen through client-go\<close>

text \<open>
  What the server answers is the environment's choice: a \<open>clientset\<close> carries, for each kind
  of call the tools make, the error the call meets (if any). Every reason a request can fail
  (transport, authorisation, validation, a vanished object) is this oracle's.
\<close>

record clientset =
  StorageClasses_Get :: "string \<Rightarrow> error option"
  List_error :: "string \<Rightarrow> error option"
  Patch_error :: "request \<Rightarrow> error option"

definition NamespaceAll :: string where
  "NamespaceAll = ''''"

text \<open>
  Modelled from the spec: the listing call (4.2). It fails as a whole or returns the stored
  objects of the chosen scope, all of them for \<open>NamespaceAll\<close>, in the store's order.
\<close>

definition ResourceQuotas_List :: "clientset \<Rightarrow> string \<Rightarrow> world \<Rightarrow> error + ResourceQuota list" where
  "ResourceQuotas_List cl ns w =
     (case List_error cl ns of
        Some err \<Rightarrow> Inl err
      | None \<Rightarrow> Inr (filter (\<lambda>rq. ns = NamespaceAll \<or> Namespace rq = ns) (quotas w)))"

text \<open>
  Modelled from the spec: the server's application of a strategic merge patch to
  \<open>spec.hard\<close> is not code of this repository. The spec (4.3, 6, glossary) says: keys the
  patch does not mention are left untouched, a key set to the null marker is removed, any
  other key is set to the given quantity. Every value the tools send is already a canonical
  quantity string (\<open>"0"\<close> or the result of \<open>String()\<close>), so the stored quantity is the one
  with that serialisation.
\<close>

fun merge_hard :: "patch \<Rightarrow> (string \<rightharpoonup> quantity) \<Rightarrow> (string \<rightharpoonup> quantity)" where
  "merge_hard [] h = h"
| "merge_hard ((k, None) # p) h = merge_hard p (h(k := None))"
| "merge_hard ((k, Some v) # p) h = merge_hard p (h(k \<mapsto> Quantity v))"

text \<open>
  Modelled from the spec: how the server reads the text of a patch (6: a JSON object of
  the shape \<^verbatim>\<open>{"spec":{"hard":{"<key>":"<value-or-null>"}}}\<close>). \<open>scan\<close> turns the text
  into tokens: braces, colon, comma, \<open>null\<close> and strings. A string runs from a double
  quote to the next double quote that no backslash precedes; the escapes
  \<^verbatim>\<open>\" \\ \/ \n \t \r\<close> are resolved, any other escape and any control character
  inside a string is refused, every other character is taken as it stands.
  \<open>decode\<close> accepts exactly the shape above, with one or more members whose values are
  strings or \<open>null\<close>, and yields the members in order; a later member with the same key
  overrides an earlier one when the patch is merged. Everything else is not decoded.
\<close>

datatype token = LBrace | RBrace | Colon | Comma | JString string | JNull

datatype mode = Out | InStr string | InEsc string | InLit string

fun scan :: "mode \<Rightarrow> string \<Rightarrow> token list option" where
  "scan Out [] = Some []"
| "scan Out (c # cs) =
     (if c = CHR 0x22 then scan (InStr []) cs
      else if c = CHR '' '' \<or> c = CHR 0x09 \<or> c = CHR 0x0A \<or> c = CHR 0x0D then scan Out cs
      else if c = CHR ''{'' then map_option ((#) LBrace) (scan Out cs)
      else if c = CHR ''}'' then map_option ((#) RBrace) (scan Out cs)
      else if c = CHR '':'' then map_option ((#) Colon) (scan Out cs)
      else if c = CHR '','' then map_option ((#) Comma) (scan Out cs)
      else if c = CHR ''n'' then scan (InLit ''ull'') cs
      else None)"
| "scan (InStr acc) [] = None"
| "scan (InStr acc) (c # cs) =
     (if c = CHR 0x22 then map_option ((#) (JString (rev acc))) (scan Out cs)
      else if c = CHR 0x5C then scan (InEsc acc) cs
      else if (of_char c :: nat) < 0x20 then None
      else scan (InStr (c # acc)) cs)"
| "scan (InEsc acc) [] = None"
| "scan (InEsc acc) (c # cs) =
     (if c = CHR 0x22 \<or> c = CHR 0x5C \<or> c = CHR ''/'' then scan (InStr (c # acc)) cs
      else if c = CHR ''n'' then scan (InStr (CHR 0x0A # acc)) cs
      else if c = CHR ''t'' then scan (InStr (CHR 0x09 # acc)) cs
      else if c = CHR ''r'' then scan (InStr (CHR 0x0D # acc)) cs
      else None)"
| "scan (InLit es) [] = None"
| "scan (InLit []) (c # cs) = None"
| "scan (InLit (e # es)) (c # cs) =
     (if c \<noteq> e then None
      else if es = [] then map_option ((#) JNull) (scan Out cs)
      else scan (InLit es) cs)"

fun strip :: "token list \<Rightarrow> token list \<Rightarrow> token list option" where
  "strip [] ts = Some ts"
| "strip (x # xs) [] = None"
| "strip (x # xs) (t # ts) = (if x = t then strip xs ts else None)"

fun member_value :: "token \<Rightarrow> string option option" where
  "member_value (JString v) = Some (Some v)"
| "member_value JNull = Some None"
| "member_value LBrace = None"
| "member_value RBrace = None"
| "member_value Colon = None"
| "member_value Comma = None"

fun members :: "token list \<Rightarrow> patch option" where
  "members (JString k # Colon # t # sep # ts) =
     (case member_value t of
        None \<Rightarrow> None
      | Some v \<Rightarrow>
          if sep = Comma then map_option ((#) (k, v)) (members ts)
          else if sep # ts = [RBrace, RBrace, RBrace] then Some [(k, v)]
          else None)"
| "members ts = None"

definition decode :: "string \<Rightarrow> patch option" where
  "decode text =
     (case scan Out text of
        None \<Rightarrow> None
      | Some ts \<Rightarrow>
          (case strip [LBrace, JString ''spec'', Colon, LBrace, JString ''hard'', Colon, LBrace] ts of
             None \<Rightarrow> None
           | Some ms \<Rightarrow> members ms))"

text \<open>
  Modelled from the spec: what an accepted patch does to the \<open>hard\<close> map of its object.
  A text that \<open>decode\<close> does not read changes nothing in the map; the server's verdict on
  it is the oracle's (\<open>Patch_error\<close>), as for every request.
\<close>

definition merge_body :: "string \<Rightarrow> (string \<rightharpoonup> quantity) \<Rightarrow> (string \<rightharpoonup> quantity)" where
  "merge_body text h = (case decode text of None \<Rightarrow> h | Some p \<Rightarrow> merge_hard p h)"

text \<open>
  Modelled from the spec: one patch request (4.4). The request is recorded; when it fails
  the object is left exactly as it was; when it succeeds the object with that namespace and
  name gets the merged \<open>hard\<close> map.
\<close>

definition ResourceQuotas_Patch ::
  "clientset \<Rightarrow> string \<Rightarrow> string \<Rightarrow> string \<Rightarrow> string \<Rightarrow> world \<Rightarrow> error option \<times> world" where
  "ResourceQuotas_Patch cl ns name patchData manager w =
     (let req = \<lparr>req_namespace = ns, req_name = name, req_patch = patchData, FieldManager = manager\<rparr>;
          w1 = w\<lparr>requests := requests w @ [req]\<rparr>
      in case Patch_error cl req of
           Some err \<Rightarrow> (Some err, w1)
         | None \<Rightarrow>
             (None, w1\<lparr>quotas :=
                map (\<lambda>rq. if Namespace rq = ns \<and> Name rq = name
                          then rq\<lparr>Hard := merge_body patchData (Hard rq)\<rparr> else rq) (quotas w1)\<rparr>))"

section \<open>src/main.go: migrate and set-zero\<close>

text \<open>
  \<open>Config\<close> without its \<open>context\<close> field (always \<open>context.TODO()\<close>).
\<close>

record Config =
  client :: clientset
  oldStorageclass :: string
  newStorageclass :: string
  namespace :: string
  mode :: string

text \<open>
  The two templates after \<open>fmt.Sprintf\<close>: the text of the raw string literal, character
  for character (line feeds and tabs included), with the arguments put in place of the
  \<open>%s\<close> verbs in their order, unescaped as \<open>%s\<close> puts them.
\<close>

definition patchMigrateTemplate :: "string \<Rightarrow> string \<Rightarrow> string \<Rightarrow> string" where
  "patchMigrateTemplate a b c =
     ''{\<newline>'' @
     [CHR 0x09, CHR 0x09] @ ''\"spec\": {\<newline>'' @
     [CHR 0x09, CHR 0x09, CHR 0x09] @ ''\"hard\": {\<newline>'' @
     [CHR 0x09, CHR 0x09, CHR 0x09, CHR 0x09] @ ''\"'' @ a @
       ''.storageclass.storage.k8s.io/requests.storage\": \"'' @ b @ ''\",\<newline>'' @
     [CHR 0x09, CHR 0x09, CHR 0x09, CHR 0x09] @ ''\"'' @ c @
       ''.storageclass.storage.k8s.io/requests.storage\": \"0\"\<newline>'' @
     [CHR 0x09, CHR 0x09, CHR 0x09] @ ''}\<newline>'' @
     [CHR 0x09, CHR 0x09] @ ''}\<newline>'' @
     [CHR 0x09] @ ''}''"

definition patchSetZeroTemplate :: "string \<Rightarrow> string" where
  "patchSetZeroTemplate a =
     ''{\<newline>'' @
     [CHR 0x09, CHR 0x09] @ ''\"spec\": {\<newline>'' @
     [CHR 0x09, CHR 0x09, CHR 0x09] @ ''\"hard\": {\<newline>'' @
     [CHR 0x09, CHR 0x09, CHR 0x09, CHR 0x09] @ ''\"'' @ a @
       ''.storageclass.storage.k8s.io/requests.storage\": \"0\"\<newline>'' @
     [CHR 0x09, CHR 0x09, CHR 0x09] @ ''}\<newline>'' @
     [CHR 0x09, CHR 0x09] @ ''}\<newline>'' @
     [CHR 0x09] @ ''}''"

definition getExistingStorageQuota :: "ResourceQuota \<Rightarrow> world \<Rightarrow> string \<times> world" where
  "getExistingStorageQuota rq w =
     (case Hard rq ''requests.storage'' of
        Some quota \<Rightarrow>
          (String quota,
           say (VInfof 5 ''found requests.storage quota: %s in namespace/%s''
                  [Str (String quota), Str (Namespace rq)]) w)
      | None \<Rightarrow> ('''', w))"

text \<open>The body of the \<open>for\<close> loop of \<open>MigrateStorageclassQuota\<close>, for one \<open>rq\<close>.\<close>

definition Migrate_body :: "Config \<Rightarrow> ResourceQuota \<Rightarrow> error list \<times> world \<Rightarrow> error list \<times> world" where
  "Migrate_body c rq s =
     (let (errorList, w) = s;
          (quotaSize, w1) = getExistingStorageQuota rq w
      in if quotaSize = '''' then
           (errorList,
            observe rq (Skipped ''no existing quota'')
              (say (Warningf ''no requests.storage quota found in ResourceQuota %s/%s, skipping''
                      [Str (Namespace rq), Str (Name rq)]) w1))
         else
           let patchData = patchMigrateTemplate (oldStorageclass c) quotaSize (newStorageclass c);
               (err, w2) = ResourceQuotas_Patch (client c) (Namespace rq) (Name rq) patchData
                             ''storageclass-migration'' w1
           in case err of
                Some e \<Rightarrow>
                  (errorList @ [e],
                   observe rq (Failed e)
                     (say (Warningf ''failed to migrate storageclass quota in namespace/%s: %v''
                             [Str (Namespace rq), Err e]) w2))
              | None \<Rightarrow>
                  (errorList,
                   observe rq Applied
                     (say (Infof ''successfully migrated quota %s: %s -> %s, %s -> 0 in namespace/%s''
                             [Str quotaSize, Str (newStorageclass c), Str (oldStorageclass c),
                              Str (newStorageclass c), Str (Namespace rq)]) w2)))"

fun Migrate_loop :: "Config \<Rightarrow> ResourceQuota list \<Rightarrow> error list \<times> world \<Rightarrow> error list \<times> world" where
  "Migrate_loop c [] s = s"
| "Migrate_loop c (rq # Items) s = Migrate_loop c Items (Migrate_body c rq s)"

definition MigrateStorageclassQuota :: "Config \<Rightarrow> world \<Rightarrow> error option \<times> world" where
  "MigrateStorageclassQuota c w =
     (case ResourceQuotas_List (client c) (namespace c) w of
        Inl err \<Rightarrow> (Some err, w)
      | Inr Items \<Rightarrow>
          if length Items = 0 then
            (Some (Errorf ''no ResourceQuota found in namespace/%s'' [namespace c]), w)
          else
            let (errorList, w1) = Migrate_loop c Items ([], w)
            in (NewAggregate errorList, w1))"

text \<open>The body of the \<open>for\<close> loop of \<open>SetStorageclassQuotaToZero\<close>, for one \<open>rq\<close>.\<close>

definition SetZero_body :: "Config \<Rightarrow> ResourceQuota \<Rightarrow> error list \<times> world \<Rightarrow> error list \<times> world" where
  "SetZero_body c rq s =
     (let (errorList, w) = s;
          quotaKey = newStorageclass c @ ''.storageclass.storage.k8s.io/requests.storage''
      in if (case Hard rq quotaKey of Some existingQuota \<Rightarrow> String existingQuota = ''0'' | None \<Rightarrow> False)
         then
           (errorList,
            observe rq (Skipped ''already zero'')
              (say (VInfof 2 ''storageclass %s quota already set to 0 in namespace/%s, skipping''
                      [Str (newStorageclass c), Str (Namespace rq)]) w))
         else
           let patchData = patchSetZeroTemplate (newStorageclass c);
               (err, w2) = ResourceQuotas_Patch (client c) (Namespace rq) (Name rq) patchData
                             ''storageclass-quota-zero'' w
           in case err of
                Some e \<Rightarrow>
                  (errorList @ [e],
                   observe rq (Failed e)
                     (say (Warningf ''failed to set storageclass %s quota to zero in namespace/%s: %v''
                             [Str (newStorageclass c), Str (Namespace rq), Err e]) w2))
              | None \<Rightarrow>
                  (errorList,
                   observe rq Applied
                     (say (Infof ''successfully set storageclass %s quota to 0 in namespace/%s''
                             [Str (newStorageclass c), Str (Namespace rq)]) w2)))"

fun SetZero_loop :: "Config \<Rightarrow> ResourceQuota list \<Rightarrow> error list \<times> world \<Rightarrow> error list \<times> world" where
  "SetZero_loop c [] s = s"
| "SetZero_loop c (rq # Items) s = SetZero_loop c Items (SetZero_body c rq s)"

definition SetStorageclassQuotaToZero :: "Config \<Rightarrow> world \<Rightarrow> error option \<times> world" where
  "SetStorageclassQuotaToZero c w =
     (case ResourceQuotas_List (client c) (namespace c) w of
        Inl err \<Rightarrow> (Some err, w)
      | Inr Items \<Rightarrow>
          if length Items = 0 then
            (Some (Errorf ''no ResourceQuota found in namespace/%s'' [namespace c]), w)
          else
            let (errorList, w1) = SetZero_loop c Items ([], w)
            in (NewAggregate errorList, w1))"

text \<open>
  What the bootstrap of a tool meets outside the cluster: the result of
  \<open>clientcmd.BuildConfigFromFlags\<close>, of \<open>kubernetes.NewForConfig\<close> and (for the restriction
  tool) of \<open>resource.ParseQuantity\<close>. The command line arrives as the values \<open>pflag.Parse\<close>
  has stored, defaults included.
\<close>

record env =
  BuildConfigFromFlags :: "error option"
  NewForConfig :: "error + clientset"
  ParseQuantity :: "string \<Rightarrow> error + quantity"

record flags =
  old_storageclass :: string
  new_storageclass :: string
  namespace_flag :: string
  mode_flag :: string

text \<open>
  A function that can end the process through \<open>klog.Exit*\<close> returns \<open>Inl\<close> of the world at
  that moment (the exit entry is the last of its log), and \<open>Inr\<close> when it returns normally.
\<close>

definition CheckIfStorageclassExist :: "Config \<Rightarrow> world \<Rightarrow> world + world" where
  "CheckIfStorageclassExist c w =
     (case (if mode c = ''migrate'' then StorageClasses_Get (client c) (oldStorageclass c) else None) of
        Some err \<Rightarrow>
          if IsNotFound err then
            Inl (say (Exitf ''old storageclass %s does not exist'' [Str (oldStorageclass c)]) w)
          else
            Inl (say (Exitf ''error happened when getting old storageclass %s, error: %v''
                        [Str (oldStorageclass c), Err err]) w)
      | None \<Rightarrow>
          (case StorageClasses_Get (client c) (newStorageclass c) of
             Some err \<Rightarrow>
               if IsNotFound err then
                 Inl (say (Exitf ''storageclass %s does not exist'' [Str (newStorageclass c)]) w)
               else
                 Inl (say (Exitf ''error happened when getting storageclass %s, error: %v''
                             [Str (newStorageclass c), Err err]) w)
           | None \<Rightarrow>
               if mode c = ''migrate'' then
                 Inr (say (Infof ''both storageclasses validated: %s (old) -> %s (new)''
                             [Str (oldStorageclass c), Str (newStorageclass c)]) w)
               else
                 Inr (say (Infof ''target storageclass validated: %s'' [Str (newStorageclass c)]) w)))"

definition NewConfig :: "flags \<Rightarrow> env \<Rightarrow> world \<Rightarrow> world + Config \<times> world" where
  "NewConfig fl ev w =
     (let ns = (if namespace_flag fl = '''' then NamespaceAll else namespace_flag fl) in
      if mode_flag fl = ''migrate'' \<and> old_storageclass fl = '''' then
        Inl (say (Exitln ''migrate mode requires old-storageclass, please specify with -o'') w)
      else if mode_flag fl = ''migrate'' \<and> new_storageclass fl = '''' then
        Inl (say (Exitln ''migrate mode requires new-storageclass, please specify with -s'') w)
      else if mode_flag fl = ''migrate'' \<and> old_storageclass fl = new_storageclass fl then
        Inl (say (Exitln ''old-storageclass and new-storageclass cannot be the same'') w)
      else if mode_flag fl = ''set-zero'' \<and> new_storageclass fl = '''' then
        Inl (say (Exitln ''set-zero mode requires storageclass, please specify with -s'') w)
      else if mode_flag fl \<noteq> ''migrate'' \<and> mode_flag fl \<noteq> ''set-zero'' then
        Inl (say (Exitf (''invalid mode: %s, must be '' @ [CHR 0x27] @ ''migrate'' @ [CHR 0x27]
                          @ '' or '' @ [CHR 0x27] @ ''set-zero'' @ [CHR 0x27])
                    [Str (mode_flag fl)]) w)
      else
        case BuildConfigFromFlags ev of
          Some err \<Rightarrow>
            Inl (say (Exitf (''error happened when building config,%v'' @ [CHR 0x0A]) [Err err]) w)
        | None \<Rightarrow>
            (case NewForConfig ev of
               Inl err \<Rightarrow>
                 Inl (say (Exitf (''error happened when construct kubernetes client,%v'' @ [CHR 0x0A])
                             [Err err]) w)
             | Inr cl \<Rightarrow>
                 let config = \<lparr>client = cl, oldStorageclass = old_storageclass fl,
                                newStorageclass = new_storageclass fl, namespace = ns,
                                mode = mode_flag fl\<rparr>
                 in case CheckIfStorageclassExist config w of
                      Inl w1 \<Rightarrow> Inl w1
                    | Inr w1 \<Rightarrow> Inr (config, w1)))"

text \<open>
  \<open>main\<close> returns the exit status of the process and the final world: 1 after a
  \<open>klog.Exit*\<close>, 0 when \<open>main\<close> returns.
\<close>

definition main :: "flags \<Rightarrow> env \<Rightarrow> world \<Rightarrow> nat \<times> world" where
  "main fl ev w =
     (case NewConfig fl ev w of
        Inl w1 \<Rightarrow> (1, w1)
      | Inr (c, w1) \<Rightarrow>
          (case (if mode c = ''migrate'' then Inr (MigrateStorageclassQuota c w1)
                 else if mode c = ''set-zero'' then Inr (SetStorageclassQuotaToZero c w1)
                 else Inl (say (Exitf ''invalid mode: %s'' [Str (mode c)]) w1)) of
             Inl w2 \<Rightarrow> (1, w2)
           | Inr (err, w2) \<Rightarrow>
               let errorList = (case err of Some e \<Rightarrow> [e] | None \<Rightarrow> [])
               in if length errorList = 0 then
                    (if mode c = ''migrate'' then
                       (0, say (Infoln ([CHR 0x1B] @ ''[32msuccessfully migrated storageclass quota for all namespaces.''
                                         @ [CHR 0x1B] @ ''[0m'')) w2)
                     else
                       (0, say (Infoln ([CHR 0x1B] @ ''[32msuccessfully set storageclass quota to zero for all namespaces.''
                                         @ [CHR 0x1B] @ ''[0m'')) w2))
                  else
                    (0, say (Infof (''Errors occurred: %v'' @ [CHR 0x0A])
                               [Verr (NewAggregate errorList)]) w2)))"

section \<open>src/unnamed/part_000: add and remove a restriction\<close>

text \<open>
  The second tool declares its own \<open>Config\<close>, \<open>NewConfig\<close>, \<open>CheckIfStorageclassExist\<close> and
  \<open>main\<close>; here they carry a prime, as do the fields \<open>client\<close>, \<open>namespace\<close> and \<open>size\<close>.
\<close>

record Config' =
  client' :: clientset
  storageclass :: string
  action :: string
  namespace' :: string
  size' :: string

record flags' =
  storageclass_flag :: string
  action_flag :: string
  namespace_flag' :: string
  quota_flag :: string

text \<open>
  The two templates of this tool after \<open>fmt.Sprintf\<close>, as text. Their raw string literals
  have a line with one tab before the last brace.
\<close>

definition patchAddTemplate :: "string \<Rightarrow> string \<Rightarrow> string" where
  "patchAddTemplate a b =
     ''{\<newline>'' @
     [CHR 0x09, CHR 0x09] @ ''\"spec\": {\<newline>'' @
     [CHR 0x09, CHR 0x09, CHR 0x09] @ ''\"hard\": {\<newline>'' @
     [CHR 0x09, CHR 0x09, CHR 0x09, CHR 0x09] @ ''\"'' @ a @
       ''.storageclass.storage.k8s.io/requests.storage\": \"'' @ b @ ''\"\<newline>'' @
     [CHR 0x09, CHR 0x09, CHR 0x09] @ ''}\<newline>'' @
     [CHR 0x09, CHR 0x09] @ ''}\<newline>'' @
     [CHR 0x09] @ ''\<newline>'' @
     [CHR 0x09] @ ''}''"

definition patchDeleteTemplate :: "string \<Rightarrow> string" where
  "patchDeleteTemplate a =
     ''{\<newline>'' @
     [CHR 0x09, CHR 0x09] @ ''\"spec\": {\<newline>'' @
     [CHR 0x09, CHR 0x09, CHR 0x09] @ ''\"hard\": {\<newline>'' @
     [CHR 0x09, CHR 0x09, CHR 0x09, CHR 0x09] @ ''\"'' @ a @
       ''.storageclass.storage.k8s.io/requests.storage\": null\<newline>'' @
     [CHR 0x09, CHR 0x09, CHR 0x09] @ ''}\<newline>'' @
     [CHR 0x09, CHR 0x09] @ ''}\<newline>'' @
     [CHR 0x09] @ ''\<newline>'' @
     [CHR 0x09] @ ''}''"

definition CheckIfStorageclassExist' :: "Config' \<Rightarrow> world \<Rightarrow> world + world" where
  "CheckIfStorageclassExist' c w =
     (case StorageClasses_Get (client' c) (storageclass c) of
        Some err \<Rightarrow>
          if IsNotFound err then
            Inl (say (Exitf ''storageclass %s not exist'' [Str (storageclass c)]) w)
          else
            Inl (say (Exitf ''error happened when get storageclass %s,error: %v''
                        [Str (storageclass c), Err err]) w)
      | None \<Rightarrow> Inr w)"

text \<open>\<open>ParseSize\<close> runs before the client exists: it yields the canonical size, or exits.\<close>

definition ParseSize :: "env \<Rightarrow> string \<Rightarrow> world \<Rightarrow> world + string" where
  "ParseSize ev sz w =
     (case ParseQuantity ev sz of
        Inl err \<Rightarrow> Inl (say (Exitf ''%v , for example: 50G / 200T'' [Err err]) w)
      | Inr q \<Rightarrow> Inr (String q))"

definition NewConfig' :: "flags' \<Rightarrow> env \<Rightarrow> world \<Rightarrow> world + Config' \<times> world" where
  "NewConfig' fl ev w =
     (let ns = (if namespace_flag' fl = '''' then NamespaceAll else namespace_flag' fl) in
      if storageclass_flag fl = '''' then
        Inl (say (Exitln ''storageclass is empty,please specify storageclass'') w)
      else
        case ParseSize ev (quota_flag fl) w of
          Inl w1 \<Rightarrow> Inl w1
        | Inr sz \<Rightarrow>
            if action_flag fl \<noteq> ''add'' \<and> action_flag fl \<noteq> ''remove'' then
              Inl (say (Exitf ''action must be add or remove,and you provide %s'' [Str (action_flag fl)]) w)
            else
              (case BuildConfigFromFlags ev of
                 Some err \<Rightarrow>
                   Inl (say (Exitf (''error happened when building config,%v'' @ [CHR 0x0A]) [Err err]) w)
               | None \<Rightarrow>
                   (case NewForConfig ev of
                      Inl err \<Rightarrow>
                        Inl (say (Exitf (''error happened when construct kubernetes client,%v'' @ [CHR 0x0A])
                                    [Err err]) w)
                    | Inr cl \<Rightarrow>
                        let config = \<lparr>client' = cl, storageclass = storageclass_flag fl,
                                       action = action_flag fl, namespace' = ns, size' = sz\<rparr>
                        in case CheckIfStorageclassExist' config w of
                             Inl w1 \<Rightarrow> Inl w1
                           | Inr w1 \<Rightarrow> Inr (config, w1))))"

text \<open>
  The body of the \<open>for\<close> loop of \<open>PatchStorageclassRestricted\<close>, for one \<open>rq\<close>. The
  \<open>default\<close> branch of the switch leaves \<open>patchData\<close> without content; \<open>NewConfig'\<close> lets
  no other action than the two through.
\<close>

definition Restricted_body :: "Config' \<Rightarrow> ResourceQuota \<Rightarrow> error list \<times> world \<Rightarrow> error list \<times> world" where
  "Restricted_body c rq s =
     (let (errorList, w) = s;
          patchData = (if action c = ''add'' then patchAddTemplate (storageclass c) (size' c)
                       else if action c = ''remove'' then patchDeleteTemplate (storageclass c)
                       else '''');
          (err, w2) = ResourceQuotas_Patch (client' c) (Namespace rq) (Name rq) patchData
                        ''storageclass-restriction'' w
      in case err of
           Some e \<Rightarrow>
             (errorList @ [e],
              observe rq (Failed e)
                (say (Warningf ''failed to %s the storageclass/%s limits from namespace/%s: %v''
                        [Str (action c), Str (storageclass c), Str (Namespace rq), Err e]) w2))
         | None \<Rightarrow>
             (errorList,
              observe rq Applied
                (say (VInfof 2 ''successful %s the storageclass/%s limits from namespace/%s''
                        [Str (action c), Str (storageclass c), Str (Namespace rq)]) w2)))"

fun Restricted_loop :: "Config' \<Rightarrow> ResourceQuota list \<Rightarrow> error list \<times> world \<Rightarrow> error list \<times> world" where
  "Restricted_loop c [] s = s"
| "Restricted_loop c (rq # Items) s = Restricted_loop c Items (Restricted_body c rq s)"

definition PatchStorageclassRestricted :: "Config' \<Rightarrow> world \<Rightarrow> error option \<times> world" where
  "PatchStorageclassRestricted c w =
     (case ResourceQuotas_List (client' c) (namespace' c) w of
        Inl err \<Rightarrow> (Some err, w)
      | Inr Items \<Rightarrow>
          if length Items = 0 then
            (Some (Errorf ''no ResourceQuota found in namespace/%s'' [namespace' c]), w)
          else
            let (errorList, w1) = Restricted_loop c Items ([], w)
            in (NewAggregate errorList, w1))"

definition main' :: "flags' \<Rightarrow> env \<Rightarrow> world \<Rightarrow> nat \<times> world" where
  "main' fl ev w =
     (case NewConfig' fl ev w of
        Inl w1 \<Rightarrow> (1, w1)
      | Inr (c, w1) \<Rightarrow>
          let (err, w2) = PatchStorageclassRestricted c w1;
              errorList = (case err of Some e \<Rightarrow> [e] | None \<Rightarrow> [])
          in if length errorList = 0 then
               (0, say (Infoln ([CHR 0x1B] @ ''[32msuccessfully added or removed storageclass restrictions for all namespaces.''
                                 @ [CHR 0x1B] @ ''[0m'')) w2)
             else
               (0, say (Infof (''Errors occurred: %v'' @ [CHR 0x0A])
                          [Verr (NewAggregate errorList)]) w2))"

section \<open>Vocabulary for the statements\<close>

text \<open>
  A string is \<open>plain\<close> when all its characters are printable ASCII characters other than
  the double quote and the backslash: the characters that stand for themselves inside a
  JSON string, so that \<open>%s\<close>, which escapes nothing, puts the string there as it is. The
  names of Kubernetes objects (lower-case letters, digits, \<open>-\<close> and \<open>.\<close>) and the canonical
  forms of quantities (digits, a sign, a point and a suffix of letters) are plain.
\<close>

definition plain :: "string \<Rightarrow> bool" where
  "plain s = list_all (\<lambda>c. c \<noteq> CHR 0x22 \<and> c \<noteq> CHR 0x5C \<and>
                             0x20 \<le> (of_char c :: nat) \<and> (of_char c :: nat) < 0x7F) s"

text \<open>
  An object is \<open>plain_quota\<close> when the serialisation of its \<open>requests.storage\<close> quantity,
  if it has one, is plain.
\<close>

definition plain_quota :: "ResourceQuota \<Rightarrow> bool" where
  "plain_quota rq = (case Hard rq ''requests.storage'' of None \<Rightarrow> True | Some v \<Rightarrow> plain (String v))"

text \<open>
  The members the server merges from a text: those \<open>decode\<close> reads in it, none when it
  reads nothing.
\<close>

definition read_patch :: "string \<Rightarrow> patch" where
  "read_patch text = (case decode text of None \<Rightarrow> [] | Some p \<Rightarrow> p)"

text \<open>
  The request a loop body hands to \<open>Patch\<close> for the object \<open>rq\<close>: the object's own
  namespace and name, the text of the patch and the field manager.
\<close>

definition patch_request :: "ResourceQuota \<Rightarrow> string \<Rightarrow> string \<Rightarrow> request" where
  "patch_request rq p m =
     \<lparr>req_namespace = Namespace rq, req_name = Name rq, req_patch = p, FieldManager = m\<rparr>"

text \<open>
  What each loop body decides for one object before it talks to the server, read off the
  branch conditions of the body: \<open>Inl reason\<close> when it leaves through the first
  \<open>continue\<close>, \<open>Inr r\<close> when it sends the request \<open>r\<close>. The lemmas \<open>*_body_*\<close> below
  prove that the bodies do exactly this.
\<close>

definition Migrate_decide :: "Config \<Rightarrow> ResourceQuota \<Rightarrow> string + request" where
  "Migrate_decide c rq =
     (case Hard rq ''requests.storage'' of
        None \<Rightarrow> Inl ''no existing quota''
      | Some q \<Rightarrow>
          if String q = '''' then Inl ''no existing quota''
          else Inr (patch_request rq
                 (patchMigrateTemplate (oldStorageclass c) (String q) (newStorageclass c))
                 ''storageclass-migration''))"

definition SetZero_decide :: "Config \<Rightarrow> ResourceQuota \<Rightarrow> string + request" where
  "SetZero_decide c rq =
     (if (case Hard rq (newStorageclass c @ ''.storageclass.storage.k8s.io/requests.storage'') of
            Some q \<Rightarrow> String q = ''0'' | None \<Rightarrow> False)
      then Inl ''already zero''
      else Inr (patch_request rq (patchSetZeroTemplate (newStorageclass c)) ''storageclass-quota-zero''))"

definition Restricted_decide :: "Config' \<Rightarrow> ResourceQuota \<Rightarrow> string + request" where
  "Restricted_decide c rq =
     Inr (patch_request rq
            (if action c = ''add'' then patchAddTemplate (storageclass c) (size' c)
             else if action c = ''remove'' then patchDeleteTemplate (storageclass c)
             else '''')
            ''storageclass-restriction'')"

fun sent :: "string + request \<Rightarrow> request list" where
  "sent (Inl reason) = []"
| "sent (Inr r) = [r]"

fun outcome_of :: "clientset \<Rightarrow> string + request \<Rightarrow> PatchOutcome" where
  "outcome_of cl (Inl reason) = Skipped reason"
| "outcome_of cl (Inr r) = (case Patch_error cl r of Some e \<Rightarrow> Failed e | None \<Rightarrow> Applied)"

fun failure_of :: "clientset \<Rightarrow> string + request \<Rightarrow> error list" where
  "failure_of cl (Inl reason) = []"
| "failure_of cl (Inr r) = (case Patch_error cl r of Some e \<Rightarrow> [e] | None \<Rightarrow> [])"

text \<open>
  The effect of successful requests on the stored objects: \<open>apply_request\<close> is what
  \<open>ResourceQuotas_Patch\<close> does to one object, \<open>replay\<close> runs a sequence of requests over
  the whole store, \<open>replay_obj\<close> over one object.
\<close>

definition apply_request :: "request \<Rightarrow> ResourceQuota \<Rightarrow> ResourceQuota" where
  "apply_request r rq =
     (if Namespace rq = req_namespace r \<and> Name rq = req_name r
      then rq\<lparr>Hard := merge_body (req_patch r) (Hard rq)\<rparr> else rq)"

fun replay :: "request list \<Rightarrow> ResourceQuota list \<Rightarrow> ResourceQuota list" where
  "replay [] qs = qs"
| "replay (r # rs) qs = replay rs (map (apply_request r) qs)"

fun replay_obj :: "request list \<Rightarrow> ResourceQuota \<Rightarrow> ResourceQuota" where
  "replay_obj [] rq = rq"
| "replay_obj (r # rs) rq = replay_obj rs (apply_request r rq)"

text \<open>
  \<open>overlay d h\<close> is the map \<open>h\<close> with the keys of \<open>d\<close> overwritten (\<open>Some v\<close>) or removed
  (\<open>None\<close>). Every merge patch acts as an overlay.
\<close>

definition overlay :: "(string \<rightharpoonup> quantity option) \<Rightarrow> (string \<rightharpoonup> quantity) \<Rightarrow> (string \<rightharpoonup> quantity)" where
  "overlay d h = (\<lambda>k. case d k of None \<Rightarrow> h k | Some v \<Rightarrow> v)"

text \<open>
  An error \<open>mentions\<close> a string when the string occurs in one of the texts the error is
  made of: the message of a status error, the format or an argument of an \<open>Errorf\<close>, or
  a text of a member of an aggregate.
\<close>

fun starts_with :: "string \<Rightarrow> string \<Rightarrow> bool" where
  "starts_with [] t = True"
| "starts_with (c # s) [] = False"
| "starts_with (c # s) (d # t) = (c = d \<and> starts_with s t)"

fun occurs_in :: "string \<Rightarrow> string \<Rightarrow> bool" where
  "occurs_in s [] = (s = [])"
| "occurs_in s (d # t) = (starts_with s (d # t) \<or> occurs_in s t)"

fun texts :: "error \<Rightarrow> string list" where
  "texts (StatusError b m) = [m]"
| "texts (Errorf f as) = f # as"
| "texts (Aggregate es) = concat (map texts es)"

definition mentions :: "error \<Rightarrow> string \<Rightarrow> bool" where
  "mentions e s = list_ex (occurs_in s) (texts e)"

text \<open>The requests and outcomes a run has added to those of the world it started in.\<close>

definition new_requests :: "world \<Rightarrow> world \<Rightarrow> request list" where
  "new_requests w w' = drop (length (requests w)) (requests w')"

definition new_outcomes :: "world \<Rightarrow> world \<Rightarrow> (string \<times> string \<times> PatchOutcome) list" where
  "new_outcomes w w' = drop (length (outcomes w)) (outcomes w')"

text \<open>The objects a listing of the namespace \<open>ns\<close> returns.\<close>

definition in_scope :: "string \<Rightarrow> ResourceQuota list \<Rightarrow> ResourceQuota list" where
  "in_scope ns qs = filter (\<lambda>rq. ns = NamespaceAll \<or> Namespace rq = ns) qs"

fun is_Exit :: "entry \<Rightarrow> bool" where
  "is_Exit (Exitln m) = True"
| "is_Exit (Exitf f as) = True"
| "is_Exit (Infoln m) = False"
| "is_Exit (Infof f as) = False"
| "is_Exit (VInfof n f as) = False"
| "is_Exit (Warningf f as) = False"

section \<open>Example clusters\<close>

text \<open>
  Three quota objects that all carry the generic \<open>requests.storage\<close> key, a server that
  accepts every request, and one that refuses every patch of \<open>rq-b\<close>.
\<close>

definition rq_a :: ResourceQuota where
  "rq_a = \<lparr>Namespace = ''team-a'', Name = ''rq-a'', Hard = [''requests.storage'' \<mapsto> Quantity ''50G'']\<rparr>"

definition rq_b :: ResourceQuota where
  "rq_b = \<lparr>Namespace = ''team-b'', Name = ''rq-b'', Hard = [''requests.storage'' \<mapsto> Quantity ''20G'']\<rparr>"

definition rq_c :: ResourceQuota where
  "rq_c = \<lparr>Namespace = ''team-c'', Name = ''rq-c'', Hard = [''requests.storage'' \<mapsto> Quantity ''1T'']\<rparr>"

definition rq_bare :: ResourceQuota where
  "rq_bare = \<lparr>Namespace = ''team-d'', Name = ''rq-d'', Hard = [''pods'' \<mapsto> Quantity ''10'']\<rparr>"

definition refusal :: error where
  "refusal = StatusError False ''resourcequotas rq-b is forbidden in namespace team-b''"

definition ok_client :: clientset where
  "ok_client = \<lparr>StorageClasses_Get = (\<lambda>n. None), List_error = (\<lambda>ns. None), Patch_error = (\<lambda>r. None)\<rparr>"

definition flaky_client :: clientset where
  "flaky_client =
     \<lparr>StorageClasses_Get = (\<lambda>n. None), List_error = (\<lambda>ns. None),
      Patch_error = (\<lambda>r. if req_name r = ''rq-b'' then Some refusal else None)\<rparr>"

text \<open>
  A server that is unable to handle the patch of the object named \<open>n\<close>. Its answer says
  nothing about the object.
\<close>

definition unavailable :: error where
  "unavailable = StatusError False ''the server is currently unable to handle the request''"

definition refusing :: "string \<Rightarrow> clientset" where
  "refusing n =
     \<lparr>StorageClasses_Get = (\<lambda>n. None), List_error = (\<lambda>ns. None),
      Patch_error = (\<lambda>r. if req_name r = n then Some unavailable else None)\<rparr>"

text \<open>A server that knows the two storage classes \<open>slow\<close> and \<open>fast\<close> and no other.\<close>

definition known_client :: clientset where
  "known_client =
     \<lparr>StorageClasses_Get = (\<lambda>n. if n = ''slow'' \<or> n = ''fast'' then None
                                  else Some (StatusError True ''storageclasses.storage.k8s.io not found'')),
      List_error = (\<lambda>ns. None), Patch_error = (\<lambda>r. None)\<rparr>"

definition world_of :: "ResourceQuota list \<Rightarrow> world" where
  "world_of qs = \<lparr>klog = [], requests = [], quotas = qs, outcomes = []\<rparr>"

definition migrate_cfg :: "clientset \<Rightarrow> Config" where
  "migrate_cfg cl = \<lparr>client = cl, oldStorageclass = ''slow'', newStorageclass = ''fast'',
                     namespace = NamespaceAll, mode = ''migrate''\<rparr>"

definition restrict_cfg :: "clientset \<Rightarrow> string \<Rightarrow> Config'" where
  "restrict_cfg cl a = \<lparr>client' = cl, storageclass = ''fast'', action = a,
                        namespace' = NamespaceAll, size' = ''50G''\<rparr>"

text \<open>
  A bootstrap that succeeds and hands out the given client. Its \<open>ParseQuantity\<close> knows
  the two sizes the examples use and rejects everything else.
\<close>

definition env_of :: "clientset \<Rightarrow> env" where
  "env_of cl =
     \<lparr>BuildConfigFromFlags = None, NewForConfig = Inr cl,
      ParseQuantity = (\<lambda>s. if s = ''50G'' \<or> s = ''0'' then Inr (Quantity s)
                            else Inl (Errorf ''quantities must match the regular expression'' []))\<rparr>"

definition migrate_flags :: "string \<Rightarrow> string \<Rightarrow> flags" where
  "migrate_flags a b =
     \<lparr>old_storageclass = a, new_storageclass = b, namespace_flag = '''', mode_flag = ''migrate''\<rparr>"

definition restrict_flags :: "string \<Rightarrow> string \<Rightarrow> flags'" where
  "restrict_flags a q =
     \<lparr>storageclass_flag = ''fast'', action_flag = a, namespace_flag' = '''', quota_flag = q\<rparr>"

section \<open>Supporting lemmas\<close>

subsection \<open>One request, one loop body\<close>

lemma Patch_eq:
  "ResourceQuotas_Patch cl (Namespace rq) (Name rq) p m w =
     (Patch_error cl (patch_request rq p m),
      w\<lparr>requests := requests w @ [patch_request rq p m],
        quotas := (case Patch_error cl (patch_request rq p m) of
                     Some e \<Rightarrow> quotas w
                   | None \<Rightarrow> map (apply_request (patch_request rq p m)) (quotas w))\<rparr>)"
  by (auto simp: ResourceQuotas_Patch_def patch_request_def apply_request_def Let_def
           split: option.splits)

lemma Migrate_body_fst:
  "fst (Migrate_body c rq s) = fst s @ failure_of (client c) (Migrate_decide c rq)"
  by (cases s)
     (auto simp: Migrate_body_def Migrate_decide_def getExistingStorageQuota_def Patch_eq
                 say_def observe_def Let_def split: option.splits prod.splits)

lemma Migrate_body_requests:
  "requests (snd (Migrate_body c rq s)) = requests (snd s) @ sent (Migrate_decide c rq)"
  by (cases s)
     (auto simp: Migrate_body_def Migrate_decide_def getExistingStorageQuota_def Patch_eq
                 say_def observe_def Let_def split: option.splits prod.splits)

lemma Migrate_body_outcomes:
  "outcomes (snd (Migrate_body c rq s)) =
     outcomes (snd s) @ [(Namespace rq, Name rq, outcome_of (client c) (Migrate_decide c rq))]"
  by (cases s)
     (auto simp: Migrate_body_def Migrate_decide_def getExistingStorageQuota_def Patch_eq
                 say_def observe_def Let_def split: option.splits prod.splits)

lemma Migrate_body_quotas:
  "quotas (snd (Migrate_body c rq s)) =
     replay (filter (\<lambda>r. Patch_error (client c) r = None) (sent (Migrate_decide c rq)))
       (quotas (snd s))"
  by (cases s)
     (auto simp: Migrate_body_def Migrate_decide_def getExistingStorageQuota_def Patch_eq
                 say_def observe_def Let_def split: option.splits prod.splits)

lemma SetZero_body_fst:
  "fst (SetZero_body c rq s) = fst s @ failure_of (client c) (SetZero_decide c rq)"
  by (cases s)
     (auto simp: SetZero_body_def SetZero_decide_def Patch_eq
                 say_def observe_def Let_def split: option.splits prod.splits)

lemma SetZero_body_requests:
  "requests (snd (SetZero_body c rq s)) = requests (snd s) @ sent (SetZero_decide c rq)"
  by (cases s)
     (auto simp: SetZero_body_def SetZero_decide_def Patch_eq
                 say_def observe_def Let_def split: option.splits prod.splits)

lemma SetZero_body_outcomes:
  "outcomes (snd (SetZero_body c rq s)) =
     outcomes (snd s) @ [(Namespace rq, Name rq, outcome_of (client c) (SetZero_decide c rq))]"
  by (cases s)
     (auto simp: SetZero_body_def SetZero_decide_def Patch_eq
                 say_def observe_def Let_def split: option.splits prod.splits)

lemma SetZero_body_quotas:
  "quotas (snd (SetZero_body c rq s)) =
     replay (filter (\<lambda>r. Patch_error (client c) r = None) (sent (SetZero_decide c rq)))
       (quotas (snd s))"
  by (cases s)
     (auto simp: SetZero_body_def SetZero_decide_def Patch_eq
                 say_def observe_def Let_def split: option.splits prod.splits)

lemma Restricted_body_fst:
  "fst (Restricted_body c rq s) = fst s @ failure_of (client' c) (Restricted_decide c rq)"
  by (cases s)
     (auto simp: Restricted_body_def Restricted_decide_def Patch_eq
                 say_def observe_def Let_def split: option.splits prod.splits)

lemma Restricted_body_requests:
  "requests (snd (Restricted_body c rq s)) = requests (snd s) @ sent (Restricted_decide c rq)"
  by (cases s)
     (auto simp: Restricted_body_def Restricted_decide_def Patch_eq
                 say_def observe_def Let_def split: option.splits prod.splits)

lemma Restricted_body_outcomes:
  "outcomes (snd (Restricted_body c rq s)) =
     outcomes (snd s) @ [(Namespace rq, Name rq, outcome_of (client' c) (Restricted_decide c rq))]"
  by (cases s)
     (auto simp: Restricted_body_def Restricted_decide_def Patch_eq
                 say_def observe_def Let_def split: option.splits prod.splits)

lemma Restricted_body_quotas:
  "quotas (snd (Restricted_body c rq s)) =
     replay (filter (\<lambda>r. Patch_error (client' c) r = None) (sent (Restricted_decide c rq)))
       (quotas (snd s))"
  by (cases s)
     (auto simp: Restricted_body_def Restricted_decide_def Patch_eq
                 say_def observe_def Let_def split: option.splits prod.splits)

subsection \<open>The loops as folds\<close>

lemma replay_append: "replay (rs @ rs') qs = replay rs' (replay rs qs)"
  by (induction rs arbitrary: qs) auto

text \<open>
  A loop is the left fold of its body. Whatever the body, if it appends its own failures,
  requests and outcome and replays its successful request, the loop does so for the whole
  listing, in order: nothing an earlier object meets changes what a later one gets.
\<close>

lemma batch_fst:
  assumes "\<And>rq s. fst (body rq s) = fst s @ failure_of cl (d rq)"
  shows "fst (foldl (\<lambda>s rq. body rq s) s Items) =
           fst s @ concat (map (\<lambda>rq. failure_of cl (d rq)) Items)"
  by (induction Items arbitrary: s) (simp_all add: assms)

lemma batch_requests:
  assumes "\<And>rq s. requests (snd (body rq s)) = requests (snd s) @ sent (d rq)"
  shows "requests (snd (foldl (\<lambda>s rq. body rq s) s Items)) =
           requests (snd s) @ concat (map (\<lambda>rq. sent (d rq)) Items)"
  by (induction Items arbitrary: s) (simp_all add: assms)

lemma batch_outcomes:
  assumes "\<And>rq s. outcomes (snd (body rq s)) =
                     outcomes (snd s) @ [(Namespace rq, Name rq, outcome_of cl (d rq))]"
  shows "outcomes (snd (foldl (\<lambda>s rq. body rq s) s Items)) =
           outcomes (snd s) @ map (\<lambda>rq. (Namespace rq, Name rq, outcome_of cl (d rq))) Items"
  by (induction Items arbitrary: s) (simp_all add: assms)

lemma batch_quotas:
  assumes "\<And>rq s. quotas (snd (body rq s)) =
                     replay (filter (\<lambda>r. Patch_error cl r = None) (sent (d rq))) (quotas (snd s))"
  shows "quotas (snd (foldl (\<lambda>s rq. body rq s) s Items)) =
           replay (filter (\<lambda>r. Patch_error cl r = None) (concat (map (\<lambda>rq. sent (d rq)) Items)))
             (quotas (snd s))"
  by (induction Items arbitrary: s) (simp_all add: assms replay_append)

lemma Migrate_loop_foldl: "Migrate_loop c Items s = foldl (\<lambda>s rq. Migrate_body c rq s) s Items"
  by (induction Items arbitrary: s) simp_all

lemma SetZero_loop_foldl: "SetZero_loop c Items s = foldl (\<lambda>s rq. SetZero_body c rq s) s Items"
  by (induction Items arbitrary: s) simp_all

lemma Restricted_loop_foldl:
  "Restricted_loop c Items s = foldl (\<lambda>s rq. Restricted_body c rq s) s Items"
  by (induction Items arbitrary: s) simp_all

lemma Migrate_loop_fst:
  "fst (Migrate_loop c Items s) =
     fst s @ concat (map (\<lambda>rq. failure_of (client c) (Migrate_decide c rq)) Items)"
  unfolding Migrate_loop_foldl by (rule batch_fst) (rule Migrate_body_fst)

lemma Migrate_loop_requests:
  "requests (snd (Migrate_loop c Items s)) =
     requests (snd s) @ concat (map (\<lambda>rq. sent (Migrate_decide c rq)) Items)"
  unfolding Migrate_loop_foldl by (rule batch_requests) (rule Migrate_body_requests)

lemma Migrate_loop_outcomes:
  "outcomes (snd (Migrate_loop c Items s)) =
     outcomes (snd s) @
     map (\<lambda>rq. (Namespace rq, Name rq, outcome_of (client c) (Migrate_decide c rq))) Items"
  unfolding Migrate_loop_foldl by (rule batch_outcomes) (rule Migrate_body_outcomes)

lemma Migrate_loop_quotas:
  "quotas (snd (Migrate_loop c Items s)) =
     replay (filter (\<lambda>r. Patch_error (client c) r = None)
               (concat (map (\<lambda>rq. sent (Migrate_decide c rq)) Items))) (quotas (snd s))"
  unfolding Migrate_loop_foldl by (rule batch_quotas) (rule Migrate_body_quotas)

lemma SetZero_loop_fst:
  "fst (SetZero_loop c Items s) =
     fst s @ concat (map (\<lambda>rq. failure_of (client c) (SetZero_decide c rq)) Items)"
  unfolding SetZero_loop_foldl by (rule batch_fst) (rule SetZero_body_fst)

lemma SetZero_loop_requests:
  "requests (snd (SetZero_loop c Items s)) =
     requests (snd s) @ concat (map (\<lambda>rq. sent (SetZero_decide c rq)) Items)"
  unfolding SetZero_loop_foldl by (rule batch_requests) (rule SetZero_body_requests)

lemma SetZero_loop_outcomes:
  "outcomes (snd (SetZero_loop c Items s)) =
     outcomes (snd s) @
     map (\<lambda>rq. (Namespace rq, Name rq, outcome_of (client c) (SetZero_decide c rq))) Items"
  unfolding SetZero_loop_foldl by (rule batch_outcomes) (rule SetZero_body_outcomes)

lemma SetZero_loop_quotas:
  "quotas (snd (SetZero_loop c Items s)) =
     replay (filter (\<lambda>r. Patch_error (client c) r = None)
               (concat (map (\<lambda>rq. sent (SetZero_decide c rq)) Items))) (quotas (snd s))"
  unfolding SetZero_loop_foldl by (rule batch_quotas) (rule SetZero_body_quotas)

lemma Restricted_loop_fst:
  "fst (Restricted_loop c Items s) =
     fst s @ concat (map (\<lambda>rq. failure_of (client' c) (Restricted_decide c rq)) Items)"
  unfolding Restricted_loop_foldl by (rule batch_fst) (rule Restricted_body_fst)

lemma Restricted_loop_requests:
  "requests (snd (Restricted_loop c Items s)) =
     requests (snd s) @ concat (map (\<lambda>rq. sent (Restricted_decide c rq)) Items)"
  unfolding Restricted_loop_foldl by (rule batch_requests) (rule Restricted_body_requests)

lemma Restricted_loop_outcomes:
  "outcomes (snd (Restricted_loop c Items s)) =
     outcomes (snd s) @
     map (\<lambda>rq. (Namespace rq, Name rq, outcome_of (client' c) (Restricted_decide c rq))) Items"
  unfolding Restricted_loop_foldl by (rule batch_outcomes) (rule Restricted_body_outcomes)

lemma Restricted_loop_quotas:
  "quotas (snd (Restricted_loop c Items s)) =
     replay (filter (\<lambda>r. Patch_error (client' c) r = None)
               (concat (map (\<lambda>rq. sent (Restricted_decide c rq)) Items))) (quotas (snd s))"
  unfolding Restricted_loop_foldl by (rule batch_quotas) (rule Restricted_body_quotas)

subsection \<open>The aggregate\<close>

lemma NewAggregate_None: "(NewAggregate es = None) = (es = [])"
  by (cases es) simp_all

lemma failures_map_filter:
  "concat (map (\<lambda>rq. failure_of cl (d rq)) Items) =
     List.map_filter (Patch_error cl) (concat (map (\<lambda>rq. sent (d rq)) Items))"
proof (induction Items)
  case Nil
  show ?case by (simp add: List.map_filter_simps)
next
  case (Cons rq Items)
  show ?case
  proof (cases "d rq")
    case (Inl reason)
    with Cons show ?thesis by simp
  next
    case (Inr r)
    with Cons show ?thesis
      by (cases "Patch_error cl r") (simp_all add: List.map_filter_simps)
  qed
qed

lemma failures_outcomes:
  "(concat (map (\<lambda>rq. failure_of cl (d rq)) Items) \<noteq> []) =
     (\<exists>x \<in> set (map (\<lambda>rq. (Namespace rq, Name rq, outcome_of cl (d rq))) Items).
        \<exists>e. snd (snd x) = Failed e)"
proof (induction Items)
  case Nil
  show ?case by simp
next
  case (Cons rq Items)
  show ?case
  proof (cases "d rq")
    case (Inl reason)
    with Cons show ?thesis by simp
  next
    case (Inr r)
    with Cons show ?thesis
      by (cases "Patch_error cl r") simp_all
  qed
qed

lemma map_filter_nonempty:
  "(List.map_filter f xs \<noteq> []) = (\<exists>x \<in> set xs. f x \<noteq> None)"
  by (induction xs) (auto simp: List.map_filter_simps split: option.splits)

subsection \<open>The batch functions\<close>

lemma Migrate_run:
  assumes "ResourceQuotas_List (client c) (namespace c) w = Inr Items" and "Items \<noteq> []"
  shows "MigrateStorageclassQuota c w =
           (NewAggregate (fst (Migrate_loop c Items ([], w))), snd (Migrate_loop c Items ([], w)))"
  using assms by (simp add: MigrateStorageclassQuota_def split: prod.splits)

lemma SetZero_run:
  assumes "ResourceQuotas_List (client c) (namespace c) w = Inr Items" and "Items \<noteq> []"
  shows "SetStorageclassQuotaToZero c w =
           (NewAggregate (fst (SetZero_loop c Items ([], w))), snd (SetZero_loop c Items ([], w)))"
  using assms by (simp add: SetStorageclassQuotaToZero_def split: prod.splits)

lemma Restricted_run:
  assumes "ResourceQuotas_List (client' c) (namespace' c) w = Inr Items" and "Items \<noteq> []"
  shows "PatchStorageclassRestricted c w =
           (NewAggregate (fst (Restricted_loop c Items ([], w))), snd (Restricted_loop c Items ([], w)))"
  using assms by (simp add: PatchStorageclassRestricted_def split: prod.splits)

lemma Migrate_run_facts:
  assumes "ResourceQuotas_List (client c) (namespace c) w = Inr Items" and "Items \<noteq> []"
  shows "fst (MigrateStorageclassQuota c w) =
           NewAggregate (concat (map (\<lambda>rq. failure_of (client c) (Migrate_decide c rq)) Items))"
    and "new_requests w (snd (MigrateStorageclassQuota c w)) =
           concat (map (\<lambda>rq. sent (Migrate_decide c rq)) Items)"
    and "new_outcomes w (snd (MigrateStorageclassQuota c w)) =
           map (\<lambda>rq. (Namespace rq, Name rq, outcome_of (client c) (Migrate_decide c rq))) Items"
    and "quotas (snd (MigrateStorageclassQuota c w)) =
           replay (filter (\<lambda>r. Patch_error (client c) r = None)
                     (concat (map (\<lambda>rq. sent (Migrate_decide c rq)) Items))) (quotas w)"
  by (simp_all add: Migrate_run [OF assms] Migrate_loop_fst Migrate_loop_requests
        Migrate_loop_outcomes Migrate_loop_quotas new_requests_def new_outcomes_def)

lemma SetZero_run_facts:
  assumes "ResourceQuotas_List (client c) (namespace c) w = Inr Items" and "Items \<noteq> []"
  shows "fst (SetStorageclassQuotaToZero c w) =
           NewAggregate (concat (map (\<lambda>rq. failure_of (client c) (SetZero_decide c rq)) Items))"
    and "new_requests w (snd (SetStorageclassQuotaToZero c w)) =
           concat (map (\<lambda>rq. sent (SetZero_decide c rq)) Items)"
    and "new_outcomes w (snd (SetStorageclassQuotaToZero c w)) =
           map (\<lambda>rq. (Namespace rq, Name rq, outcome_of (client c) (SetZero_decide c rq))) Items"
    and "quotas (snd (SetStorageclassQuotaToZero c w)) =
           replay (filter (\<lambda>r. Patch_error (client c) r = None)
                     (concat (map (\<lambda>rq. sent (SetZero_decide c rq)) Items))) (quotas w)"
  by (simp_all add: SetZero_run [OF assms] SetZero_loop_fst SetZero_loop_requests
        SetZero_loop_outcomes SetZero_loop_quotas new_requests_def new_outcomes_def)

lemma Restricted_run_facts:
  assumes "ResourceQuotas_List (client' c) (namespace' c) w = Inr Items" and "Items \<noteq> []"
  shows "fst (PatchStorageclassRestricted c w) =
           NewAggregate (concat (map (\<lambda>rq. failure_of (client' c) (Restricted_decide c rq)) Items))"
    and "new_requests w (snd (PatchStorageclassRestricted c w)) =
           concat (map (\<lambda>rq. sent (Restricted_decide c rq)) Items)"
    and "new_outcomes w (snd (PatchStorageclassRestricted c w)) =
           map (\<lambda>rq. (Namespace rq, Name rq, outcome_of (client' c) (Restricted_decide c rq))) Items"
    and "quotas (snd (PatchStorageclassRestricted c w)) =
           replay (filter (\<lambda>r. Patch_error (client' c) r = None)
                     (concat (map (\<lambda>rq. sent (Restricted_decide c rq)) Items))) (quotas w)"
  by (simp_all add: Restricted_run [OF assms] Restricted_loop_fst Restricted_loop_requests
        Restricted_loop_outcomes Restricted_loop_quotas new_requests_def new_outcomes_def)

lemma listing_all:
  "List_error cl NamespaceAll = None \<Longrightarrow> ResourceQuotas_List cl NamespaceAll (world_of qs) = Inr qs"
  by (simp add: ResourceQuotas_List_def world_of_def)

lemma aggregate_iff_requests:
  "(NewAggregate (concat (map (\<lambda>rq. failure_of cl (d rq)) Items)) \<noteq> None) =
     (\<exists>r \<in> set (concat (map (\<lambda>rq. sent (d rq)) Items)). Patch_error cl r \<noteq> None)"
  by (simp only: NewAggregate_None failures_map_filter map_filter_nonempty)

lemma aggregate_iff_outcomes:
  "(NewAggregate (concat (map (\<lambda>rq. failure_of cl (d rq)) Items)) \<noteq> None) =
     (\<exists>x \<in> set (map (\<lambda>rq. (Namespace rq, Name rq, outcome_of cl (d rq))) Items).
        \<exists>e. snd (snd x) = Failed e)"
  by (simp only: NewAggregate_None failures_outcomes)

subsection \<open>Reading the templates\<close>

text \<open>
  Inside a string the scanner passes over a plain text without leaving the string. So the
  four templates, filled with plain arguments, are read as the members their authors meant.
\<close>

lemma scan_plain: "plain s \<Longrightarrow> scan (InStr acc) (s @ cs) = scan (InStr (rev s @ acc)) cs"
  by (induction s arbitrary: acc) (simp_all add: plain_def)

lemma plain_append [simp]: "plain (s @ t) = (plain s \<and> plain t)"
  by (simp add: plain_def)

lemma decode_Migrate:
  assumes "plain a" "plain b" "plain c"
  shows "decode (patchMigrateTemplate a b c) =
           Some [(a @ ''.storageclass.storage.k8s.io/requests.storage'', Some b),
                 (c @ ''.storageclass.storage.k8s.io/requests.storage'', Some ''0'')]"
  using assms by (simp add: decode_def patchMigrateTemplate_def scan_plain)

lemma decode_SetZero:
  assumes "plain a"
  shows "decode (patchSetZeroTemplate a) =
           Some [(a @ ''.storageclass.storage.k8s.io/requests.storage'', Some ''0'')]"
  using assms by (simp add: decode_def patchSetZeroTemplate_def scan_plain)

lemma decode_Add:
  assumes "plain a" "plain b"
  shows "decode (patchAddTemplate a b) =
           Some [(a @ ''.storageclass.storage.k8s.io/requests.storage'', Some b)]"
  using assms by (simp add: decode_def patchAddTemplate_def scan_plain)

lemma decode_Delete:
  assumes "plain a"
  shows "decode (patchDeleteTemplate a) =
           Some [(a @ ''.storageclass.storage.k8s.io/requests.storage'', None)]"
  using assms by (simp add: decode_def patchDeleteTemplate_def scan_plain)

text \<open>
  An argument with a double quote in it ends the string it is put in. Here the old storage
  class's name closes its key early, and the text sets \<open>requests.storage\<close> as well.
\<close>

lemma decode_Migrate_quoted:
  "decode (patchMigrateTemplate ''requests.storage\": \"1\", \"x'' ''50G'' ''fast'') =
     Some [(''requests.storage'', Some ''1''),
           (''x.storageclass.storage.k8s.io/requests.storage'', Some ''50G''),
           (''fast.storageclass.storage.k8s.io/requests.storage'', Some ''0'')]"
  by (simp add: decode_def patchMigrateTemplate_def)

subsection \<open>Keys and merges\<close>

lemma scoped_key_not_generic:
  "a @ ''.storageclass.storage.k8s.io/requests.storage'' \<noteq> ''requests.storage''"
proof
  assume "a @ ''.storageclass.storage.k8s.io/requests.storage'' = ''requests.storage''"
  then have "length (a @ ''.storageclass.storage.k8s.io/requests.storage'') = length ''requests.storage''"
    by (rule arg_cong)
  then show False by simp
qed

lemma merge_hard_other: "k \<notin> fst ` set p \<Longrightarrow> merge_hard p h k = h k"
  by (induction p h rule: merge_hard.induct) auto

lemma merge_body_read: "merge_body text h = merge_hard (read_patch text) h"
  by (simp add: merge_body_def read_patch_def split: option.splits)

lemma apply_request_other:
  "k \<notin> fst ` set (read_patch (req_patch r)) \<Longrightarrow> Hard (apply_request r rq) k = Hard rq k"
  by (simp add: apply_request_def merge_body_read merge_hard_other)

lemma apply_request_id [simp]:
  "Namespace (apply_request r rq) = Namespace rq" "Name (apply_request r rq) = Name rq"
  by (simp_all add: apply_request_def)

lemma generic_not_scoped:
  "''requests.storage'' \<noteq> a @ ''.storageclass.storage.k8s.io/requests.storage''"
  using scoped_key_not_generic [of a] by (rule not_sym)

lemma Migrate_patch_keys:
  "plain a \<Longrightarrow> plain b \<Longrightarrow> plain c \<Longrightarrow>
   ''requests.storage'' \<notin> fst ` set (read_patch (patchMigrateTemplate a b c))"
  by (simp only: read_patch_def decode_Migrate option.case list.set image_insert image_empty
        fst_conv insert_iff empty_iff generic_not_scoped simp_thms not_False_eq_True)

subsection \<open>The bootstrap and main\<close>

lemma exitI: "is_Exit e \<Longrightarrow> \<exists>e'. is_Exit e' \<and> say e w = say e' w"
  by blast

lemma Check_Inl:
  "CheckIfStorageclassExist c w = Inl w1 \<Longrightarrow> \<exists>e. is_Exit e \<and> w1 = say e w"
  by (auto simp: CheckIfStorageclassExist_def intro!: exitI split: option.splits if_splits)

lemma Check_Inr:
  "CheckIfStorageclassExist c w = Inr w1 \<Longrightarrow>
     w1 = say (if mode c = ''migrate''
               then Infof ''both storageclasses validated: %s (old) -> %s (new)''
                      [Str (oldStorageclass c), Str (newStorageclass c)]
               else Infof ''target storageclass validated: %s'' [Str (newStorageclass c)]) w"
  by (auto simp: CheckIfStorageclassExist_def split: option.splits if_splits)

lemma Check_fails:
  "(mode c = ''migrate'' \<and> StorageClasses_Get (client c) (oldStorageclass c) \<noteq> None) \<or>
   StorageClasses_Get (client c) (newStorageclass c) \<noteq> None \<Longrightarrow>
   \<exists>w1. CheckIfStorageclassExist c w = Inl w1"
  by (auto simp: CheckIfStorageclassExist_def split: option.splits if_splits)

lemma NewConfig_Inl:
  "NewConfig fl ev w = Inl w1 \<Longrightarrow> \<exists>e. is_Exit e \<and> w1 = say e w"
  by (auto simp: NewConfig_def Let_def intro!: exitI dest: Check_Inl
           split: option.splits sum.splits if_splits)

lemma NewConfig_Inr:
  assumes "NewConfig fl ev w = Inr (c, w1)"
  shows "mode c = ''migrate'' \<or> mode c = ''set-zero''"
    and "mode c = ''migrate'' \<Longrightarrow> oldStorageclass c \<noteq> newStorageclass c"
    and "w1 = say (if mode c = ''migrate''
               then Infof ''both storageclasses validated: %s (old) -> %s (new)''
                      [Str (oldStorageclass c), Str (newStorageclass c)]
               else Infof ''target storageclass validated: %s'' [Str (newStorageclass c)]) w"
  using assms
  by (auto simp: NewConfig_def Let_def dest: Check_Inr split: option.splits sum.splits if_splits)

lemma NewConfig_fatal:
  assumes "(mode_flag fl = ''migrate'' \<and> old_storageclass fl = '''') \<or>
           ((mode_flag fl = ''migrate'' \<or> mode_flag fl = ''set-zero'') \<and> new_storageclass fl = '''') \<or>
           BuildConfigFromFlags ev \<noteq> None \<or>
           (\<exists>err. NewForConfig ev = Inl err) \<or>
           (\<exists>cl. NewForConfig ev = Inr cl \<and>
              ((mode_flag fl = ''migrate'' \<and> StorageClasses_Get cl (old_storageclass fl) \<noteq> None) \<or>
               StorageClasses_Get cl (new_storageclass fl) \<noteq> None))"
  shows "\<exists>w1. NewConfig fl ev w = Inl w1"
proof (cases "NewConfig fl ev w")
  case (Inl w1)
  then show ?thesis by blast
next
  case (Inr p)
  obtain c w1 where p: "p = (c, w1)" by (cases p)
  from Inr p have b: "BuildConfigFromFlags ev = None"
    and v: "\<not> (mode_flag fl = ''migrate'' \<and> old_storageclass fl = '''')"
           "\<not> ((mode_flag fl = ''migrate'' \<or> mode_flag fl = ''set-zero'') \<and> new_storageclass fl = '''')"
    by (auto simp: NewConfig_def Let_def split: option.splits sum.splits if_splits)
  from Inr p obtain cl where cl: "NewForConfig ev = Inr cl"
    by (auto simp: NewConfig_def Let_def split: option.splits sum.splits if_splits)
  from Inr p b cl have c: "client c = cl" "oldStorageclass c = old_storageclass fl"
      "newStorageclass c = new_storageclass fl" "mode c = mode_flag fl"
      and k: "\<exists>w'. CheckIfStorageclassExist c w = Inr w'"
    by (auto simp: NewConfig_def Let_def split: option.splits sum.splits if_splits)
  from assms b v cl have
    "(mode c = ''migrate'' \<and> StorageClasses_Get (client c) (oldStorageclass c) \<noteq> None) \<or>
     StorageClasses_Get (client c) (newStorageclass c) \<noteq> None"
    by (auto simp: c)
  from Check_fails [OF this, of w] k show ?thesis by auto
qed

lemma Check'_Inl:
  "CheckIfStorageclassExist' c w = Inl w1 \<Longrightarrow> \<exists>e. is_Exit e \<and> w1 = say e w"
  by (auto simp: CheckIfStorageclassExist'_def intro!: exitI split: option.splits if_splits)

lemma Check'_Inr: "CheckIfStorageclassExist' c w = Inr w1 \<Longrightarrow> w1 = w"
  by (auto simp: CheckIfStorageclassExist'_def split: option.splits if_splits)

lemma Check'_fails:
  "StorageClasses_Get (client' c) (storageclass c) \<noteq> None \<Longrightarrow>
   \<exists>w1. CheckIfStorageclassExist' c w = Inl w1"
  by (auto simp: CheckIfStorageclassExist'_def split: option.splits if_splits)

lemma NewConfig'_Inl:
  "NewConfig' fl ev w = Inl w1 \<Longrightarrow> \<exists>e. is_Exit e \<and> w1 = say e w"
  by (auto simp: NewConfig'_def ParseSize_def Let_def intro!: exitI dest: Check'_Inl
           split: option.splits sum.splits if_splits)

lemma NewConfig'_Inr:
  assumes "NewConfig' fl ev w = Inr (c, w1)"
  shows "action c = ''add'' \<or> action c = ''remove''" and "w1 = w"
  using assms
  by (auto simp: NewConfig'_def ParseSize_def Let_def dest: Check'_Inr
           split: option.splits sum.splits if_splits)

lemma NewConfig'_fatal:
  assumes "storageclass_flag fl = '''' \<or>
           (\<exists>err. ParseQuantity ev (quota_flag fl) = Inl err) \<or>
           BuildConfigFromFlags ev \<noteq> None \<or>
           (\<exists>err. NewForConfig ev = Inl err) \<or>
           (\<exists>cl. NewForConfig ev = Inr cl \<and> StorageClasses_Get cl (storageclass_flag fl) \<noteq> None)"
  shows "\<exists>w1. NewConfig' fl ev w = Inl w1"
proof (cases "NewConfig' fl ev w")
  case (Inl w1)
  then show ?thesis by blast
next
  case (Inr p)
  obtain c w1 where p: "p = (c, w1)" by (cases p)
  from Inr p have b: "BuildConfigFromFlags ev = None" and v: "storageclass_flag fl \<noteq> ''''"
    and q: "\<exists>q. ParseQuantity ev (quota_flag fl) = Inr q"
    by (auto simp: NewConfig'_def ParseSize_def Let_def split: option.splits sum.splits if_splits)
  from Inr p obtain cl where cl: "NewForConfig ev = Inr cl"
    by (auto simp: NewConfig'_def ParseSize_def Let_def split: option.splits sum.splits if_splits)
  from Inr p b cl have c: "client' c = cl" "storageclass c = storageclass_flag fl"
      and k: "\<exists>w'. CheckIfStorageclassExist' c w = Inr w'"
    by (auto simp: NewConfig'_def ParseSize_def Let_def split: option.splits sum.splits if_splits)
  from assms b v q cl have "StorageClasses_Get (client' c) (storageclass c) \<noteq> None"
    by (auto simp: c)
  from Check'_fails [OF this, of w] k show ?thesis by auto
qed

lemma say_fields [simp]:
  "requests (say e w) = requests w" "quotas (say e w) = quotas w" "outcomes (say e w) = outcomes w"
  "klog (say e w) = klog w @ [e]"
  by (simp_all add: say_def)

lemma main_exit:
  "NewConfig fl ev w = Inl w1 \<Longrightarrow> main fl ev w = (1, w1)"
  by (simp add: main_def)

lemma main'_exit:
  "NewConfig' fl ev w = Inl w1 \<Longrightarrow> main' fl ev w = (1, w1)"
  by (simp add: main'_def)

lemma main_migrate:
  assumes "NewConfig fl ev w = Inr (c, w1)" and "mode c = ''migrate''"
    and "MigrateStorageclassQuota c w1 = (err, w2)"
  shows "main fl ev w =
    (0, say (case err of
               None \<Rightarrow> Infoln ([CHR 0x1B] @ ''[32msuccessfully migrated storageclass quota for all namespaces.''
                                 @ [CHR 0x1B] @ ''[0m'')
             | Some e \<Rightarrow> Infof (''Errors occurred: %v'' @ [CHR 0x0A]) [Err (Aggregate [e])]) w2)"
  using assms by (simp add: main_def split: option.splits)

lemma main_set_zero:
  assumes "NewConfig fl ev w = Inr (c, w1)" and "mode c = ''set-zero''"
    and "SetStorageclassQuotaToZero c w1 = (err, w2)"
  shows "main fl ev w =
    (0, say (case err of
               None \<Rightarrow> Infoln ([CHR 0x1B] @ ''[32msuccessfully set storageclass quota to zero for all namespaces.''
                                 @ [CHR 0x1B] @ ''[0m'')
             | Some e \<Rightarrow> Infof (''Errors occurred: %v'' @ [CHR 0x0A]) [Err (Aggregate [e])]) w2)"
  using assms by (simp add: main_def split: option.splits)

lemma main'_run:
  assumes "NewConfig' fl ev w = Inr (c, w1)"
    and "PatchStorageclassRestricted c w1 = (err, w2)"
  shows "main' fl ev w =
    (0, say (case err of
               None \<Rightarrow> Infoln ([CHR 0x1B] @ ''[32msuccessfully added or removed storageclass restrictions for all namespaces.''
                                 @ [CHR 0x1B] @ ''[0m'')
             | Some e \<Rightarrow> Infof (''Errors occurred: %v'' @ [CHR 0x0A]) [Err (Aggregate [e])]) w2)"
  using assms by (simp add: main'_def split: option.splits)

lemma Migrate_empty:
  "ResourceQuotas_List (client c) (namespace c) w = Inr [] \<Longrightarrow>
   MigrateStorageclassQuota c w = (Some (Errorf ''no ResourceQuota found in namespace/%s'' [namespace c]), w)"
  by (simp add: MigrateStorageclassQuota_def)

lemma SetZero_empty:
  "ResourceQuotas_List (client c) (namespace c) w = Inr [] \<Longrightarrow>
   SetStorageclassQuotaToZero c w = (Some (Errorf ''no ResourceQuota found in namespace/%s'' [namespace c]), w)"
  by (simp add: SetStorageclassQuotaToZero_def)

lemma Restricted_empty:
  "ResourceQuotas_List (client' c) (namespace' c) w = Inr [] \<Longrightarrow>
   PatchStorageclassRestricted c w = (Some (Errorf ''no ResourceQuota found in namespace/%s'' [namespace' c]), w)"
  by (simp add: PatchStorageclassRestricted_def)

lemma NewConfig_example:
  "StorageClasses_Get cl ''slow'' = None \<Longrightarrow> StorageClasses_Get cl ''fast'' = None \<Longrightarrow>
   NewConfig (migrate_flags ''slow'' ''fast'') (env_of cl) w =
     Inr (migrate_cfg cl,
          say (Infof ''both storageclasses validated: %s (old) -> %s (new)'' [Str ''slow'', Str ''fast'']) w)"
  by (simp add: NewConfig_def migrate_flags_def env_of_def migrate_cfg_def CheckIfStorageclassExist_def
        Let_def)

lemma NewConfig'_example:
  "a = ''add'' \<or> a = ''remove'' \<Longrightarrow>
   NewConfig' (restrict_flags a ''50G'') (env_of ok_client) w = Inr (restrict_cfg ok_client a, w)"
  by (auto simp: NewConfig'_def restrict_flags_def env_of_def restrict_cfg_def ParseSize_def
        CheckIfStorageclassExist'_def ok_client_def Let_def)

lemma listing_say [simp]: "ResourceQuotas_List cl ns (say e w) = ResourceQuotas_List cl ns w"
  by (simp add: ResourceQuotas_List_def split: option.splits)

subsection \<open>The requests of a whole run\<close>

lemma Migrate_requests_ex:
  "\<exists>Items. requests (snd (MigrateStorageclassQuota c w)) =
     requests w @ concat (map (\<lambda>rq. sent (Migrate_decide c rq)) Items)"
proof (cases "ResourceQuotas_List (client c) (namespace c) w")
  case (Inl err)
  then have "requests (snd (MigrateStorageclassQuota c w)) = requests w @ concat (map (\<lambda>rq. sent (Migrate_decide c rq)) [])"
    by (simp add: MigrateStorageclassQuota_def)
  then show ?thesis by blast
next
  case (Inr Items)
  have "requests (snd (MigrateStorageclassQuota c w)) =
          requests w @ concat (map (\<lambda>rq. sent (Migrate_decide c rq)) Items)"
  proof (cases "Items = []")
    case True
    with Inr show ?thesis by (simp add: MigrateStorageclassQuota_def)
  next
    case False
    with Inr show ?thesis by (simp add: Migrate_run Migrate_loop_requests)
  qed
  then show ?thesis by blast
qed

lemma SetZero_requests_ex:
  "\<exists>Items. requests (snd (SetStorageclassQuotaToZero c w)) =
     requests w @ concat (map (\<lambda>rq. sent (SetZero_decide c rq)) Items)"
proof (cases "ResourceQuotas_List (client c) (namespace c) w")
  case (Inl err)
  then have "requests (snd (SetStorageclassQuotaToZero c w)) = requests w @ concat (map (\<lambda>rq. sent (SetZero_decide c rq)) [])"
    by (simp add: SetStorageclassQuotaToZero_def)
  then show ?thesis by blast
next
  case (Inr Items)
  have "requests (snd (SetStorageclassQuotaToZero c w)) =
          requests w @ concat (map (\<lambda>rq. sent (SetZero_decide c rq)) Items)"
  proof (cases "Items = []")
    case True
    with Inr show ?thesis by (simp add: SetStorageclassQuotaToZero_def)
  next
    case False
    with Inr show ?thesis by (simp add: SetZero_run SetZero_loop_requests)
  qed
  then show ?thesis by blast
qed

lemma Restricted_requests_ex:
  "\<exists>Items. requests (snd (PatchStorageclassRestricted c w)) =
     requests w @ concat (map (\<lambda>rq. sent (Restricted_decide c rq)) Items)"
proof (cases "ResourceQuotas_List (client' c) (namespace' c) w")
  case (Inl err)
  then have "requests (snd (PatchStorageclassRestricted c w)) = requests w @ concat (map (\<lambda>rq. sent (Restricted_decide c rq)) [])"
    by (simp add: PatchStorageclassRestricted_def)
  then show ?thesis by blast
next
  case (Inr Items)
  have "requests (snd (PatchStorageclassRestricted c w)) =
          requests w @ concat (map (\<lambda>rq. sent (Restricted_decide c rq)) Items)"
  proof (cases "Items = []")
    case True
    with Inr show ?thesis by (simp add: PatchStorageclassRestricted_def)
  next
    case False
    with Inr show ?thesis by (simp add: Restricted_run Restricted_loop_requests)
  qed
  then show ?thesis by blast
qed

lemma template_keys:
  "plain a \<Longrightarrow> plain b \<Longrightarrow> plain d \<Longrightarrow>
   \<exists>p. decode (patchMigrateTemplate a b d) = Some p \<and> distinct (map fst p) = (a \<noteq> d)"
  "plain a \<Longrightarrow> \<exists>p. decode (patchSetZeroTemplate a) = Some p \<and> distinct (map fst p)"
  "plain a \<Longrightarrow> plain b \<Longrightarrow> \<exists>p. decode (patchAddTemplate a b) = Some p \<and> distinct (map fst p)"
  "plain a \<Longrightarrow> \<exists>p. decode (patchDeleteTemplate a) = Some p \<and> distinct (map fst p)"
  by (simp_all add: decode_Migrate decode_SetZero decode_Add decode_Delete)

lemma Migrate_sent_distinct:
  assumes d: "oldStorageclass c \<noteq> newStorageclass c"
    and a: "plain (oldStorageclass c)" and b: "plain (newStorageclass c)"
    and q: "\<forall>rq \<in> set Items. plain_quota rq"
    and r: "r \<in> set (concat (map (\<lambda>rq. sent (Migrate_decide c rq)) Items))"
  shows "\<exists>p. decode (req_patch r) = Some p \<and> distinct (map fst p)"
proof -
  from r obtain rq where i: "rq \<in> set Items" and s: "r \<in> set (sent (Migrate_decide c rq))"
    by auto
  from s obtain v where v: "Hard rq ''requests.storage'' = Some v"
    and e: "r = patch_request rq
      (patchMigrateTemplate (oldStorageclass c) (String v) (newStorageclass c)) ''storageclass-migration''"
    by (auto simp: Migrate_decide_def split: option.splits if_splits)
  from q i v have p: "plain (String v)" by (auto simp: plain_quota_def)
  from e have "req_patch r = patchMigrateTemplate (oldStorageclass c) (String v) (newStorageclass c)"
    by (simp add: patch_request_def)
  with template_keys(1) [OF a p b] d show ?thesis by simp
qed

lemma SetZero_sent_distinct:
  "plain (newStorageclass c) \<Longrightarrow>
   r \<in> set (concat (map (\<lambda>rq. sent (SetZero_decide c rq)) Items)) \<Longrightarrow>
   \<exists>p. decode (req_patch r) = Some p \<and> distinct (map fst p)"
  by (auto simp: SetZero_decide_def patch_request_def decode_SetZero split: option.splits if_splits)

lemma Restricted_sent_distinct:
  "action c = ''add'' \<or> action c = ''remove'' \<Longrightarrow>
   plain (storageclass c) \<Longrightarrow> plain (size' c) \<Longrightarrow>
   r \<in> set (concat (map (\<lambda>rq. sent (Restricted_decide c rq)) Items)) \<Longrightarrow>
   \<exists>p. decode (req_patch r) = Some p \<and> distinct (map fst p)"
  by (auto simp: Restricted_decide_def patch_request_def decode_Add decode_Delete
           split: option.splits if_splits)

lemma listing_subset:
  "ResourceQuotas_List cl ns w = Inr Items \<Longrightarrow> set Items \<subseteq> set (quotas w)"
  by (auto simp: ResourceQuotas_List_def split: option.splits)

lemma NewConfig_checked:
  assumes "NewConfig fl ev w = Inr (c, w1)"
  shows "NewForConfig ev = Inr (client c)"
    and "StorageClasses_Get (client c) (newStorageclass c) = None"
    and "mode c = ''migrate'' \<Longrightarrow> StorageClasses_Get (client c) (oldStorageclass c) = None"
  using assms
  by (auto simp: NewConfig_def CheckIfStorageclassExist_def Let_def
           split: option.splits sum.splits if_splits)

lemma NewConfig'_checked:
  assumes "NewConfig' fl ev w = Inr (c, w1)"
  shows "NewForConfig ev = Inr (client' c)"
    and "StorageClasses_Get (client' c) (storageclass c) = None"
    and "\<exists>q. ParseQuantity ev (quota_flag fl) = Inr q \<and> size' c = String q"
  using assms
  by (auto simp: NewConfig'_def CheckIfStorageclassExist'_def ParseSize_def Let_def
           split: option.splits sum.splits if_splits)

lemma Migrate_requests_items:
  "\<exists>Items. set Items \<subseteq> set (quotas w) \<and>
     requests (snd (MigrateStorageclassQuota c w)) =
       requests w @ concat (map (\<lambda>rq. sent (Migrate_decide c rq)) Items)"
proof (cases "ResourceQuotas_List (client c) (namespace c) w")
  case (Inl err)
  then have "set [] \<subseteq> set (quotas w) \<and> requests (snd (MigrateStorageclassQuota c w)) =
      requests w @ concat (map (\<lambda>rq. sent (Migrate_decide c rq)) [])"
    by (simp add: MigrateStorageclassQuota_def)
  then show ?thesis by blast
next
  case (Inr Items)
  have "requests (snd (MigrateStorageclassQuota c w)) =
          requests w @ concat (map (\<lambda>rq. sent (Migrate_decide c rq)) Items)"
  proof (cases "Items = []")
    case True
    with Inr show ?thesis by (simp add: MigrateStorageclassQuota_def)
  next
    case False
    with Inr show ?thesis by (simp add: Migrate_run Migrate_loop_requests)
  qed
  with listing_subset [OF Inr] show ?thesis by blast
qed

lemma main_new_requests:
  assumes "r \<in> set (new_requests w (snd (main fl ev w)))"
    and names: "\<forall>cl n. NewForConfig ev = Inr cl \<and> StorageClasses_Get cl n = None \<longrightarrow> plain n"
    and stored: "\<forall>rq \<in> set (quotas w). plain_quota rq"
  shows "\<exists>p. decode (req_patch r) = Some p \<and> distinct (map fst p)"
proof (cases "NewConfig fl ev w")
  case (Inl w1)
  from NewConfig_Inl [OF Inl] obtain e where "w1 = say e w" by blast
  with main_exit [OF Inl] assms show ?thesis by (simp add: new_requests_def)
next
  case (Inr p)
  obtain c w1 where p: "p = (c, w1)" by (cases p)
  with Inr have n: "NewConfig fl ev w = Inr (c, w1)" by simp
  have w1: "requests w1 = requests w" by (subst NewConfig_Inr(3) [OF n]) simp
  have q1: "quotas w1 = quotas w" by (subst NewConfig_Inr(3) [OF n]) simp
  from names NewConfig_checked(1,2) [OF n] have pn: "plain (newStorageclass c)" by blast
  from NewConfig_Inr(1) [OF n] show ?thesis
  proof
    assume m: "mode c = ''migrate''"
    from names NewConfig_checked(1) [OF n] NewConfig_checked(3) [OF n m]
    have po: "plain (oldStorageclass c)" by blast
    obtain Items where s: "set Items \<subseteq> set (quotas w1)"
      and i: "requests (snd (MigrateStorageclassQuota c w1)) =
        requests w1 @ concat (map (\<lambda>rq. sent (Migrate_decide c rq)) Items)"
      using Migrate_requests_items by blast
    from s q1 stored have pq: "\<forall>rq \<in> set Items. plain_quota rq" by auto
    from main_migrate [OF n m, of "fst (MigrateStorageclassQuota c w1)" "snd (MigrateStorageclassQuota c w1)"]
    have "requests (snd (main fl ev w)) = requests (snd (MigrateStorageclassQuota c w1))" by simp
    with assms i w1 have "r \<in> set (concat (map (\<lambda>rq. sent (Migrate_decide c rq)) Items))"
      by (simp add: new_requests_def)
    with NewConfig_Inr(2) [OF n m] po pn pq show ?thesis by (rule Migrate_sent_distinct)
  next
    assume m: "mode c = ''set-zero''"
    obtain Items where i: "requests (snd (SetStorageclassQuotaToZero c w1)) =
        requests w1 @ concat (map (\<lambda>rq. sent (SetZero_decide c rq)) Items)"
      using SetZero_requests_ex by blast
    from main_set_zero [OF n m, of "fst (SetStorageclassQuotaToZero c w1)" "snd (SetStorageclassQuotaToZero c w1)"]
    have "requests (snd (main fl ev w)) = requests (snd (SetStorageclassQuotaToZero c w1))" by simp
    with assms i w1 have "r \<in> set (concat (map (\<lambda>rq. sent (SetZero_decide c rq)) Items))"
      by (simp add: new_requests_def)
    with pn show ?thesis by (rule SetZero_sent_distinct)
  qed
qed

lemma main'_new_requests:
  assumes "r \<in> set (new_requests w (snd (main' fl ev w)))"
    and names: "\<forall>cl n. NewForConfig ev = Inr cl \<and> StorageClasses_Get cl n = None \<longrightarrow> plain n"
    and sizes: "\<forall>s q. ParseQuantity ev s = Inr q \<longrightarrow> plain (String q)"
  shows "\<exists>p. decode (req_patch r) = Some p \<and> distinct (map fst p)"
proof (cases "NewConfig' fl ev w")
  case (Inl w1)
  from NewConfig'_Inl [OF Inl] obtain e where "w1 = say e w" by blast
  with main'_exit [OF Inl] assms show ?thesis by (simp add: new_requests_def)
next
  case (Inr p)
  obtain c w1 where p: "p = (c, w1)" by (cases p)
  with Inr have n: "NewConfig' fl ev w = Inr (c, w1)" by simp
  have w1: "w1 = w" by (rule NewConfig'_Inr(2) [OF n])
  from names NewConfig'_checked(1,2) [OF n] have pn: "plain (storageclass c)" by blast
  from sizes NewConfig'_checked(3) [OF n] have ps: "plain (size' c)" by auto
  obtain Items where i: "requests (snd (PatchStorageclassRestricted c w1)) =
      requests w1 @ concat (map (\<lambda>rq. sent (Restricted_decide c rq)) Items)"
    using Restricted_requests_ex by blast
  from main'_run [OF n, of "fst (PatchStorageclassRestricted c w1)" "snd (PatchStorageclassRestricted c w1)"]
  have "requests (snd (main' fl ev w)) = requests (snd (PatchStorageclassRestricted c w1))" by simp
  with assms i w1 have "r \<in> set (concat (map (\<lambda>rq. sent (Restricted_decide c rq)) Items))"
    by (simp add: new_requests_def)
  with NewConfig'_Inr(1) [OF n] pn ps show ?thesis by (rule Restricted_sent_distinct)
qed

subsection \<open>Replaying requests on the store\<close>

lemma replay_map: "replay rs qs = map (replay_obj rs) qs"
proof (induction rs arbitrary: qs)
  case Nil
  have "replay_obj [] = (\<lambda>rq. rq)" by (rule ext) simp
  then show ?case by simp
next
  case (Cons r rs)
  then show ?case by (simp add: comp_def)
qed

lemma replay_obj_id [simp]:
  "Namespace (replay_obj rs rq) = Namespace rq" "Name (replay_obj rs rq) = Name rq"
  by (induction rs arbitrary: rq) simp_all

lemma replay_obj_other:
  "\<forall>r \<in> set rs. k \<notin> fst ` set (read_patch (req_patch r)) \<Longrightarrow>
   Hard (replay_obj rs rq) k = Hard rq k"
  by (induction rs arbitrary: rq) (simp_all add: apply_request_other)

lemma listing_in_scope:
  "List_error cl ns = None \<Longrightarrow> ResourceQuotas_List cl ns w = Inr (in_scope ns (quotas w))"
  by (simp add: ResourceQuotas_List_def in_scope_def)

lemma in_scope_replay:
  "in_scope ns (replay rs qs) = map (replay_obj rs) (in_scope ns qs)"
  by (simp add: replay_map in_scope_def filter_map comp_def)

lemma merge_hard_single: "merge_hard [(k, v)] h = h(k := map_option Quantity v)"
  by (cases v) simp_all

lemma replay_obj_single:
  "\<forall>r \<in> set rs. decode (req_patch r) = Some [(k, v)] \<Longrightarrow>
   Hard (replay_obj rs rq) k =
     (if \<exists>r \<in> set rs. Namespace rq = req_namespace r \<and> Name rq = req_name r
      then map_option Quantity v else Hard rq k)"
proof (induction rs arbitrary: rq)
  case Nil
  show ?case by simp
next
  case (Cons r rs)
  then have p: "decode (req_patch r) = Some [(k, v)]"
    and a: "\<forall>r \<in> set rs. decode (req_patch r) = Some [(k, v)]"
    by simp_all
  have h: "Hard (apply_request r rq) k =
      (if Namespace rq = req_namespace r \<and> Name rq = req_name r then map_option Quantity v else Hard rq k)"
    by (simp add: apply_request_def merge_body_def p merge_hard_single)
  show ?case
    by (auto simp: Cons.IH [OF a] h)
qed

lemma all_succeed:
  "\<forall>r. Patch_error cl r = None \<Longrightarrow> filter (\<lambda>r. Patch_error cl r = None) rs = rs"
  by simp

lemma sent_all_Inr:
  "\<forall>rq \<in> set Items. d rq = Inr (f rq) \<Longrightarrow> concat (map (\<lambda>rq. sent (d rq)) Items) = map f Items"
  by (induction Items) simp_all

lemma sent_all_Inl:
  "\<forall>rq \<in> set Items. d rq = Inl (g rq) \<Longrightarrow> concat (map (\<lambda>rq. sent (d rq)) Items) = []"
  by (induction Items) simp_all

lemma failures_none:
  "\<forall>r. Patch_error cl r = None \<Longrightarrow> concat (map (\<lambda>rq. failure_of cl (d rq)) Items) = []"
proof (induction Items)
  case Nil
  show ?case by simp
next
  case (Cons rq Items)
  then show ?case by (cases "d rq") simp_all
qed

lemma outcomes_all_Inr:
  "\<forall>r. Patch_error cl r = None \<Longrightarrow> \<forall>rq \<in> set Items. d rq = Inr (f rq) \<Longrightarrow>
   map (\<lambda>rq. (Namespace rq, Name rq, outcome_of cl (d rq))) Items =
   map (\<lambda>rq. (Namespace rq, Name rq, Applied)) Items"
  by (induction Items) simp_all

lemma outcomes_all_Inl:
  "\<forall>rq \<in> set Items. d rq = Inl reason \<Longrightarrow>
   map (\<lambda>rq. (Namespace rq, Name rq, outcome_of cl (d rq))) Items =
   map (\<lambda>rq. (Namespace rq, Name rq, Skipped reason)) Items"
  by (induction Items) simp_all

lemma String_eq: "(String q = s) = (q = Quantity s)"
  by (cases q) auto

lemma SetZero_decide_cases:
  "SetZero_decide c rq =
     (if Hard rq (newStorageclass c @ ''.storageclass.storage.k8s.io/requests.storage'') = Some (Quantity ''0'')
      then Inl ''already zero''
      else Inr (patch_request rq (patchSetZeroTemplate (newStorageclass c)) ''storageclass-quota-zero''))"
  by (auto simp: SetZero_decide_def String_eq split: option.splits)

subsection \<open>Merges are overlays\<close>

lemma overlay_overlay: "overlay d' (overlay d h) = overlay (d ++ d') h"
  by (rule ext) (simp add: overlay_def map_add_def split: option.splits)

lemma overlay_idem: "overlay d (overlay d h) = overlay d h"
  by (rule ext) (simp add: overlay_def split: option.splits)

lemma overlay_empty: "overlay Map.empty h = h"
  by (rule ext) (simp add: overlay_def)

lemma fun_upd_overlay: "h(k := x) = overlay [k \<mapsto> x] h"
  by (rule ext) (simp add: overlay_def)

lemma merge_hard_overlay: "\<exists>d. \<forall>h. merge_hard p h = overlay d h"
proof (induction p)
  case Nil
  have "\<forall>h. merge_hard [] h = overlay Map.empty h" by (simp add: overlay_empty)
  then show ?case by blast
next
  case (Cons a p)
  obtain k v where a: "a = (k, v)" by (cases a)
  from Cons obtain d where d: "\<forall>h. merge_hard p h = overlay d h" by blast
  have "\<forall>h. merge_hard (a # p) h = overlay ([k \<mapsto> map_option Quantity v] ++ d) h"
  proof
    fix h
    have "merge_hard (a # p) h = merge_hard p (h(k := map_option Quantity v))"
      unfolding a by (cases v) simp_all
    also have "\<dots> = overlay d (overlay [k \<mapsto> map_option Quantity v] h)"
      by (simp only: d fun_upd_overlay [symmetric])
    finally show "merge_hard (a # p) h = overlay ([k \<mapsto> map_option Quantity v] ++ d) h"
      by (simp only: overlay_overlay)
  qed
  then show ?case by blast
qed

lemma replay_obj_overlay:
  "\<exists>d. \<forall>rq. Namespace rq = ns \<and> Name rq = n \<longrightarrow>
           replay_obj rs rq = rq\<lparr>Hard := overlay d (Hard rq)\<rparr>"
proof (induction rs)
  case Nil
  have "\<forall>rq. Namespace rq = ns \<and> Name rq = n \<longrightarrow>
           replay_obj [] rq = rq\<lparr>Hard := overlay Map.empty (Hard rq)\<rparr>"
    by (simp add: overlay_empty)
  then show ?case by blast
next
  case (Cons r rs)
  then obtain d where d: "\<forall>rq. Namespace rq = ns \<and> Name rq = n \<longrightarrow>
           replay_obj rs rq = rq\<lparr>Hard := overlay d (Hard rq)\<rparr>" by blast
  obtain dp where dp: "\<forall>h. merge_body (req_patch r) h = overlay dp h"
    unfolding merge_body_read using merge_hard_overlay by blast
  show ?case
  proof (cases "ns = req_namespace r \<and> n = req_name r")
    case True
    have "\<forall>rq. Namespace rq = ns \<and> Name rq = n \<longrightarrow>
           replay_obj (r # rs) rq = rq\<lparr>Hard := overlay (dp ++ d) (Hard rq)\<rparr>"
      using True d by (simp add: apply_request_def dp overlay_overlay)
    then show ?thesis by blast
  next
    case False
    have "\<forall>rq. Namespace rq = ns \<and> Name rq = n \<longrightarrow>
           replay_obj (r # rs) rq = rq\<lparr>Hard := overlay d (Hard rq)\<rparr>"
      using False d by (auto simp: apply_request_def)
    then show ?thesis by blast
  qed
qed

lemma replay_obj_idem: "replay_obj rs (replay_obj rs rq) = replay_obj rs rq"
proof -
  obtain d where d: "\<forall>x. Namespace x = Namespace rq \<and> Name x = Name rq \<longrightarrow>
           replay_obj rs x = x\<lparr>Hard := overlay d (Hard x)\<rparr>"
    using replay_obj_overlay [of "Namespace rq" "Name rq" rs] by blast
  have 1: "replay_obj rs rq = rq\<lparr>Hard := overlay d (Hard rq)\<rparr>" using d by simp
  have "replay_obj rs (rq\<lparr>Hard := overlay d (Hard rq)\<rparr>) =
          rq\<lparr>Hard := overlay d (Hard rq)\<rparr>\<lparr>Hard := overlay d (Hard (rq\<lparr>Hard := overlay d (Hard rq)\<rparr>))\<rparr>"
    using d by simp
  then show ?thesis by (simp add: 1 overlay_idem)
qed

lemma replay_idem: "replay rs (replay rs qs) = replay rs qs"
  by (simp add: replay_map replay_obj_idem)

lemma Migrate_sent_keys:
  assumes a: "plain (oldStorageclass c)" and b: "plain (newStorageclass c)"
    and q: "\<forall>rq \<in> set Items. plain_quota rq"
    and r: "r \<in> set (concat (map (\<lambda>rq. sent (Migrate_decide c rq)) Items))"
  shows "''requests.storage'' \<notin> fst ` set (read_patch (req_patch r))"
proof -
  from r obtain rq where i: "rq \<in> set Items" and s: "r \<in> set (sent (Migrate_decide c rq))"
    by auto
  from s obtain v where v: "Hard rq ''requests.storage'' = Some v"
    and e: "r = patch_request rq
      (patchMigrateTemplate (oldStorageclass c) (String v) (newStorageclass c)) ''storageclass-migration''"
    by (auto simp: Migrate_decide_def split: option.splits if_splits)
  from q i v have p: "plain (String v)" by (auto simp: plain_quota_def)
  from e have "req_patch r = patchMigrateTemplate (oldStorageclass c) (String v) (newStorageclass c)"
    by (simp add: patch_request_def)
  then show ?thesis by (simp only: Migrate_patch_keys [OF a p b] not_False_eq_True)
qed

lemma Migrate_decide_replay:
  assumes "\<forall>r \<in> set rs. ''requests.storage'' \<notin> fst ` set (read_patch (req_patch r))"
  shows "Migrate_decide c (replay_obj rs rq) = Migrate_decide c rq"
  by (simp add: Migrate_decide_def patch_request_def replay_obj_other [OF assms] split: option.splits)

lemma Migrate_outcome_ok:
  "\<forall>r. Patch_error cl r = None \<Longrightarrow>
   outcome_of cl (Migrate_decide c rq) =
     (if \<exists>q. Hard rq ''requests.storage'' = Some q \<and> String q \<noteq> '''' then Applied
      else Skipped ''no existing quota'')"
  by (auto simp: Migrate_decide_def split: option.splits)

section \<open>The properties of the tools\<close>

subsection \<open>Migrate: the patches of a run\<close>

text \<open>
  Claim C1. \<open>MigrateStorageclassQuota\<close> lists the objects in scope once and computes the
  patch of every listed object from the \<open>requests.storage\<close> entry the listing shows for it.
  Let the listing return a non-empty \<open>Items\<close>, let the two storage-class names be plain,
  and let every \<open>requests.storage\<close> quantity in \<open>Items\<close> have a plain serialisation that
  is not empty. Then: an object without the key gets the outcome
  \<open>Skipped ''no existing quota''\<close> and no request; an object whose key holds \<open>v\<close> gets
  exactly one request, for its own namespace and name, whose text is the migrate template
  filled with the old name, \<open>String v\<close> and the new name; the server reads in that text
  exactly two members, the old storage class's key with \<open>String v\<close> and the new storage
  class's key with \<open>"0"\<close>, so it does not mention \<open>requests.storage\<close>; and after the run
  every stored object has the \<open>requests.storage\<close> entry it had before, whichever requests
  the server accepted.
\<close>

theorem Migrate_reads_generic_key:
  "ResourceQuotas_List (client c) (namespace c) w = Inr Items \<and> Items \<noteq> [] \<and>
   plain (oldStorageclass c) \<and> plain (newStorageclass c) \<and>
   (\<forall>rq \<in> set Items. \<forall>v. Hard rq ''requests.storage'' = Some v \<longrightarrow>
      String v \<noteq> '''' \<and> plain (String v)) \<longrightarrow>
   new_requests w (snd (MigrateStorageclassQuota c w)) =
     concat (map (\<lambda>rq. case Hard rq ''requests.storage'' of
                          None \<Rightarrow> []
                        | Some v \<Rightarrow>
                            [\<lparr>req_namespace = Namespace rq, req_name = Name rq,
                              req_patch = patchMigrateTemplate (oldStorageclass c) (String v)
                                            (newStorageclass c),
                              FieldManager = ''storageclass-migration''\<rparr>]) Items) \<and>
   (\<forall>rq \<in> set Items. \<forall>v. Hard rq ''requests.storage'' = Some v \<longrightarrow>
      decode (patchMigrateTemplate (oldStorageclass c) (String v) (newStorageclass c)) =
        Some [(oldStorageclass c @ ''.storageclass.storage.k8s.io/requests.storage'', Some (String v)),
              (newStorageclass c @ ''.storageclass.storage.k8s.io/requests.storage'', Some ''0'')]) \<and>
   new_outcomes w (snd (MigrateStorageclassQuota c w)) =
     map (\<lambda>rq. (Namespace rq, Name rq,
                 case Hard rq ''requests.storage'' of
                   None \<Rightarrow> Skipped ''no existing quota''
                 | Some v \<Rightarrow>
                     (case Patch_error (client c)
                             \<lparr>req_namespace = Namespace rq, req_name = Name rq,
                              req_patch = patchMigrateTemplate (oldStorageclass c) (String v)
                                            (newStorageclass c),
                              FieldManager = ''storageclass-migration''\<rparr> of
                        None \<Rightarrow> Applied
                      | Some e \<Rightarrow> Failed e))) Items \<and>
   map (\<lambda>q. Hard q ''requests.storage'') (quotas (snd (MigrateStorageclassQuota c w))) =
     map (\<lambda>q. Hard q ''requests.storage'') (quotas w)"
proof (intro impI)
  assume h: "ResourceQuotas_List (client c) (namespace c) w = Inr Items \<and> Items \<noteq> [] \<and>
   plain (oldStorageclass c) \<and> plain (newStorageclass c) \<and>
   (\<forall>rq \<in> set Items. \<forall>v. Hard rq ''requests.storage'' = Some v \<longrightarrow>
      String v \<noteq> '''' \<and> plain (String v))"
  then have l: "ResourceQuotas_List (client c) (namespace c) w = Inr Items" and n: "Items \<noteq> []"
    and a: "plain (oldStorageclass c)" and b: "plain (newStorageclass c)"
    and q: "\<forall>rq \<in> set Items. \<forall>v. Hard rq ''requests.storage'' = Some v \<longrightarrow>
              String v \<noteq> '''' \<and> plain (String v)"
    by simp_all
  from q have pq: "\<forall>rq \<in> set Items. plain_quota rq"
    by (auto simp: plain_quota_def split: option.splits)
  have s: "\<And>rq. rq \<in> set Items \<Longrightarrow> sent (Migrate_decide c rq) =
      (case Hard rq ''requests.storage'' of
         None \<Rightarrow> []
       | Some v \<Rightarrow>
           [\<lparr>req_namespace = Namespace rq, req_name = Name rq,
             req_patch = patchMigrateTemplate (oldStorageclass c) (String v) (newStorageclass c),
             FieldManager = ''storageclass-migration''\<rparr>])"
    using q by (auto simp: Migrate_decide_def patch_request_def split: option.splits)
  have o: "\<And>rq. rq \<in> set Items \<Longrightarrow> outcome_of (client c) (Migrate_decide c rq) =
      (case Hard rq ''requests.storage'' of
         None \<Rightarrow> Skipped ''no existing quota''
       | Some v \<Rightarrow>
           (case Patch_error (client c)
                   \<lparr>req_namespace = Namespace rq, req_name = Name rq,
                    req_patch = patchMigrateTemplate (oldStorageclass c) (String v)
                                  (newStorageclass c),
                    FieldManager = ''storageclass-migration''\<rparr> of
              None \<Rightarrow> Applied
            | Some e \<Rightarrow> Failed e))"
    using q by (auto simp: Migrate_decide_def patch_request_def split: option.splits)
  have 1: "new_requests w (snd (MigrateStorageclassQuota c w)) =
     concat (map (\<lambda>rq. case Hard rq ''requests.storage'' of
                          None \<Rightarrow> []
                        | Some v \<Rightarrow>
                            [\<lparr>req_namespace = Namespace rq, req_name = Name rq,
                              req_patch = patchMigrateTemplate (oldStorageclass c) (String v)
                                            (newStorageclass c),
                              FieldManager = ''storageclass-migration''\<rparr>]) Items)"
    unfolding Migrate_run_facts(2) [OF l n]
    by (rule arg_cong [where f = concat], rule map_cong [OF refl]) (rule s)
  have 2: "\<forall>rq \<in> set Items. \<forall>v. Hard rq ''requests.storage'' = Some v \<longrightarrow>
      decode (patchMigrateTemplate (oldStorageclass c) (String v) (newStorageclass c)) =
        Some [(oldStorageclass c @ ''.storageclass.storage.k8s.io/requests.storage'', Some (String v)),
              (newStorageclass c @ ''.storageclass.storage.k8s.io/requests.storage'', Some ''0'')]"
    using q a b by (simp add: decode_Migrate)
  have 3: "new_outcomes w (snd (MigrateStorageclassQuota c w)) =
     map (\<lambda>rq. (Namespace rq, Name rq,
                 case Hard rq ''requests.storage'' of
                   None \<Rightarrow> Skipped ''no existing quota''
                 | Some v \<Rightarrow>
                     (case Patch_error (client c)
                             \<lparr>req_namespace = Namespace rq, req_name = Name rq,
                              req_patch = patchMigrateTemplate (oldStorageclass c) (String v)
                                            (newStorageclass c),
                              FieldManager = ''storageclass-migration''\<rparr> of
                        None \<Rightarrow> Applied
                      | Some e \<Rightarrow> Failed e))) Items"
    unfolding Migrate_run_facts(3) [OF l n]
    by (rule map_cong [OF refl]) (simp only: o)
  let ?rs = "filter (\<lambda>r. Patch_error (client c) r = None)
               (concat (map (\<lambda>rq. sent (Migrate_decide c rq)) Items))"
  have k: "\<forall>r \<in> set ?rs. ''requests.storage'' \<notin> fst ` set (read_patch (req_patch r))"
  proof
    fix r
    assume "r \<in> set ?rs"
    then have "r \<in> set (concat (map (\<lambda>rq. sent (Migrate_decide c rq)) Items))" by simp
    with a b pq show "''requests.storage'' \<notin> fst ` set (read_patch (req_patch r))"
      by (rule Migrate_sent_keys)
  qed
  have 4: "map (\<lambda>q. Hard q ''requests.storage'') (quotas (snd (MigrateStorageclassQuota c w))) =
     map (\<lambda>q. Hard q ''requests.storage'') (quotas w)"
    by (simp add: Migrate_run_facts(4) [OF l n] replay_map comp_def replay_obj_other [OF k])
  from 1 2 3 4 show "new_requests w (snd (MigrateStorageclassQuota c w)) =
     concat (map (\<lambda>rq. case Hard rq ''requests.storage'' of
                          None \<Rightarrow> []
                        | Some v \<Rightarrow>
                            [\<lparr>req_namespace = Namespace rq, req_name = Name rq,
                              req_patch = patchMigrateTemplate (oldStorageclass c) (String v)
                                            (newStorageclass c),
                              FieldManager = ''storageclass-migration''\<rparr>]) Items) \<and>
   (\<forall>rq \<in> set Items. \<forall>v. Hard rq ''requests.storage'' = Some v \<longrightarrow>
      decode (patchMigrateTemplate (oldStorageclass c) (String v) (newStorageclass c)) =
        Some [(oldStorageclass c @ ''.storageclass.storage.k8s.io/requests.storage'', Some (String v)),
              (newStorageclass c @ ''.storageclass.storage.k8s.io/requests.storage'', Some ''0'')]) \<and>
   new_outcomes w (snd (MigrateStorageclassQuota c w)) =
     map (\<lambda>rq. (Namespace rq, Name rq,
                 case Hard rq ''requests.storage'' of
                   None \<Rightarrow> Skipped ''no existing quota''
                 | Some v \<Rightarrow>
                     (case Patch_error (client c)
                             \<lparr>req_namespace = Namespace rq, req_name = Name rq,
                              req_patch = patchMigrateTemplate (oldStorageclass c) (String v)
                                            (newStorageclass c),
                              FieldManager = ''storageclass-migration''\<rparr> of
                        None \<Rightarrow> Applied
                      | Some e \<Rightarrow> Failed e))) Items \<and>
   map (\<lambda>q. Hard q ''requests.storage'') (quotas (snd (MigrateStorageclassQuota c w))) =
     map (\<lambda>q. Hard q ''requests.storage'') (quotas w)"
    by (simp only: simp_thms)
qed

text \<open>
  A run over three listed objects: \<open>rq-a\<close> has the key and its patch is accepted,
  \<open>rq-d\<close> has no \<open>requests.storage\<close> key, and the patch of \<open>rq-b\<close> is refused.
\<close>

theorem Migrate_reads_generic_key_witness:
  "ResourceQuotas_List flaky_client NamespaceAll (world_of [rq_a, rq_bare, rq_b]) =
     Inr [rq_a, rq_bare, rq_b] \<and>
   plain ''slow'' \<and> plain ''fast'' \<and> plain ''50G'' \<and> plain ''20G'' \<and>
   new_requests (world_of [rq_a, rq_bare, rq_b])
     (snd (MigrateStorageclassQuota (migrate_cfg flaky_client) (world_of [rq_a, rq_bare, rq_b]))) =
     [\<lparr>req_namespace = ''team-a'', req_name = ''rq-a'',
       req_patch = patchMigrateTemplate ''slow'' ''50G'' ''fast'',
       FieldManager = ''storageclass-migration''\<rparr>,
      \<lparr>req_namespace = ''team-b'', req_name = ''rq-b'',
       req_patch = patchMigrateTemplate ''slow'' ''20G'' ''fast'',
       FieldManager = ''storageclass-migration''\<rparr>] \<and>
   decode (patchMigrateTemplate ''slow'' ''50G'' ''fast'') =
     Some [(''slow.storageclass.storage.k8s.io/requests.storage'', Some ''50G''),
           (''fast.storageclass.storage.k8s.io/requests.storage'', Some ''0'')] \<and>
   new_outcomes (world_of [rq_a, rq_bare, rq_b])
     (snd (MigrateStorageclassQuota (migrate_cfg flaky_client) (world_of [rq_a, rq_bare, rq_b]))) =
     [(''team-a'', ''rq-a'', Applied), (''team-d'', ''rq-d'', Skipped ''no existing quota''),
      (''team-b'', ''rq-b'', Failed refusal)] \<and>
   map (\<lambda>q. Hard q ''requests.storage'')
     (quotas (snd (MigrateStorageclassQuota (migrate_cfg flaky_client) (world_of [rq_a, rq_bare, rq_b])))) =
     [Some (Quantity ''50G''), None, Some (Quantity ''20G'')]"
proof -
  let ?c = "migrate_cfg flaky_client"
  let ?w = "world_of [rq_a, rq_bare, rq_b]"
  have l: "ResourceQuotas_List flaky_client NamespaceAll ?w = Inr [rq_a, rq_bare, rq_b]"
    by (simp add: ResourceQuotas_List_def flaky_client_def world_of_def NamespaceAll_def)
  have p: "plain ''slow''" "plain ''fast''" "plain ''50G''" "plain ''20G''"
    by (simp_all add: plain_def)
  have q: "\<forall>rq \<in> set [rq_a, rq_bare, rq_b]. \<forall>v. Hard rq ''requests.storage'' = Some v \<longrightarrow>
             String v \<noteq> '''' \<and> plain (String v)"
    by (simp add: rq_a_def rq_bare_def rq_b_def plain_def)
  have h: "ResourceQuotas_List (client ?c) (namespace ?c) ?w = Inr [rq_a, rq_bare, rq_b] \<and>
      [rq_a, rq_bare, rq_b] \<noteq> [] \<and>
      plain (oldStorageclass ?c) \<and> plain (newStorageclass ?c) \<and>
      (\<forall>rq \<in> set [rq_a, rq_bare, rq_b]. \<forall>v. Hard rq ''requests.storage'' = Some v \<longrightarrow>
         String v \<noteq> '''' \<and> plain (String v))"
    using l p q by (simp add: migrate_cfg_def)
  note t = Migrate_reads_generic_key [of ?c ?w "[rq_a, rq_bare, rq_b]", THEN mp, OF h]
  from t have 1: "new_requests ?w (snd (MigrateStorageclassQuota ?c ?w)) =
     [\<lparr>req_namespace = ''team-a'', req_name = ''rq-a'',
       req_patch = patchMigrateTemplate ''slow'' ''50G'' ''fast'',
       FieldManager = ''storageclass-migration''\<rparr>,
      \<lparr>req_namespace = ''team-b'', req_name = ''rq-b'',
       req_patch = patchMigrateTemplate ''slow'' ''20G'' ''fast'',
       FieldManager = ''storageclass-migration''\<rparr>]"
    by (simp add: rq_a_def rq_bare_def rq_b_def migrate_cfg_def)
  have a: "rq_a \<in> set [rq_a, rq_bare, rq_b]" by simp
  have v: "Hard rq_a ''requests.storage'' = Some (Quantity ''50G'')" by (simp add: rq_a_def)
  from t [THEN conjunct2, THEN conjunct1, rule_format, OF a v]
  have 2: "decode (patchMigrateTemplate ''slow'' ''50G'' ''fast'') =
     Some [(''slow.storageclass.storage.k8s.io/requests.storage'', Some ''50G''),
           (''fast.storageclass.storage.k8s.io/requests.storage'', Some ''0'')]"
    by (simp add: migrate_cfg_def)
  from t [THEN conjunct2, THEN conjunct2, THEN conjunct1]
  have 3: "new_outcomes ?w (snd (MigrateStorageclassQuota ?c ?w)) =
     [(''team-a'', ''rq-a'', Applied), (''team-d'', ''rq-d'', Skipped ''no existing quota''),
      (''team-b'', ''rq-b'', Failed refusal)]"
    by (simp add: rq_a_def rq_bare_def rq_b_def migrate_cfg_def flaky_client_def)
  from t [THEN conjunct2, THEN conjunct2, THEN conjunct2]
  have 4: "map (\<lambda>q. Hard q ''requests.storage'') (quotas (snd (MigrateStorageclassQuota ?c ?w))) =
     [Some (Quantity ''50G''), None, Some (Quantity ''20G'')]"
    by (simp add: rq_a_def rq_bare_def rq_b_def world_of_def)
  from l p 1 2 3 4 show ?thesis by (simp only: simp_thms)
qed

subsection \<open>Failure isolation\<close>

text \<open>
  Claim C2. A failed patch request never aborts the batch. Whenever the listing returns a
  non-empty sequence \<open>Items\<close>, each of the three batch functions handles every object of
  \<open>Items\<close> in listing order, whatever the server answered for the objects before it: the
  requests sent are those the objects themselves call for, and one outcome is recorded per
  object (\<open>Failed\<close> exactly when the server refused that object's request, \<open>Applied\<close>
  when it accepted it). The returned aggregate holds the errors the server returned for
  the refused requests, one per refused request and in listing order, and nothing else:
  the batch functions append the error as they got it (\<open>errorList = append(errorList, err)\<close>)
  and put neither the namespace nor the name of the object into it.
\<close>

theorem failure_isolation:
  "(ResourceQuotas_List (client c) (namespace c) w = Inr Items \<and> Items \<noteq> [] \<longrightarrow>
      new_requests w (snd (MigrateStorageclassQuota c w)) =
        concat (map (\<lambda>rq. sent (Migrate_decide c rq)) Items) \<and>
      new_outcomes w (snd (MigrateStorageclassQuota c w)) =
        map (\<lambda>rq. (Namespace rq, Name rq, outcome_of (client c) (Migrate_decide c rq))) Items \<and>
      fst (MigrateStorageclassQuota c w) =
        NewAggregate (List.map_filter (Patch_error (client c))
                        (new_requests w (snd (MigrateStorageclassQuota c w))))) \<and>
   (ResourceQuotas_List (client c) (namespace c) w = Inr Items \<and> Items \<noteq> [] \<longrightarrow>
      new_requests w (snd (SetStorageclassQuotaToZero c w)) =
        concat (map (\<lambda>rq. sent (SetZero_decide c rq)) Items) \<and>
      new_outcomes w (snd (SetStorageclassQuotaToZero c w)) =
        map (\<lambda>rq. (Namespace rq, Name rq, outcome_of (client c) (SetZero_decide c rq))) Items \<and>
      fst (SetStorageclassQuotaToZero c w) =
        NewAggregate (List.map_filter (Patch_error (client c))
                        (new_requests w (snd (SetStorageclassQuotaToZero c w))))) \<and>
   (ResourceQuotas_List (client' c') (namespace' c') w = Inr Items \<and> Items \<noteq> [] \<longrightarrow>
      new_requests w (snd (PatchStorageclassRestricted c' w)) =
        concat (map (\<lambda>rq. sent (Restricted_decide c' rq)) Items) \<and>
      new_outcomes w (snd (PatchStorageclassRestricted c' w)) =
        map (\<lambda>rq. (Namespace rq, Name rq, outcome_of (client' c') (Restricted_decide c' rq))) Items \<and>
      fst (PatchStorageclassRestricted c' w) =
        NewAggregate (List.map_filter (Patch_error (client' c'))
                        (new_requests w (snd (PatchStorageclassRestricted c' w)))))"
  by (simp add: Migrate_run_facts SetZero_run_facts Restricted_run_facts failures_map_filter)

text \<open>
  The spec's example: three objects, the server refuses only the patch of the second. The
  outcomes are Applied, Failed, Applied and the aggregate holds the second object's error
  alone.
\<close>

theorem failure_isolation_witness:
  "ResourceQuotas_List flaky_client NamespaceAll (world_of [rq_a, rq_b, rq_c]) = Inr [rq_a, rq_b, rq_c] \<and>
   map (\<lambda>x. snd (snd x))
     (new_outcomes (world_of [rq_a, rq_b, rq_c])
        (snd (MigrateStorageclassQuota (migrate_cfg flaky_client) (world_of [rq_a, rq_b, rq_c])))) =
     [Applied, Failed refusal, Applied] \<and>
   fst (MigrateStorageclassQuota (migrate_cfg flaky_client) (world_of [rq_a, rq_b, rq_c])) =
     Some (Aggregate [refusal]) \<and>
   map (\<lambda>x. snd (snd x))
     (new_outcomes (world_of [rq_a, rq_b, rq_c])
        (snd (SetStorageclassQuotaToZero (migrate_cfg flaky_client) (world_of [rq_a, rq_b, rq_c])))) =
     [Applied, Failed refusal, Applied] \<and>
   fst (SetStorageclassQuotaToZero (migrate_cfg flaky_client) (world_of [rq_a, rq_b, rq_c])) =
     Some (Aggregate [refusal]) \<and>
   map (\<lambda>x. snd (snd x))
     (new_outcomes (world_of [rq_a, rq_b, rq_c])
        (snd (PatchStorageclassRestricted (restrict_cfg flaky_client ''add'') (world_of [rq_a, rq_b, rq_c])))) =
     [Applied, Failed refusal, Applied] \<and>
   fst (PatchStorageclassRestricted (restrict_cfg flaky_client ''add'') (world_of [rq_a, rq_b, rq_c])) =
     Some (Aggregate [refusal])"
proof -
  have l: "ResourceQuotas_List flaky_client NamespaceAll (world_of [rq_a, rq_b, rq_c]) = Inr [rq_a, rq_b, rq_c]"
    by (simp add: ResourceQuotas_List_def flaky_client_def world_of_def NamespaceAll_def)
  have c: "client (migrate_cfg flaky_client) = flaky_client" "namespace (migrate_cfg flaky_client) = NamespaceAll"
    "client' (restrict_cfg flaky_client ''add'') = flaky_client"
    "namespace' (restrict_cfg flaky_client ''add'') = NamespaceAll"
    by (simp_all add: migrate_cfg_def restrict_cfg_def)
  show ?thesis
    using failure_isolation [of "migrate_cfg flaky_client" "world_of [rq_a, rq_b, rq_c]"
                                "[rq_a, rq_b, rq_c]" "restrict_cfg flaky_client ''add''"] l
    unfolding c
    by (simp add: Migrate_decide_def SetZero_decide_def Restricted_decide_def patch_request_def
          flaky_client_def rq_a_def rq_b_def rq_c_def migrate_cfg_def restrict_cfg_def
          List.map_filter_simps)
qed

text \<open>
  The aggregate does not tell which objects failed. Over the same three objects, a server
  that is unable to handle the patch of the first and a server that is unable to handle
  the patch of the third make \<open>MigrateStorageclassQuota\<close> return the same aggregate,
  while the recorded outcomes differ; and the aggregate returned for the failure of
  \<open>rq-a\<close> in \<open>team-a\<close> mentions neither the name nor the namespace.
\<close>

theorem aggregate_without_identity:
  "fst (MigrateStorageclassQuota (migrate_cfg (refusing ''rq-a'')) (world_of [rq_a, rq_b, rq_c])) =
     Some (Aggregate [unavailable]) \<and>
   fst (MigrateStorageclassQuota (migrate_cfg (refusing ''rq-c'')) (world_of [rq_a, rq_b, rq_c])) =
     Some (Aggregate [unavailable]) \<and>
   new_outcomes (world_of [rq_a, rq_b, rq_c])
     (snd (MigrateStorageclassQuota (migrate_cfg (refusing ''rq-a'')) (world_of [rq_a, rq_b, rq_c]))) =
     [(''team-a'', ''rq-a'', Failed unavailable), (''team-b'', ''rq-b'', Applied),
      (''team-c'', ''rq-c'', Applied)] \<and>
   new_outcomes (world_of [rq_a, rq_b, rq_c])
     (snd (MigrateStorageclassQuota (migrate_cfg (refusing ''rq-c'')) (world_of [rq_a, rq_b, rq_c]))) =
     [(''team-a'', ''rq-a'', Applied), (''team-b'', ''rq-b'', Applied),
      (''team-c'', ''rq-c'', Failed unavailable)] \<and>
   \<not> mentions (Aggregate [unavailable]) ''rq-a'' \<and>
   \<not> mentions (Aggregate [unavailable]) ''team-a''"
proof -
  have l: "\<And>n. ResourceQuotas_List (client (migrate_cfg (refusing n)))
             (namespace (migrate_cfg (refusing n))) (world_of [rq_a, rq_b, rq_c]) =
           Inr [rq_a, rq_b, rq_c]"
    by (simp add: ResourceQuotas_List_def refusing_def world_of_def NamespaceAll_def migrate_cfg_def)
  have ne: "[rq_a, rq_b, rq_c] \<noteq> []" by simp
  note f = Migrate_run_facts(1) [OF l ne] and g = Migrate_run_facts(3) [OF l ne]
  have a: "fst (MigrateStorageclassQuota (migrate_cfg (refusing ''rq-a'')) (world_of [rq_a, rq_b, rq_c])) =
     Some (Aggregate [unavailable])"
    by (simp only: f)
       (simp add: Migrate_decide_def patch_request_def refusing_def rq_a_def rq_b_def rq_c_def
          migrate_cfg_def)
  have b: "fst (MigrateStorageclassQuota (migrate_cfg (refusing ''rq-c'')) (world_of [rq_a, rq_b, rq_c])) =
     Some (Aggregate [unavailable])"
    by (simp only: f)
       (simp add: Migrate_decide_def patch_request_def refusing_def rq_a_def rq_b_def rq_c_def
          migrate_cfg_def)
  have c: "new_outcomes (world_of [rq_a, rq_b, rq_c])
     (snd (MigrateStorageclassQuota (migrate_cfg (refusing ''rq-a'')) (world_of [rq_a, rq_b, rq_c]))) =
     [(''team-a'', ''rq-a'', Failed unavailable), (''team-b'', ''rq-b'', Applied),
      (''team-c'', ''rq-c'', Applied)]"
    by (simp only: g)
       (simp add: Migrate_decide_def patch_request_def refusing_def rq_a_def rq_b_def rq_c_def
          migrate_cfg_def)
  have d: "new_outcomes (world_of [rq_a, rq_b, rq_c])
     (snd (MigrateStorageclassQuota (migrate_cfg (refusing ''rq-c'')) (world_of [rq_a, rq_b, rq_c]))) =
     [(''team-a'', ''rq-a'', Applied), (''team-b'', ''rq-b'', Applied),
      (''team-c'', ''rq-c'', Failed unavailable)]"
    by (simp only: g)
       (simp add: Migrate_decide_def patch_request_def refusing_def rq_a_def rq_b_def rq_c_def
          migrate_cfg_def)
  have m: "\<not> mentions (Aggregate [unavailable]) ''rq-a''"
    "\<not> mentions (Aggregate [unavailable]) ''team-a''"
    by (simp_all add: mentions_def unavailable_def)
  from a b c d m show ?thesis by (simp only: simp_thms)
qed

subsection \<open>Zero initialisation, twice\<close>

text \<open>
  Claim C3. Take a world whose listing succeeds and is not empty, a server that accepts
  every patch, a storage-class name that is plain, and objects that do not yet hold the
  storage-class key with the canonical value \<open>"0"\<close> (the loop's skip test). The first
  run of \<open>SetStorageclassQuotaToZero\<close> records \<open>Applied\<close> for every object and returns
  nil; afterwards every object in scope holds the quantity \<open>"0"\<close> under the key. The
  second run, on the world the first one left, records \<open>Skipped ''already zero''\<close> for
  every object, sends no request and leaves the stored objects as they were, so the value
  is \<open>"0"\<close> after either run.
\<close>

theorem ZeroInit_twice:
  assumes list_ok: "List_error (client c) (namespace c) = None"
    and patch_ok: "\<forall>r. Patch_error (client c) r = None"
    and scope: "in_scope (namespace c) (quotas w) = Items" "Items \<noteq> []"
    and fresh: "\<forall>rq \<in> set Items.
       Hard rq (newStorageclass c @ ''.storageclass.storage.k8s.io/requests.storage'') \<noteq> Some (Quantity ''0'')"
    and name: "plain (newStorageclass c)"
  shows
    "fst (SetStorageclassQuotaToZero c w) = None \<and>
     new_outcomes w (snd (SetStorageclassQuotaToZero c w)) =
       map (\<lambda>rq. (Namespace rq, Name rq, Applied)) Items \<and>
     map (\<lambda>rq. (Namespace rq, Name rq))
       (in_scope (namespace c) (quotas (snd (SetStorageclassQuotaToZero c w)))) =
       map (\<lambda>rq. (Namespace rq, Name rq)) Items \<and>
     (\<forall>rq \<in> set (in_scope (namespace c) (quotas (snd (SetStorageclassQuotaToZero c w)))).
        Hard rq (newStorageclass c @ ''.storageclass.storage.k8s.io/requests.storage'') = Some (Quantity ''0'')) \<and>
     fst (SetStorageclassQuotaToZero c (snd (SetStorageclassQuotaToZero c w))) = None \<and>
     new_outcomes (snd (SetStorageclassQuotaToZero c w))
       (snd (SetStorageclassQuotaToZero c (snd (SetStorageclassQuotaToZero c w)))) =
       map (\<lambda>rq. (Namespace rq, Name rq, Skipped ''already zero'')) Items \<and>
     new_requests (snd (SetStorageclassQuotaToZero c w))
       (snd (SetStorageclassQuotaToZero c (snd (SetStorageclassQuotaToZero c w)))) = [] \<and>
     quotas (snd (SetStorageclassQuotaToZero c (snd (SetStorageclassQuotaToZero c w)))) =
       quotas (snd (SetStorageclassQuotaToZero c w))"
proof -
  let ?k = "newStorageclass c @ ''.storageclass.storage.k8s.io/requests.storage''"
  let ?f = "\<lambda>rq. patch_request rq (patchSetZeroTemplate (newStorageclass c)) ''storageclass-quota-zero''"
  let ?w1 = "snd (SetStorageclassQuotaToZero c w)"
  let ?w2 = "snd (SetStorageclassQuotaToZero c ?w1)"
  let ?R = "map ?f Items"
  let ?Items1 = "map (replay_obj ?R) Items"
  have l: "ResourceQuotas_List (client c) (namespace c) w = Inr Items"
    using listing_in_scope [OF list_ok] scope by simp
  have d1: "\<forall>rq \<in> set Items. SetZero_decide c rq = Inr (?f rq)"
    using fresh by (simp add: SetZero_decide_cases)
  note run1 = SetZero_run_facts [OF l scope(2)]
  have e1: "fst (SetStorageclassQuotaToZero c w) = None"
    by (simp add: run1 failures_none [OF patch_ok])
  have o1: "new_outcomes w ?w1 = map (\<lambda>rq. (Namespace rq, Name rq, Applied)) Items"
    by (simp only: run1 outcomes_all_Inr [OF patch_ok d1])
  have q1: "quotas ?w1 = replay ?R (quotas w)"
    by (simp only: run1 all_succeed [OF patch_ok] sent_all_Inr [OF d1])
  have s1: "in_scope (namespace c) (quotas ?w1) = ?Items1"
    by (simp only: q1 in_scope_replay scope)
  have u: "\<forall>r \<in> set ?R. decode (req_patch r) = Some [(?k, Some ''0'')]"
    by (simp add: patch_request_def decode_SetZero [OF name])
  have z: "Hard (replay_obj ?R rq) ?k = Some (Quantity ''0'')" if "rq \<in> set Items" for rq
  proof -
    from that have "\<exists>r \<in> set ?R. Namespace rq = req_namespace r \<and> Name rq = req_name r"
      by (auto simp: patch_request_def)
    then show ?thesis by (simp only: replay_obj_single [OF u] if_True option.map)
  qed
  have i1: "map (\<lambda>rq. (Namespace rq, Name rq)) (in_scope (namespace c) (quotas ?w1)) =
            map (\<lambda>rq. (Namespace rq, Name rq)) Items"
    by (simp add: s1 comp_def)
  have z1: "\<forall>rq \<in> set (in_scope (namespace c) (quotas ?w1)). Hard rq ?k = Some (Quantity ''0'')"
    by (auto simp: s1 z)
  have l2: "ResourceQuotas_List (client c) (namespace c) ?w1 = Inr ?Items1"
    using listing_in_scope [OF list_ok, of ?w1] s1 by simp
  have n2: "?Items1 \<noteq> []" using scope(2) by simp
  have d2: "\<forall>rq \<in> set ?Items1. SetZero_decide c rq = Inl ''already zero''"
    by (auto simp: SetZero_decide_cases z)
  note run2 = SetZero_run_facts [OF l2 n2]
  have e2: "fst (SetStorageclassQuotaToZero c ?w1) = None"
    by (simp only: run2 failures_none [OF patch_ok] NewAggregate.simps)
  have o2: "new_outcomes ?w1 ?w2 = map (\<lambda>rq. (Namespace rq, Name rq, Skipped ''already zero'')) Items"
    by (simp only: run2 outcomes_all_Inl [OF d2]) (simp add: comp_def)
  have r2: "new_requests ?w1 ?w2 = []"
    by (simp only: run2 sent_all_Inl [OF d2])
  have q2: "quotas ?w2 = quotas ?w1"
    by (simp only: run2 sent_all_Inl [OF d2] filter.simps replay.simps)
  from e1 o1 i1 z1 e2 o2 r2 q2 show ?thesis by simp
qed

theorem ZeroInit_twice_witness:
  "List_error (client (migrate_cfg ok_client)) (namespace (migrate_cfg ok_client)) = None \<and>
   (\<forall>r. Patch_error (client (migrate_cfg ok_client)) r = None) \<and>
   in_scope (namespace (migrate_cfg ok_client)) (quotas (world_of [rq_a, rq_bare])) = [rq_a, rq_bare] \<and>
   Hard rq_a ''fast.storageclass.storage.k8s.io/requests.storage'' = None \<and>
   Hard rq_bare ''fast.storageclass.storage.k8s.io/requests.storage'' = None \<and>
   plain (newStorageclass (migrate_cfg ok_client)) \<and>
   new_outcomes (world_of [rq_a, rq_bare])
     (snd (SetStorageclassQuotaToZero (migrate_cfg ok_client) (world_of [rq_a, rq_bare]))) =
     [(''team-a'', ''rq-a'', Applied), (''team-d'', ''rq-d'', Applied)] \<and>
   list_all (\<lambda>rq. Hard rq ''fast.storageclass.storage.k8s.io/requests.storage'' = Some (Quantity ''0''))
     (in_scope (namespace (migrate_cfg ok_client))
        (quotas (snd (SetStorageclassQuotaToZero (migrate_cfg ok_client) (world_of [rq_a, rq_bare]))))) \<and>
   new_outcomes (snd (SetStorageclassQuotaToZero (migrate_cfg ok_client) (world_of [rq_a, rq_bare])))
     (snd (SetStorageclassQuotaToZero (migrate_cfg ok_client)
        (snd (SetStorageclassQuotaToZero (migrate_cfg ok_client) (world_of [rq_a, rq_bare]))))) =
     [(''team-a'', ''rq-a'', Skipped ''already zero''), (''team-d'', ''rq-d'', Skipped ''already zero'')] \<and>
   quotas (snd (SetStorageclassQuotaToZero (migrate_cfg ok_client)
        (snd (SetStorageclassQuotaToZero (migrate_cfg ok_client) (world_of [rq_a, rq_bare]))))) =
     quotas (snd (SetStorageclassQuotaToZero (migrate_cfg ok_client) (world_of [rq_a, rq_bare])))"
proof -
  let ?c = "migrate_cfg ok_client"
  let ?W = "world_of [rq_a, rq_bare]"
  have h1: "List_error (client ?c) (namespace ?c) = None"
    and h2: "\<forall>r. Patch_error (client ?c) r = None"
    by (simp_all add: migrate_cfg_def ok_client_def)
  have h3: "in_scope (namespace ?c) (quotas ?W) = [rq_a, rq_bare]"
    by (simp add: in_scope_def migrate_cfg_def world_of_def)
  have h4: "[rq_a, rq_bare] \<noteq> []" by simp
  have k: "Hard rq_a ''fast.storageclass.storage.k8s.io/requests.storage'' = None"
    "Hard rq_bare ''fast.storageclass.storage.k8s.io/requests.storage'' = None"
    by (simp_all add: rq_a_def rq_bare_def)
  have n: "newStorageclass ?c = ''fast''" by (simp add: migrate_cfg_def)
  have h5: "\<forall>rq \<in> set [rq_a, rq_bare].
       Hard rq (newStorageclass ?c @ ''.storageclass.storage.k8s.io/requests.storage'') \<noteq> Some (Quantity ''0'')"
    by (simp add: n k)
  have h6: "plain (newStorageclass ?c)" by (simp add: n plain_def)
  note t = ZeroInit_twice [OF h1 h2 h3 h4 h5 h6]
  from t have o1: "new_outcomes ?W (snd (SetStorageclassQuotaToZero ?c ?W)) =
     [(''team-a'', ''rq-a'', Applied), (''team-d'', ''rq-d'', Applied)]"
    by (simp add: rq_a_def rq_bare_def)
  from t have z: "list_all (\<lambda>rq. Hard rq ''fast.storageclass.storage.k8s.io/requests.storage'' = Some (Quantity ''0''))
     (in_scope (namespace ?c) (quotas (snd (SetStorageclassQuotaToZero ?c ?W))))"
    by (simp add: n list_all_iff)
  from t have o2: "new_outcomes (snd (SetStorageclassQuotaToZero ?c ?W))
     (snd (SetStorageclassQuotaToZero ?c (snd (SetStorageclassQuotaToZero ?c ?W)))) =
     [(''team-a'', ''rq-a'', Skipped ''already zero''), (''team-d'', ''rq-d'', Skipped ''already zero'')]"
    by (simp add: rq_a_def rq_bare_def)
  from t have q: "quotas (snd (SetStorageclassQuotaToZero ?c (snd (SetStorageclassQuotaToZero ?c ?W)))) =
     quotas (snd (SetStorageclassQuotaToZero ?c ?W))"
    by simp
  from h1 h2 h3 k h6 o1 z o2 q show ?thesis by simp
qed

subsection \<open>Restrict, then unrestrict\<close>

text \<open>
  Claim C4. Take a world whose listing succeeds and is not empty, a server that accepts
  every patch, and a storage-class name and a size that are plain. After
  \<open>PatchStorageclassRestricted\<close> with the action \<open>add\<close> every object
  in scope holds the configured size under the storage-class key. After a following run
  with the action \<open>remove\<close> (same storage class and namespace) the same objects are in
  scope and none of them has the key: the lookup yields \<open>None\<close>, the key is absent from
  the \<open>hard\<close> map, not present with a zero value. What the server reads in the text of
  the \<open>remove\<close> patch is the one member that gives the key the value \<open>null\<close>.
\<close>

theorem Restrict_then_Unrestrict:
  assumes add: "action c = ''add''"
    and list_ok: "List_error (client' c) (namespace' c) = None"
    and patch_ok: "\<forall>r. Patch_error (client' c) r = None"
    and scope: "in_scope (namespace' c) (quotas w) = Items" "Items \<noteq> []"
    and name: "plain (storageclass c)"
    and size: "plain (size' c)"
  shows
    "fst (PatchStorageclassRestricted c w) = None \<and>
     new_outcomes w (snd (PatchStorageclassRestricted c w)) =
       map (\<lambda>rq. (Namespace rq, Name rq, Applied)) Items \<and>
     (\<forall>rq \<in> set (in_scope (namespace' c) (quotas (snd (PatchStorageclassRestricted c w)))).
        Hard rq (storageclass c @ ''.storageclass.storage.k8s.io/requests.storage'') =
          Some (Quantity (size' c))) \<and>
     fst (PatchStorageclassRestricted (c\<lparr>action := ''remove''\<rparr>)
            (snd (PatchStorageclassRestricted c w))) = None \<and>
     new_outcomes (snd (PatchStorageclassRestricted c w))
       (snd (PatchStorageclassRestricted (c\<lparr>action := ''remove''\<rparr>)
              (snd (PatchStorageclassRestricted c w)))) =
       map (\<lambda>rq. (Namespace rq, Name rq, Applied)) Items \<and>
     map (\<lambda>rq. (Namespace rq, Name rq))
       (in_scope (namespace' c)
          (quotas (snd (PatchStorageclassRestricted (c\<lparr>action := ''remove''\<rparr>)
                          (snd (PatchStorageclassRestricted c w)))))) =
       map (\<lambda>rq. (Namespace rq, Name rq)) Items \<and>
     (\<forall>rq \<in> set (in_scope (namespace' c)
                     (quotas (snd (PatchStorageclassRestricted (c\<lparr>action := ''remove''\<rparr>)
                                     (snd (PatchStorageclassRestricted c w)))))).
        Hard rq (storageclass c @ ''.storageclass.storage.k8s.io/requests.storage'') = None) \<and>
     decode (patchDeleteTemplate (storageclass c)) =
       Some [(storageclass c @ ''.storageclass.storage.k8s.io/requests.storage'', None)]"
proof -
  let ?k = "storageclass c @ ''.storageclass.storage.k8s.io/requests.storage''"
  let ?c' = "c\<lparr>action := ''remove''\<rparr>"
  let ?f = "\<lambda>rq. patch_request rq (patchAddTemplate (storageclass c) (size' c)) ''storageclass-restriction''"
  let ?g = "\<lambda>rq. patch_request rq (patchDeleteTemplate (storageclass c)) ''storageclass-restriction''"
  let ?w1 = "snd (PatchStorageclassRestricted c w)"
  let ?w2 = "snd (PatchStorageclassRestricted ?c' ?w1)"
  let ?R1 = "map ?f Items"
  let ?Items1 = "map (replay_obj ?R1) Items"
  let ?R2 = "map ?g ?Items1"
  have c': "client' ?c' = client' c" "namespace' ?c' = namespace' c" "storageclass ?c' = storageclass c"
    "action ?c' = ''remove''"
    by simp_all
  have l: "ResourceQuotas_List (client' c) (namespace' c) w = Inr Items"
    using listing_in_scope [OF list_ok] scope by simp
  have d1: "\<forall>rq \<in> set Items. Restricted_decide c rq = Inr (?f rq)"
    by (simp add: Restricted_decide_def add)
  note run1 = Restricted_run_facts [OF l scope(2)]
  have e1: "fst (PatchStorageclassRestricted c w) = None"
    by (simp only: run1 failures_none [OF patch_ok] NewAggregate.simps)
  have o1: "new_outcomes w ?w1 = map (\<lambda>rq. (Namespace rq, Name rq, Applied)) Items"
    by (simp only: run1 outcomes_all_Inr [OF patch_ok d1])
  have q1: "quotas ?w1 = replay ?R1 (quotas w)"
    by (simp only: run1 all_succeed [OF patch_ok] sent_all_Inr [OF d1])
  have s1: "in_scope (namespace' c) (quotas ?w1) = ?Items1"
    by (simp only: q1 in_scope_replay scope)
  have u1: "\<forall>r \<in> set ?R1. decode (req_patch r) = Some [(?k, Some (size' c))]"
    by (simp add: patch_request_def decode_Add [OF name size])
  have z1: "Hard (replay_obj ?R1 rq) ?k = Some (Quantity (size' c))" if "rq \<in> set Items" for rq
  proof -
    from that have "\<exists>r \<in> set ?R1. Namespace rq = req_namespace r \<and> Name rq = req_name r"
      by (auto simp: patch_request_def)
    then show ?thesis by (simp only: replay_obj_single [OF u1] if_True option.map)
  qed
  have v1: "\<forall>rq \<in> set (in_scope (namespace' c) (quotas ?w1)). Hard rq ?k = Some (Quantity (size' c))"
    by (auto simp: s1 z1)
  have l2: "ResourceQuotas_List (client' ?c') (namespace' ?c') ?w1 = Inr ?Items1"
    using listing_in_scope [OF list_ok, of ?w1] s1 by (simp only: c')
  have n2: "?Items1 \<noteq> []" using scope(2) by simp
  have p2: "\<forall>r. Patch_error (client' ?c') r = None" using patch_ok by simp
  have d2: "\<forall>rq \<in> set ?Items1. Restricted_decide ?c' rq = Inr (?g rq)"
    by (simp add: Restricted_decide_def)
  note run2 = Restricted_run_facts [OF l2 n2]
  have e2: "fst (PatchStorageclassRestricted ?c' ?w1) = None"
    by (simp only: run2 failures_none [OF p2] NewAggregate.simps)
  have o2: "new_outcomes ?w1 ?w2 = map (\<lambda>rq. (Namespace rq, Name rq, Applied)) Items"
    by (simp only: run2 outcomes_all_Inr [OF p2 d2]) (simp add: comp_def)
  have q2: "quotas ?w2 = replay ?R2 (quotas ?w1)"
    by (simp only: run2 all_succeed [OF p2] sent_all_Inr [OF d2])
  have s2: "in_scope (namespace' c) (quotas ?w2) = map (replay_obj ?R2) ?Items1"
    by (simp only: q2 in_scope_replay s1)
  have u2: "\<forall>r \<in> set ?R2. decode (req_patch r) = Some [(?k, None)]"
    by (simp add: patch_request_def decode_Delete [OF name])
  have z2: "Hard (replay_obj ?R2 rq) ?k = None" if "rq \<in> set ?Items1" for rq
  proof -
    from that have "\<exists>r \<in> set ?R2. Namespace rq = req_namespace r \<and> Name rq = req_name r"
      by (auto simp: patch_request_def)
    then show ?thesis by (simp only: replay_obj_single [OF u2] if_True option.map)
  qed
  have i2: "map (\<lambda>rq. (Namespace rq, Name rq)) (in_scope (namespace' c) (quotas ?w2)) =
            map (\<lambda>rq. (Namespace rq, Name rq)) Items"
    by (simp add: s2 comp_def)
  have v2: "\<forall>rq \<in> set (in_scope (namespace' c) (quotas ?w2)). Hard rq ?k = None"
  proof
    fix rq
    assume "rq \<in> set (in_scope (namespace' c) (quotas ?w2))"
    then have "rq \<in> replay_obj ?R2 ` set ?Items1" by (simp only: s2 set_map)
    then obtain rq' where "rq = replay_obj ?R2 rq'" and "rq' \<in> set ?Items1" by (rule imageE)
    then show "Hard rq ?k = None" using z2 by simp
  qed
  note n0 = decode_Delete [OF name]
  from e1 o1 v1 e2 o2 i2 v2 n0 show ?thesis by simp
qed

theorem Restrict_then_Unrestrict_witness:
  "action (restrict_cfg ok_client ''add'') = ''add'' \<and> size' (restrict_cfg ok_client ''add'') = ''50G'' \<and>
   plain (storageclass (restrict_cfg ok_client ''add'')) \<and>
   plain (size' (restrict_cfg ok_client ''add'')) \<and>
   (\<forall>r. Patch_error (client' (restrict_cfg ok_client ''add'')) r = None) \<and>
   in_scope (namespace' (restrict_cfg ok_client ''add'')) (quotas (world_of [rq_a, rq_bare])) =
     [rq_a, rq_bare] \<and>
   list_all (\<lambda>rq. Hard rq ''fast.storageclass.storage.k8s.io/requests.storage'' = Some (Quantity ''50G''))
     (in_scope NamespaceAll
        (quotas (snd (PatchStorageclassRestricted (restrict_cfg ok_client ''add'') (world_of [rq_a, rq_bare]))))) \<and>
   map (\<lambda>rq. (Namespace rq, Name rq))
     (in_scope NamespaceAll
        (quotas (snd (PatchStorageclassRestricted (restrict_cfg ok_client ''remove'')
           (snd (PatchStorageclassRestricted (restrict_cfg ok_client ''add'') (world_of [rq_a, rq_bare]))))))) =
     [(''team-a'', ''rq-a''), (''team-d'', ''rq-d'')] \<and>
   list_all (\<lambda>rq. Hard rq ''fast.storageclass.storage.k8s.io/requests.storage'' = None)
     (in_scope NamespaceAll
        (quotas (snd (PatchStorageclassRestricted (restrict_cfg ok_client ''remove'')
           (snd (PatchStorageclassRestricted (restrict_cfg ok_client ''add'') (world_of [rq_a, rq_bare])))))))"
proof -
  let ?c = "restrict_cfg ok_client ''add''"
  let ?W = "world_of [rq_a, rq_bare]"
  have h0: "action ?c = ''add''" and sz: "size' ?c = ''50G''" and sc: "storageclass ?c = ''fast''"
    and ns: "namespace' ?c = NamespaceAll"
    and rm: "?c\<lparr>action := ''remove''\<rparr> = restrict_cfg ok_client ''remove''"
    by (simp_all add: restrict_cfg_def)
  have h1: "List_error (client' ?c) (namespace' ?c) = None"
    and h2: "\<forall>r. Patch_error (client' ?c) r = None"
    by (simp_all add: restrict_cfg_def ok_client_def)
  have h3: "in_scope (namespace' ?c) (quotas ?W) = [rq_a, rq_bare]"
    by (simp add: in_scope_def restrict_cfg_def world_of_def)
  have h4: "[rq_a, rq_bare] \<noteq> []" by simp
  have h5: "plain (storageclass ?c)" and h6: "plain (size' ?c)"
    by (simp_all add: sz sc plain_def)
  note t = Restrict_then_Unrestrict [OF h0 h1 h2 h3 h4 h5 h6, unfolded rm sz sc ns]
  from t have a: "list_all (\<lambda>rq. Hard rq ''fast.storageclass.storage.k8s.io/requests.storage'' = Some (Quantity ''50G''))
     (in_scope NamespaceAll (quotas (snd (PatchStorageclassRestricted ?c ?W))))"
    by (simp add: list_all_iff)
  from t have i: "map (\<lambda>rq. (Namespace rq, Name rq))
     (in_scope NamespaceAll
        (quotas (snd (PatchStorageclassRestricted (restrict_cfg ok_client ''remove'')
           (snd (PatchStorageclassRestricted ?c ?W)))))) =
     [(''team-a'', ''rq-a''), (''team-d'', ''rq-d'')]"
    by (simp add: rq_a_def rq_bare_def)
  from t have b: "list_all (\<lambda>rq. Hard rq ''fast.storageclass.storage.k8s.io/requests.storage'' = None)
     (in_scope NamespaceAll
        (quotas (snd (PatchStorageclassRestricted (restrict_cfg ok_client ''remove'')
           (snd (PatchStorageclassRestricted ?c ?W))))))"
    by (simp add: list_all_iff)
  from h0 sz h5 h6 h2 h3 a i b show ?thesis by (simp add: ns)
qed

subsection \<open>The aggregate error\<close>

text \<open>
  Claim C5. For every run that reaches the loop (the listing succeeded and is not empty),
  the returned error is non-nil if and only if the server refused at least one of the
  requests of the run, and if and only if some recorded outcome is \<open>Failed\<close>; a run whose
  outcomes are all \<open>Applied\<close> or \<open>Skipped\<close> returns nil.
\<close>

theorem aggregate_iff_failed:
  "(ResourceQuotas_List (client c) (namespace c) w = Inr Items \<and> Items \<noteq> [] \<longrightarrow>
      (fst (MigrateStorageclassQuota c w) \<noteq> None) =
        (\<exists>r \<in> set (new_requests w (snd (MigrateStorageclassQuota c w))). Patch_error (client c) r \<noteq> None) \<and>
      (fst (MigrateStorageclassQuota c w) \<noteq> None) =
        (\<exists>x \<in> set (new_outcomes w (snd (MigrateStorageclassQuota c w))). \<exists>e. snd (snd x) = Failed e)) \<and>
   (ResourceQuotas_List (client c) (namespace c) w = Inr Items \<and> Items \<noteq> [] \<longrightarrow>
      (fst (SetStorageclassQuotaToZero c w) \<noteq> None) =
        (\<exists>r \<in> set (new_requests w (snd (SetStorageclassQuotaToZero c w))). Patch_error (client c) r \<noteq> None) \<and>
      (fst (SetStorageclassQuotaToZero c w) \<noteq> None) =
        (\<exists>x \<in> set (new_outcomes w (snd (SetStorageclassQuotaToZero c w))). \<exists>e. snd (snd x) = Failed e)) \<and>
   (ResourceQuotas_List (client' c') (namespace' c') w = Inr Items \<and> Items \<noteq> [] \<longrightarrow>
      (fst (PatchStorageclassRestricted c' w) \<noteq> None) =
        (\<exists>r \<in> set (new_requests w (snd (PatchStorageclassRestricted c' w))). Patch_error (client' c') r \<noteq> None) \<and>
      (fst (PatchStorageclassRestricted c' w) \<noteq> None) =
        (\<exists>x \<in> set (new_outcomes w (snd (PatchStorageclassRestricted c' w))). \<exists>e. snd (snd x) = Failed e))"
proof (intro conjI impI)
  assume "ResourceQuotas_List (client c) (namespace c) w = Inr Items \<and> Items \<noteq> []"
  then have l: "ResourceQuotas_List (client c) (namespace c) w = Inr Items" and n: "Items \<noteq> []"
    by simp_all
  show "(fst (MigrateStorageclassQuota c w) \<noteq> None) =
        (\<exists>r \<in> set (new_requests w (snd (MigrateStorageclassQuota c w))). Patch_error (client c) r \<noteq> None)"
    by (simp only: Migrate_run_facts [OF l n] aggregate_iff_requests)
  show "(fst (MigrateStorageclassQuota c w) \<noteq> None) =
        (\<exists>x \<in> set (new_outcomes w (snd (MigrateStorageclassQuota c w))). \<exists>e. snd (snd x) = Failed e)"
    by (simp only: Migrate_run_facts [OF l n] aggregate_iff_outcomes)
  show "(fst (SetStorageclassQuotaToZero c w) \<noteq> None) =
        (\<exists>r \<in> set (new_requests w (snd (SetStorageclassQuotaToZero c w))). Patch_error (client c) r \<noteq> None)"
    by (simp only: SetZero_run_facts [OF l n] aggregate_iff_requests)
  show "(fst (SetStorageclassQuotaToZero c w) \<noteq> None) =
        (\<exists>x \<in> set (new_outcomes w (snd (SetStorageclassQuotaToZero c w))). \<exists>e. snd (snd x) = Failed e)"
    by (simp only: SetZero_run_facts [OF l n] aggregate_iff_outcomes)
next
  assume "ResourceQuotas_List (client' c') (namespace' c') w = Inr Items \<and> Items \<noteq> []"
  then have l: "ResourceQuotas_List (client' c') (namespace' c') w = Inr Items" and n: "Items \<noteq> []"
    by simp_all
  show "(fst (PatchStorageclassRestricted c' w) \<noteq> None) =
        (\<exists>r \<in> set (new_requests w (snd (PatchStorageclassRestricted c' w))). Patch_error (client' c') r \<noteq> None)"
    by (simp only: Restricted_run_facts [OF l n] aggregate_iff_requests)
  show "(fst (PatchStorageclassRestricted c' w) \<noteq> None) =
        (\<exists>x \<in> set (new_outcomes w (snd (PatchStorageclassRestricted c' w))). \<exists>e. snd (snd x) = Failed e)"
    by (simp only: Restricted_run_facts [OF l n] aggregate_iff_outcomes)
qed

theorem aggregate_iff_failed_witness:
  "ResourceQuotas_List flaky_client NamespaceAll (world_of [rq_a, rq_b, rq_c]) = Inr [rq_a, rq_b, rq_c] \<and>
   fst (MigrateStorageclassQuota (migrate_cfg flaky_client) (world_of [rq_a, rq_b, rq_c])) \<noteq> None \<and>
   ResourceQuotas_List ok_client NamespaceAll (world_of [rq_a, rq_bare]) = Inr [rq_a, rq_bare] \<and>
   map (\<lambda>x. snd (snd x))
     (new_outcomes (world_of [rq_a, rq_bare])
        (snd (MigrateStorageclassQuota (migrate_cfg ok_client) (world_of [rq_a, rq_bare])))) =
     [Applied, Skipped ''no existing quota''] \<and>
   fst (MigrateStorageclassQuota (migrate_cfg ok_client) (world_of [rq_a, rq_bare])) = None"
proof -
  have l: "ResourceQuotas_List flaky_client NamespaceAll (world_of [rq_a, rq_b, rq_c]) = Inr [rq_a, rq_b, rq_c]"
    by (simp add: listing_all flaky_client_def)
  have l': "ResourceQuotas_List ok_client NamespaceAll (world_of [rq_a, rq_bare]) = Inr [rq_a, rq_bare]"
    by (simp add: listing_all ok_client_def)
  have c: "client (migrate_cfg cl) = cl" "namespace (migrate_cfg cl) = NamespaceAll" for cl
    by (simp_all add: migrate_cfg_def)
  have o: "new_outcomes (world_of [rq_a, rq_bare])
             (snd (MigrateStorageclassQuota (migrate_cfg ok_client) (world_of [rq_a, rq_bare]))) =
           [(''team-a'', ''rq-a'', Applied), (''team-d'', ''rq-d'', Skipped ''no existing quota'')]"
    using l' by (simp add: Migrate_run_facts c Migrate_decide_def patch_request_def ok_client_def
                   rq_a_def rq_bare_def)
  have r: "new_requests (world_of [rq_a, rq_b, rq_c])
             (snd (MigrateStorageclassQuota (migrate_cfg flaky_client) (world_of [rq_a, rq_b, rq_c]))) =
           concat (map (\<lambda>rq. sent (Migrate_decide (migrate_cfg flaky_client) rq)) [rq_a, rq_b, rq_c])"
    using l by (simp add: Migrate_run_facts c)
  show ?thesis
    using aggregate_iff_failed [of "migrate_cfg flaky_client" "world_of [rq_a, rq_b, rq_c]"
                                   "[rq_a, rq_b, rq_c]" "restrict_cfg flaky_client ''add''"]
          aggregate_iff_failed [of "migrate_cfg ok_client" "world_of [rq_a, rq_bare]"
                                   "[rq_a, rq_bare]" "restrict_cfg ok_client ''add''"]
          l l'
    unfolding c o r
    by (simp add: Migrate_decide_def patch_request_def flaky_client_def rq_a_def rq_b_def rq_c_def)
qed

subsection \<open>Empty scope\<close>

text \<open>
  Claim C6. When the listing succeeds with zero objects, each batch function returns the
  error "no ResourceQuota found in namespace/..." and leaves the world as it was: no patch
  request is sent, no object changes.
\<close>

theorem empty_scope:
  "(ResourceQuotas_List (client c) (namespace c) w = Inr [] \<longrightarrow>
      MigrateStorageclassQuota c w =
        (Some (Errorf ''no ResourceQuota found in namespace/%s'' [namespace c]), w)) \<and>
   (ResourceQuotas_List (client c) (namespace c) w = Inr [] \<longrightarrow>
      SetStorageclassQuotaToZero c w =
        (Some (Errorf ''no ResourceQuota found in namespace/%s'' [namespace c]), w)) \<and>
   (ResourceQuotas_List (client' c') (namespace' c') w = Inr [] \<longrightarrow>
      PatchStorageclassRestricted c' w =
        (Some (Errorf ''no ResourceQuota found in namespace/%s'' [namespace' c']), w))"
  by (simp add: MigrateStorageclassQuota_def SetStorageclassQuotaToZero_def
        PatchStorageclassRestricted_def)

theorem empty_scope_witness:
  "ResourceQuotas_List ok_client NamespaceAll (world_of []) = Inr [] \<and>
   MigrateStorageclassQuota (migrate_cfg ok_client) (world_of []) =
     (Some (Errorf ''no ResourceQuota found in namespace/%s'' ['''']), world_of []) \<and>
   SetStorageclassQuotaToZero (migrate_cfg ok_client) (world_of []) =
     (Some (Errorf ''no ResourceQuota found in namespace/%s'' ['''']), world_of []) \<and>
   PatchStorageclassRestricted (restrict_cfg ok_client ''remove'') (world_of []) =
     (Some (Errorf ''no ResourceQuota found in namespace/%s'' ['''']), world_of []) \<and>
   requests (snd (PatchStorageclassRestricted (restrict_cfg ok_client ''remove'') (world_of []))) = []"
proof -
  have l: "ResourceQuotas_List ok_client NamespaceAll (world_of []) = Inr []"
    by (simp add: listing_all ok_client_def)
  have c: "client (migrate_cfg ok_client) = ok_client" "namespace (migrate_cfg ok_client) = NamespaceAll"
    "client' (restrict_cfg ok_client ''remove'') = ok_client"
    "namespace' (restrict_cfg ok_client ''remove'') = NamespaceAll"
    by (simp_all add: migrate_cfg_def restrict_cfg_def)
  show ?thesis
    using empty_scope [of "migrate_cfg ok_client" "world_of []" "restrict_cfg ok_client ''remove''"] l
    unfolding c
    by (simp add: NamespaceAll_def world_of_def)
qed

subsection \<open>Fatal preconditions\<close>

text \<open>
  Claim C7. In both tools, each fatal precondition failure ends the run with one report and
  without touching the cluster. A missing required flag, an invalid quantity string, a
  failure to build the configuration or the client, and a storage class whose lookup fails
  (not found or any other error) end the process through \<open>klog.Exit*\<close>: \<open>main\<close> yields
  status 1 and the starting world with exactly one entry added to the log, the exit entry.
  An empty scope makes the batch function return its error, which \<open>main\<close> reports in one
  "Errors occurred" entry before it returns (status 0; the migration tool has logged the
  validation of the storage classes before). In every case the requests sent and the
  stored objects are those of the starting world.
\<close>

theorem fatal_precondition_no_mutation:
  "((mode_flag fl = ''migrate'' \<and> old_storageclass fl = '''') \<or>
    ((mode_flag fl = ''migrate'' \<or> mode_flag fl = ''set-zero'') \<and> new_storageclass fl = '''') \<or>
    BuildConfigFromFlags ev \<noteq> None \<or>
    (\<exists>err. NewForConfig ev = Inl err) \<or>
    (\<exists>cl. NewForConfig ev = Inr cl \<and>
       ((mode_flag fl = ''migrate'' \<and> StorageClasses_Get cl (old_storageclass fl) \<noteq> None) \<or>
        StorageClasses_Get cl (new_storageclass fl) \<noteq> None)) \<longrightarrow>
      (\<exists>e. is_Exit e \<and> main fl ev w = (1, say e w)) \<and>
      requests (snd (main fl ev w)) = requests w \<and> quotas (snd (main fl ev w)) = quotas w) \<and>
   (\<forall>c w1. NewConfig fl ev w = Inr (c, w1) \<and>
            ResourceQuotas_List (client c) (namespace c) w1 = Inr [] \<longrightarrow>
      main fl ev w =
        (0, say (Infof (''Errors occurred: %v'' @ [CHR 0x0A])
                   [Err (Aggregate [Errorf ''no ResourceQuota found in namespace/%s'' [namespace c]])])
              (say (if mode c = ''migrate''
                    then Infof ''both storageclasses validated: %s (old) -> %s (new)''
                           [Str (oldStorageclass c), Str (newStorageclass c)]
                    else Infof ''target storageclass validated: %s'' [Str (newStorageclass c)]) w)) \<and>
      requests (snd (main fl ev w)) = requests w \<and> quotas (snd (main fl ev w)) = quotas w) \<and>
   (storageclass_flag fl' = '''' \<or>
    (\<exists>err. ParseQuantity ev (quota_flag fl') = Inl err) \<or>
    BuildConfigFromFlags ev \<noteq> None \<or>
    (\<exists>err. NewForConfig ev = Inl err) \<or>
    (\<exists>cl. NewForConfig ev = Inr cl \<and> StorageClasses_Get cl (storageclass_flag fl') \<noteq> None) \<longrightarrow>
      (\<exists>e. is_Exit e \<and> main' fl' ev w = (1, say e w)) \<and>
      requests (snd (main' fl' ev w)) = requests w \<and> quotas (snd (main' fl' ev w)) = quotas w) \<and>
   (\<forall>c w1. NewConfig' fl' ev w = Inr (c, w1) \<and>
            ResourceQuotas_List (client' c) (namespace' c) w1 = Inr [] \<longrightarrow>
      main' fl' ev w =
        (0, say (Infof (''Errors occurred: %v'' @ [CHR 0x0A])
                   [Err (Aggregate [Errorf ''no ResourceQuota found in namespace/%s'' [namespace' c]])]) w) \<and>
      requests (snd (main' fl' ev w)) = requests w \<and> quotas (snd (main' fl' ev w)) = quotas w)"
proof (intro conjI impI allI)
  assume "(mode_flag fl = ''migrate'' \<and> old_storageclass fl = '''') \<or>
    ((mode_flag fl = ''migrate'' \<or> mode_flag fl = ''set-zero'') \<and> new_storageclass fl = '''') \<or>
    BuildConfigFromFlags ev \<noteq> None \<or>
    (\<exists>err. NewForConfig ev = Inl err) \<or>
    (\<exists>cl. NewForConfig ev = Inr cl \<and>
       ((mode_flag fl = ''migrate'' \<and> StorageClasses_Get cl (old_storageclass fl) \<noteq> None) \<or>
        StorageClasses_Get cl (new_storageclass fl) \<noteq> None))"
  from NewConfig_fatal [OF this] obtain w1 where w1: "NewConfig fl ev w = Inl w1" ..
  from NewConfig_Inl [OF w1] obtain e where e: "is_Exit e" "w1 = say e w" by blast
  have m: "main fl ev w = (1, say e w)" using main_exit [OF w1] e by simp
  show "\<exists>e. is_Exit e \<and> main fl ev w = (1, say e w)" using e m by blast
  show "requests (snd (main fl ev w)) = requests w" by (simp add: m)
  show "quotas (snd (main fl ev w)) = quotas w" by (simp add: m)
next
  fix c w1
  assume "NewConfig fl ev w = Inr (c, w1) \<and> ResourceQuotas_List (client c) (namespace c) w1 = Inr []"
  then have n: "NewConfig fl ev w = Inr (c, w1)"
    and l: "ResourceQuotas_List (client c) (namespace c) w1 = Inr []" by simp_all
  note w1 = NewConfig_Inr(3) [OF n]
  have m: "main fl ev w =
        (0, say (Infof (''Errors occurred: %v'' @ [CHR 0x0A])
                   [Err (Aggregate [Errorf ''no ResourceQuota found in namespace/%s'' [namespace c]])]) w1)"
    using NewConfig_Inr(1) [OF n]
  proof
    assume "mode c = ''migrate''"
    from main_migrate [OF n this Migrate_empty [OF l]] show ?thesis by simp
  next
    assume "mode c = ''set-zero''"
    from main_set_zero [OF n this SetZero_empty [OF l]] show ?thesis by simp
  qed
  show "main fl ev w =
        (0, say (Infof (''Errors occurred: %v'' @ [CHR 0x0A])
                   [Err (Aggregate [Errorf ''no ResourceQuota found in namespace/%s'' [namespace c]])])
              (say (if mode c = ''migrate''
                    then Infof ''both storageclasses validated: %s (old) -> %s (new)''
                           [Str (oldStorageclass c), Str (newStorageclass c)]
                    else Infof ''target storageclass validated: %s'' [Str (newStorageclass c)]) w))"
    using m w1 by simp
  show "requests (snd (main fl ev w)) = requests w" using w1 by (simp add: m)
  show "quotas (snd (main fl ev w)) = quotas w" using w1 by (simp add: m)
next
  assume "storageclass_flag fl' = '''' \<or>
    (\<exists>err. ParseQuantity ev (quota_flag fl') = Inl err) \<or>
    BuildConfigFromFlags ev \<noteq> None \<or>
    (\<exists>err. NewForConfig ev = Inl err) \<or>
    (\<exists>cl. NewForConfig ev = Inr cl \<and> StorageClasses_Get cl (storageclass_flag fl') \<noteq> None)"
  from NewConfig'_fatal [OF this] obtain w1 where w1: "NewConfig' fl' ev w = Inl w1" ..
  from NewConfig'_Inl [OF w1] obtain e where e: "is_Exit e" "w1 = say e w" by blast
  have m: "main' fl' ev w = (1, say e w)" using main'_exit [OF w1] e by simp
  show "\<exists>e. is_Exit e \<and> main' fl' ev w = (1, say e w)" using e m by blast
  show "requests (snd (main' fl' ev w)) = requests w" by (simp add: m)
  show "quotas (snd (main' fl' ev w)) = quotas w" by (simp add: m)
next
  fix c w1
  assume "NewConfig' fl' ev w = Inr (c, w1) \<and> ResourceQuotas_List (client' c) (namespace' c) w1 = Inr []"
  then have n: "NewConfig' fl' ev w = Inr (c, w1)"
    and l: "ResourceQuotas_List (client' c) (namespace' c) w1 = Inr []" by simp_all
  note w1 = NewConfig'_Inr(2) [OF n]
  from main'_run [OF n Restricted_empty [OF l]] w1
  show m: "main' fl' ev w =
        (0, say (Infof (''Errors occurred: %v'' @ [CHR 0x0A])
                   [Err (Aggregate [Errorf ''no ResourceQuota found in namespace/%s'' [namespace' c]])]) w)"
    by simp
  show "requests (snd (main' fl' ev w)) = requests w" by (simp add: m)
  show "quotas (snd (main' fl' ev w)) = quotas w" by (simp add: m)
qed

theorem fatal_precondition_no_mutation_witness:
  "mode_flag (migrate_flags '''' ''fast'') = ''migrate'' \<and> old_storageclass (migrate_flags '''' ''fast'') = '''' \<and>
   fst (main (migrate_flags '''' ''fast'') (env_of ok_client) (world_of [rq_a])) = 1 \<and>
   requests (snd (main (migrate_flags '''' ''fast'') (env_of ok_client) (world_of [rq_a]))) = [] \<and>
   quotas (snd (main (migrate_flags '''' ''fast'') (env_of ok_client) (world_of [rq_a]))) = [rq_a] \<and>
   NewConfig (migrate_flags ''slow'' ''fast'') (env_of ok_client) (world_of []) =
     Inr (migrate_cfg ok_client,
          say (Infof ''both storageclasses validated: %s (old) -> %s (new)'' [Str ''slow'', Str ''fast''])
            (world_of [])) \<and>
   main (migrate_flags ''slow'' ''fast'') (env_of ok_client) (world_of []) =
     (0, say (Infof (''Errors occurred: %v'' @ [CHR 0x0A])
                [Err (Aggregate [Errorf ''no ResourceQuota found in namespace/%s'' ['''']])])
           (say (Infof ''both storageclasses validated: %s (old) -> %s (new)'' [Str ''slow'', Str ''fast''])
              (world_of []))) \<and>
   ParseQuantity (env_of ok_client) (quota_flag (restrict_flags ''add'' ''5 0G'')) =
     Inl (Errorf ''quantities must match the regular expression'' []) \<and>
   fst (main' (restrict_flags ''add'' ''5 0G'') (env_of ok_client) (world_of [rq_a])) = 1 \<and>
   requests (snd (main' (restrict_flags ''add'' ''5 0G'') (env_of ok_client) (world_of [rq_a]))) = [] \<and>
   main' (restrict_flags ''add'' ''50G'') (env_of ok_client) (world_of []) =
     (0, say (Infof (''Errors occurred: %v'' @ [CHR 0x0A])
                [Err (Aggregate [Errorf ''no ResourceQuota found in namespace/%s'' ['''']])]) (world_of []))"
proof -
  let ?v = "Infof ''both storageclasses validated: %s (old) -> %s (new)'' [Str ''slow'', Str ''fast'']"
  have h1: "mode_flag (migrate_flags '''' ''fast'') = ''migrate'' \<and>
            old_storageclass (migrate_flags '''' ''fast'') = ''''"
    by (simp add: migrate_flags_def)
  note t1 = fatal_precondition_no_mutation
              [of "migrate_flags '''' ''fast''" "env_of ok_client" "world_of [rq_a]",
               THEN conjunct1, rule_format, OF disjI1, OF h1]
  from t1 have c1: "fst (main (migrate_flags '''' ''fast'') (env_of ok_client) (world_of [rq_a])) = 1"
    by auto
  from t1 have r1: "requests (snd (main (migrate_flags '''' ''fast'') (env_of ok_client) (world_of [rq_a]))) = []"
    "quotas (snd (main (migrate_flags '''' ''fast'') (env_of ok_client) (world_of [rq_a]))) = [rq_a]"
    by (simp_all add: world_of_def)
  have n: "NewConfig (migrate_flags ''slow'' ''fast'') (env_of ok_client) (world_of []) =
             Inr (migrate_cfg ok_client, say ?v (world_of []))"
    by (simp add: NewConfig_example ok_client_def)
  have l: "ResourceQuotas_List (client (migrate_cfg ok_client)) (namespace (migrate_cfg ok_client))
             (say ?v (world_of [])) = Inr []"
    by (simp add: ResourceQuotas_List_def migrate_cfg_def ok_client_def world_of_def)
  note t2 = fatal_precondition_no_mutation
              [of "migrate_flags ''slow'' ''fast''" "env_of ok_client" "world_of []",
               THEN conjunct2, THEN conjunct1, rule_format, OF conjI, OF n l]
  from t2 have m2: "main (migrate_flags ''slow'' ''fast'') (env_of ok_client) (world_of []) =
     (0, say (Infof (''Errors occurred: %v'' @ [CHR 0x0A])
                [Err (Aggregate [Errorf ''no ResourceQuota found in namespace/%s'' ['''']])])
           (say ?v (world_of [])))"
    by (simp add: migrate_cfg_def NamespaceAll_def)
  have h3: "ParseQuantity (env_of ok_client) (quota_flag (restrict_flags ''add'' ''5 0G'')) =
              Inl (Errorf ''quantities must match the regular expression'' [])"
    by (simp add: env_of_def restrict_flags_def)
  then have h3': "\<exists>err. ParseQuantity (env_of ok_client) (quota_flag (restrict_flags ''add'' ''5 0G'')) = Inl err"
    by blast
  note t3 = fatal_precondition_no_mutation
              [of _ "env_of ok_client" "world_of [rq_a]" "restrict_flags ''add'' ''5 0G''",
               THEN conjunct2, THEN conjunct2, THEN conjunct1, rule_format, OF disjI2, OF disjI1, OF h3']
  from t3 have c3: "fst (main' (restrict_flags ''add'' ''5 0G'') (env_of ok_client) (world_of [rq_a])) = 1"
    by auto
  from t3 have r3: "requests (snd (main' (restrict_flags ''add'' ''5 0G'') (env_of ok_client) (world_of [rq_a]))) = []"
    by (simp add: world_of_def)
  have n': "NewConfig' (restrict_flags ''add'' ''50G'') (env_of ok_client) (world_of []) =
              Inr (restrict_cfg ok_client ''add'', world_of [])"
    by (simp add: NewConfig'_example)
  have l': "ResourceQuotas_List (client' (restrict_cfg ok_client ''add''))
              (namespace' (restrict_cfg ok_client ''add'')) (world_of []) = Inr []"
    by (simp add: ResourceQuotas_List_def restrict_cfg_def ok_client_def world_of_def)
  note t4 = fatal_precondition_no_mutation
              [of _ "env_of ok_client" "world_of []" "restrict_flags ''add'' ''50G''",
               THEN conjunct2, THEN conjunct2, THEN conjunct2, rule_format, OF conjI, OF n' l']
  from t4 have m4: "main' (restrict_flags ''add'' ''50G'') (env_of ok_client) (world_of []) =
     (0, say (Infof (''Errors occurred: %v'' @ [CHR 0x0A])
                [Err (Aggregate [Errorf ''no ResourceQuota found in namespace/%s'' ['''']])]) (world_of []))"
    by (simp add: restrict_cfg_def NamespaceAll_def)
  from h1 c1 r1 n m2 h3 c3 r3 m4 show ?thesis by simp
qed

subsection \<open>No duplicate keys\<close>

text \<open>
  Claim C8. Filled with plain arguments, each template is a text in which the server reads
  members with distinct keys: one member for the set-zero, add and delete templates, two
  for the migrate template, whose keys differ exactly when the two storage-class names
  differ. Every request that a run of either \<open>main\<close> sends carries such a text, provided
  the names of the storage classes the server knows are plain and so are the
  serialisations of quantities (those \<open>ParseQuantity\<close> returns and the
  \<open>requests.storage\<close> quantities of the stored objects): \<open>NewConfig\<close> lets only names
  through that the server knows, and it ends a migrate run whose old and new storage
  classes are equal through \<open>klog.Exitln\<close> (status 1, nothing but the exit entry added to
  the world) before any batch work.
\<close>

theorem patch_keys_unique:
  "(plain a \<and> plain b \<and> plain d \<longrightarrow>
      (\<exists>p. decode (patchMigrateTemplate a b d) = Some p \<and> distinct (map fst p) = (a \<noteq> d))) \<and>
   (plain a \<longrightarrow> (\<exists>p. decode (patchSetZeroTemplate a) = Some p \<and> distinct (map fst p))) \<and>
   (plain a \<and> plain b \<longrightarrow>
      (\<exists>p. decode (patchAddTemplate a b) = Some p \<and> distinct (map fst p))) \<and>
   (plain a \<longrightarrow> (\<exists>p. decode (patchDeleteTemplate a) = Some p \<and> distinct (map fst p))) \<and>
   ((\<forall>cl n. NewForConfig ev = Inr cl \<and> StorageClasses_Get cl n = None \<longrightarrow> plain n) \<and>
    (\<forall>rq \<in> set (quotas w). plain_quota rq) \<longrightarrow>
    (\<forall>r \<in> set (new_requests w (snd (main fl ev w))).
       \<exists>p. decode (req_patch r) = Some p \<and> distinct (map fst p))) \<and>
   ((\<forall>cl n. NewForConfig ev = Inr cl \<and> StorageClasses_Get cl n = None \<longrightarrow> plain n) \<and>
    (\<forall>s q. ParseQuantity ev s = Inr q \<longrightarrow> plain (String q)) \<longrightarrow>
    (\<forall>r \<in> set (new_requests w (snd (main' fl' ev w))).
       \<exists>p. decode (req_patch r) = Some p \<and> distinct (map fst p))) \<and>
   (mode_flag fl = ''migrate'' \<and> old_storageclass fl = new_storageclass fl \<longrightarrow>
      main fl ev w =
        (1, say (Exitln (if old_storageclass fl = ''''
                         then ''migrate mode requires old-storageclass, please specify with -o''
                         else ''old-storageclass and new-storageclass cannot be the same'')) w))"
proof (intro conjI impI ballI)
  assume "mode_flag fl = ''migrate'' \<and> old_storageclass fl = new_storageclass fl"
  then show "main fl ev w =
        (1, say (Exitln (if old_storageclass fl = ''''
                         then ''migrate mode requires old-storageclass, please specify with -o''
                         else ''old-storageclass and new-storageclass cannot be the same'')) w)"
    by (simp add: main_def NewConfig_def)
next
  fix r
  assume "(\<forall>cl n. NewForConfig ev = Inr cl \<and> StorageClasses_Get cl n = None \<longrightarrow> plain n) \<and>
    (\<forall>rq \<in> set (quotas w). plain_quota rq)"
    and "r \<in> set (new_requests w (snd (main fl ev w)))"
  then show "\<exists>p. decode (req_patch r) = Some p \<and> distinct (map fst p)"
    using main_new_requests [of r w fl ev] by blast
next
  fix r
  assume "(\<forall>cl n. NewForConfig ev = Inr cl \<and> StorageClasses_Get cl n = None \<longrightarrow> plain n) \<and>
    (\<forall>s q. ParseQuantity ev s = Inr q \<longrightarrow> plain (String q))"
    and "r \<in> set (new_requests w (snd (main' fl' ev w)))"
  then show "\<exists>p. decode (req_patch r) = Some p \<and> distinct (map fst p)"
    using main'_new_requests [of r w fl' ev] by blast
qed (simp_all add: template_keys)

text \<open>
  A migrate run from \<open>slow\<close> to \<open>fast\<close> against a server that knows just these two storage
  classes sends one request, in which the server reads two distinct keys; the same run
  from \<open>fast\<close> to \<open>fast\<close> ends in \<open>NewConfig\<close>; the template itself, filled with the same
  name twice, has the one key twice.
\<close>

theorem patch_keys_unique_witness:
  "\<lparr>req_namespace = ''team-a'', req_name = ''rq-a'',
     req_patch = patchMigrateTemplate ''slow'' ''50G'' ''fast'',
     FieldManager = ''storageclass-migration''\<rparr>
     \<in> set (new_requests (world_of [rq_a, rq_bare])
               (snd (main (migrate_flags ''slow'' ''fast'') (env_of known_client) (world_of [rq_a, rq_bare])))) \<and>
   (\<exists>p. decode (patchMigrateTemplate ''slow'' ''50G'' ''fast'') = Some p \<and> distinct (map fst p)) \<and>
   mode_flag (migrate_flags ''fast'' ''fast'') = ''migrate'' \<and>
   old_storageclass (migrate_flags ''fast'' ''fast'') = new_storageclass (migrate_flags ''fast'' ''fast'') \<and>
   main (migrate_flags ''fast'' ''fast'') (env_of known_client) (world_of [rq_a, rq_bare]) =
     (1, say (Exitln ''old-storageclass and new-storageclass cannot be the same'') (world_of [rq_a, rq_bare])) \<and>
   plain ''fast'' \<and> plain ''50G'' \<and>
   (\<exists>p. decode (patchMigrateTemplate ''fast'' ''50G'' ''fast'') = Some p \<and> \<not> distinct (map fst p))"
proof -
  let ?v = "Infof ''both storageclasses validated: %s (old) -> %s (new)'' [Str ''slow'', Str ''fast'']"
  let ?W = "world_of [rq_a, rq_bare]"
  let ?r = "\<lparr>req_namespace = ''team-a'', req_name = ''rq-a'',
     req_patch = patchMigrateTemplate ''slow'' ''50G'' ''fast'',
     FieldManager = ''storageclass-migration''\<rparr>"
  have n: "NewConfig (migrate_flags ''slow'' ''fast'') (env_of known_client) ?W =
             Inr (migrate_cfg known_client, say ?v ?W)"
    by (simp add: NewConfig_example known_client_def)
  have m: "mode (migrate_cfg known_client) = ''migrate''"
    by (simp add: migrate_cfg_def)
  have l: "ResourceQuotas_List (client (migrate_cfg known_client)) (namespace (migrate_cfg known_client))
             (say ?v ?W) = Inr [rq_a, rq_bare]"
    by (simp add: listing_all migrate_cfg_def known_client_def)
  have ne: "[rq_a, rq_bare] \<noteq> []" by simp
  have "requests (snd (MigrateStorageclassQuota (migrate_cfg known_client) (say ?v ?W))) =
          requests (snd ([], say ?v ?W)) @
          concat (map (\<lambda>rq. sent (Migrate_decide (migrate_cfg known_client) rq)) [rq_a, rq_bare])"
    by (simp only: Migrate_run [OF l ne] snd_conv Migrate_loop_requests)
  then have q: "requests (snd (MigrateStorageclassQuota (migrate_cfg known_client) (say ?v ?W))) = [?r]"
    by (simp add: Migrate_decide_def patch_request_def rq_a_def rq_bare_def
          migrate_cfg_def world_of_def)
  from main_migrate [OF n m, of "fst (MigrateStorageclassQuota (migrate_cfg known_client) (say ?v ?W))"
                              "snd (MigrateStorageclassQuota (migrate_cfg known_client) (say ?v ?W))"]
  have "requests (snd (main (migrate_flags ''slow'' ''fast'') (env_of known_client) ?W)) = [?r]"
    by (simp add: q)
  then have i: "?r \<in> set (new_requests ?W (snd (main (migrate_flags ''slow'' ''fast'') (env_of known_client) ?W)))"
    by (simp add: new_requests_def world_of_def)
  have names: "\<forall>cl n. NewForConfig (env_of known_client) = Inr cl \<and> StorageClasses_Get cl n = None
                 \<longrightarrow> plain n"
    by (auto simp: env_of_def known_client_def plain_def split: if_splits)
  have stored: "\<forall>rq \<in> set (quotas ?W). plain_quota rq"
    by (simp add: world_of_def plain_quota_def rq_a_def rq_bare_def plain_def)
  from names stored have h0:
    "(\<forall>cl n. NewForConfig (env_of known_client) = Inr cl \<and> StorageClasses_Get cl n = None
        \<longrightarrow> plain n) \<and>
     (\<forall>rq \<in> set (quotas ?W). plain_quota rq)"
    by (rule conjI)
  note t1 = patch_keys_unique
              [of _ _ _ "env_of known_client" ?W "migrate_flags ''slow'' ''fast''",
               THEN conjunct2, THEN conjunct2, THEN conjunct2, THEN conjunct2, THEN conjunct1,
               THEN mp, OF h0, rule_format, OF i]
  from t1 have d1: "\<exists>p. decode (patchMigrateTemplate ''slow'' ''50G'' ''fast'') = Some p \<and> distinct (map fst p)"
    by simp
  have h: "mode_flag (migrate_flags ''fast'' ''fast'') = ''migrate'' \<and>
           old_storageclass (migrate_flags ''fast'' ''fast'') = new_storageclass (migrate_flags ''fast'' ''fast'')"
    by (simp add: migrate_flags_def)
  note t2 = patch_keys_unique
              [of _ _ _ "env_of known_client" ?W "migrate_flags ''fast'' ''fast''",
               THEN conjunct2, THEN conjunct2, THEN conjunct2, THEN conjunct2, THEN conjunct2,
               THEN conjunct2, rule_format, OF h]
  from t2 have x: "main (migrate_flags ''fast'' ''fast'') (env_of known_client) ?W =
     (1, say (Exitln ''old-storageclass and new-storageclass cannot be the same'') ?W)"
    by (simp add: migrate_flags_def)
  have p: "plain ''fast''" "plain ''50G''" by (simp_all add: plain_def)
  from p have p3: "plain ''fast'' \<and> plain ''50G'' \<and> plain ''fast''" by simp
  note t3 = patch_keys_unique [of "''fast''" "''50G''" "''fast''", THEN conjunct1, THEN mp, OF p3]
  from t3 have d: "\<exists>p. decode (patchMigrateTemplate ''fast'' ''50G'' ''fast'') = Some p \<and> \<not> distinct (map fst p)"
    by simp
  from i d1 h x p d show ?thesis by (simp only: simp_thms)
qed

subsection \<open>The exit status\<close>

text \<open>
  Claim C9. Once the bootstrap has succeeded, \<open>main\<close> of either tool ends with status 0
  whatever the batch function returned: when it returned an error (the aggregate of the
  per-object failures) \<open>main\<close> logs one "Errors occurred" entry carrying that error and
  returns, exactly as it returns after the success message when there was none. Status 1 is
  reached only through the \<open>klog.Exit*\<close> calls of the bootstrap.
\<close>

theorem partial_failure_exit_status:
  "(\<forall>c w1 e w2. NewConfig fl ev w = Inr (c, w1) \<and> mode c = ''migrate'' \<and>
        MigrateStorageclassQuota c w1 = (Some e, w2) \<longrightarrow>
      main fl ev w = (0, say (Infof (''Errors occurred: %v'' @ [CHR 0x0A]) [Err (Aggregate [e])]) w2)) \<and>
   (\<forall>c w1 w2. NewConfig fl ev w = Inr (c, w1) \<and> mode c = ''migrate'' \<and>
        MigrateStorageclassQuota c w1 = (None, w2) \<longrightarrow>
      main fl ev w =
        (0, say (Infoln ([CHR 0x1B] @ ''[32msuccessfully migrated storageclass quota for all namespaces.''
                          @ [CHR 0x1B] @ ''[0m'')) w2)) \<and>
   (\<forall>c w1 e w2. NewConfig fl ev w = Inr (c, w1) \<and> mode c = ''set-zero'' \<and>
        SetStorageclassQuotaToZero c w1 = (Some e, w2) \<longrightarrow>
      main fl ev w = (0, say (Infof (''Errors occurred: %v'' @ [CHR 0x0A]) [Err (Aggregate [e])]) w2)) \<and>
   (\<forall>c w1 w2. NewConfig fl ev w = Inr (c, w1) \<and> mode c = ''set-zero'' \<and>
        SetStorageclassQuotaToZero c w1 = (None, w2) \<longrightarrow>
      main fl ev w =
        (0, say (Infoln ([CHR 0x1B] @ ''[32msuccessfully set storageclass quota to zero for all namespaces.''
                          @ [CHR 0x1B] @ ''[0m'')) w2)) \<and>
   (\<forall>c w1 e w2. NewConfig' fl' ev w = Inr (c, w1) \<and>
        PatchStorageclassRestricted c w1 = (Some e, w2) \<longrightarrow>
      main' fl' ev w = (0, say (Infof (''Errors occurred: %v'' @ [CHR 0x0A]) [Err (Aggregate [e])]) w2)) \<and>
   (\<forall>c w1 w2. NewConfig' fl' ev w = Inr (c, w1) \<and>
        PatchStorageclassRestricted c w1 = (None, w2) \<longrightarrow>
      main' fl' ev w =
        (0, say (Infoln ([CHR 0x1B] @ ''[32msuccessfully added or removed storageclass restrictions for all namespaces.''
                          @ [CHR 0x1B] @ ''[0m'')) w2)) \<and>
   (\<forall>c w1. NewConfig fl ev w = Inr (c, w1) \<longrightarrow> fst (main fl ev w) = 0) \<and>
   (\<forall>c w1. NewConfig' fl' ev w = Inr (c, w1) \<longrightarrow> fst (main' fl' ev w) = 0) \<and>
   (\<forall>w1. NewConfig fl ev w = Inl w1 \<longrightarrow> main fl ev w = (1, w1)) \<and>
   (\<forall>w1. NewConfig' fl' ev w = Inl w1 \<longrightarrow> main' fl' ev w = (1, w1))"
proof (intro conjI allI impI)
  fix c w1 e w2
  assume "NewConfig fl ev w = Inr (c, w1) \<and> mode c = ''migrate'' \<and>
          MigrateStorageclassQuota c w1 = (Some e, w2)"
  then show "main fl ev w = (0, say (Infof (''Errors occurred: %v'' @ [CHR 0x0A]) [Err (Aggregate [e])]) w2)"
    using main_migrate [of fl ev w c w1 "Some e" w2] by simp
next
  fix c w1 w2
  assume "NewConfig fl ev w = Inr (c, w1) \<and> mode c = ''migrate'' \<and>
          MigrateStorageclassQuota c w1 = (None, w2)"
  then show "main fl ev w =
        (0, say (Infoln ([CHR 0x1B] @ ''[32msuccessfully migrated storageclass quota for all namespaces.''
                          @ [CHR 0x1B] @ ''[0m'')) w2)"
    using main_migrate [of fl ev w c w1 None w2] by simp
next
  fix c w1 e w2
  assume "NewConfig fl ev w = Inr (c, w1) \<and> mode c = ''set-zero'' \<and>
          SetStorageclassQuotaToZero c w1 = (Some e, w2)"
  then show "main fl ev w = (0, say (Infof (''Errors occurred: %v'' @ [CHR 0x0A]) [Err (Aggregate [e])]) w2)"
    using main_set_zero [of fl ev w c w1 "Some e" w2] by simp
next
  fix c w1 w2
  assume "NewConfig fl ev w = Inr (c, w1) \<and> mode c = ''set-zero'' \<and>
          SetStorageclassQuotaToZero c w1 = (None, w2)"
  then show "main fl ev w =
        (0, say (Infoln ([CHR 0x1B] @ ''[32msuccessfully set storageclass quota to zero for all namespaces.''
                          @ [CHR 0x1B] @ ''[0m'')) w2)"
    using main_set_zero [of fl ev w c w1 None w2] by simp
next
  fix c w1 e w2
  assume "NewConfig' fl' ev w = Inr (c, w1) \<and> PatchStorageclassRestricted c w1 = (Some e, w2)"
  then show "main' fl' ev w = (0, say (Infof (''Errors occurred: %v'' @ [CHR 0x0A]) [Err (Aggregate [e])]) w2)"
    using main'_run [of fl' ev w c w1 "Some e" w2] by simp
next
  fix c w1 w2
  assume "NewConfig' fl' ev w = Inr (c, w1) \<and> PatchStorageclassRestricted c w1 = (None, w2)"
  then show "main' fl' ev w =
        (0, say (Infoln ([CHR 0x1B] @ ''[32msuccessfully added or removed storageclass restrictions for all namespaces.''
                          @ [CHR 0x1B] @ ''[0m'')) w2)"
    using main'_run [of fl' ev w c w1 None w2] by simp
next
  fix c w1
  assume n: "NewConfig fl ev w = Inr (c, w1)"
  from NewConfig_Inr(1) [OF n] show "fst (main fl ev w) = 0"
  proof
    assume "mode c = ''migrate''"
    from main_migrate [OF n this, of "fst (MigrateStorageclassQuota c w1)" "snd (MigrateStorageclassQuota c w1)"]
    show ?thesis by simp
  next
    assume "mode c = ''set-zero''"
    from main_set_zero [OF n this, of "fst (SetStorageclassQuotaToZero c w1)" "snd (SetStorageclassQuotaToZero c w1)"]
    show ?thesis by simp
  qed
next
  fix c w1
  assume n: "NewConfig' fl' ev w = Inr (c, w1)"
  from main'_run [OF n, of "fst (PatchStorageclassRestricted c w1)" "snd (PatchStorageclassRestricted c w1)"]
  show "fst (main' fl' ev w) = 0" by simp
next
  fix w1 assume "NewConfig fl ev w = Inl w1"
  then show "main fl ev w = (1, w1)" by (rule main_exit)
next
  fix w1 assume "NewConfig' fl' ev w = Inl w1"
  then show "main' fl' ev w = (1, w1)" by (rule main'_exit)
qed

theorem partial_failure_exit_status_witness:
  "fst (MigrateStorageclassQuota (migrate_cfg flaky_client)
          (say (Infof ''both storageclasses validated: %s (old) -> %s (new)'' [Str ''slow'', Str ''fast''])
             (world_of [rq_a, rq_b, rq_c]))) = Some (Aggregate [refusal]) \<and>
   main (migrate_flags ''slow'' ''fast'') (env_of flaky_client) (world_of [rq_a, rq_b, rq_c]) =
     (0, say (Infof (''Errors occurred: %v'' @ [CHR 0x0A]) [Err (Aggregate [Aggregate [refusal]])])
           (snd (MigrateStorageclassQuota (migrate_cfg flaky_client)
                  (say (Infof ''both storageclasses validated: %s (old) -> %s (new)'' [Str ''slow'', Str ''fast''])
                     (world_of [rq_a, rq_b, rq_c]))))) \<and>
   fst (main (migrate_flags ''slow'' ''fast'') (env_of ok_client) (world_of [rq_a, rq_b, rq_c])) = 0 \<and>
   fst (main (migrate_flags ''fast'' ''fast'') (env_of ok_client) (world_of [rq_a, rq_b, rq_c])) = 1"
proof -
  let ?v = "Infof ''both storageclasses validated: %s (old) -> %s (new)'' [Str ''slow'', Str ''fast'']"
  let ?W = "world_of [rq_a, rq_b, rq_c]"
  have n: "NewConfig (migrate_flags ''slow'' ''fast'') (env_of flaky_client) ?W =
             Inr (migrate_cfg flaky_client, say ?v ?W)"
    by (simp add: NewConfig_example flaky_client_def)
  have n': "NewConfig (migrate_flags ''slow'' ''fast'') (env_of ok_client) ?W =
             Inr (migrate_cfg ok_client, say ?v ?W)"
    by (simp add: NewConfig_example ok_client_def)
  have x: "NewConfig (migrate_flags ''fast'' ''fast'') (env_of ok_client) ?W =
             Inl (say (Exitln ''old-storageclass and new-storageclass cannot be the same'') ?W)"
    by (simp add: NewConfig_def migrate_flags_def)
  have m: "mode (migrate_cfg flaky_client) = ''migrate''"
    by (simp add: migrate_cfg_def)
  have l: "ResourceQuotas_List (client (migrate_cfg flaky_client)) (namespace (migrate_cfg flaky_client))
             (say ?v ?W) = Inr [rq_a, rq_b, rq_c]"
    by (simp add: listing_all migrate_cfg_def flaky_client_def)
  have ne: "[rq_a, rq_b, rq_c] \<noteq> []" by simp
  have f: "fst (MigrateStorageclassQuota (migrate_cfg flaky_client) (say ?v ?W)) = Some (Aggregate [refusal])"
    by (simp only: Migrate_run_facts(1) [OF l ne])
       (simp add: Migrate_decide_def patch_request_def
          flaky_client_def rq_a_def rq_b_def rq_c_def migrate_cfg_def)
  then have p: "MigrateStorageclassQuota (migrate_cfg flaky_client) (say ?v ?W) =
      (Some (Aggregate [refusal]), snd (MigrateStorageclassQuota (migrate_cfg flaky_client) (say ?v ?W)))"
    by (simp add: prod_eq_iff)
  note t1 = partial_failure_exit_status
              [of "migrate_flags ''slow'' ''fast''" "env_of flaky_client" ?W,
               THEN conjunct1, rule_format, OF conjI, OF n conjI, OF m p]
  note t2 = partial_failure_exit_status
              [of "migrate_flags ''slow'' ''fast''" "env_of ok_client" ?W,
               THEN conjunct2, THEN conjunct2, THEN conjunct2, THEN conjunct2, THEN conjunct2,
               THEN conjunct2, THEN conjunct1, rule_format, OF n']
  note t3 = partial_failure_exit_status
              [of "migrate_flags ''fast'' ''fast''" "env_of ok_client" ?W,
               THEN conjunct2, THEN conjunct2, THEN conjunct2, THEN conjunct2, THEN conjunct2,
               THEN conjunct2, THEN conjunct2, THEN conjunct2, THEN conjunct1, rule_format, OF x]
  from f t1 t2 t3 show ?thesis by simp
qed

subsection \<open>Migration, twice\<close>

text \<open>
  Claim C10. Take a world whose listing succeeds and is not empty, a server that accepts
  every patch, two storage-class names that are plain, and objects in scope whose
  \<open>requests.storage\<close> quantities have a plain serialisation. Run
  \<open>MigrateStorageclassQuota\<close>, then run it again on the world the first run left. The
  first run records \<open>Applied\<close> for every object that has the bare \<open>requests.storage\<close> key
  and \<open>Skipped ''no existing quota''\<close> for every object that has not; the server reads in
  each of its patches the two members of the migrate template, and the \<open>requests.storage\<close>
  entries of the stored objects are after the run what they were before. The second run
  sends the same requests with the same patches in the same order, records the same
  outcomes (so \<open>Applied\<close> again, never a skip, for an object with the key: there is no
  test for an earlier migration), and leaves the stored objects equal to what they were
  after the first run.
\<close>

theorem Migrate_twice:
  assumes list_ok: "List_error (client c) (namespace c) = None"
    and patch_ok: "\<forall>r. Patch_error (client c) r = None"
    and scope: "in_scope (namespace c) (quotas w) = Items" "Items \<noteq> []"
    and names: "plain (oldStorageclass c)" "plain (newStorageclass c)"
    and stored: "\<forall>rq \<in> set Items. plain_quota rq"
  shows
    "fst (MigrateStorageclassQuota c w) = None \<and>
     map (\<lambda>r. decode (req_patch r)) (new_requests w (snd (MigrateStorageclassQuota c w))) =
       concat (map (\<lambda>rq. case Hard rq ''requests.storage'' of
                            None \<Rightarrow> []
                          | Some v \<Rightarrow>
                              if String v = '''' then []
                              else [Some [(oldStorageclass c @ ''.storageclass.storage.k8s.io/requests.storage'',
                                           Some (String v)),
                                          (newStorageclass c @ ''.storageclass.storage.k8s.io/requests.storage'',
                                           Some ''0'')]]) Items) \<and>
     new_outcomes w (snd (MigrateStorageclassQuota c w)) =
       map (\<lambda>rq. (Namespace rq, Name rq,
                  if \<exists>q. Hard rq ''requests.storage'' = Some q \<and> String q \<noteq> '''' then Applied
                  else Skipped ''no existing quota'')) Items \<and>
     map (\<lambda>q. Hard q ''requests.storage'') (quotas (snd (MigrateStorageclassQuota c w))) =
       map (\<lambda>q. Hard q ''requests.storage'') (quotas w) \<and>
     fst (MigrateStorageclassQuota c (snd (MigrateStorageclassQuota c w))) = None \<and>
     new_requests (snd (MigrateStorageclassQuota c w))
       (snd (MigrateStorageclassQuota c (snd (MigrateStorageclassQuota c w)))) =
       new_requests w (snd (MigrateStorageclassQuota c w)) \<and>
     new_outcomes (snd (MigrateStorageclassQuota c w))
       (snd (MigrateStorageclassQuota c (snd (MigrateStorageclassQuota c w)))) =
       new_outcomes w (snd (MigrateStorageclassQuota c w)) \<and>
     quotas (snd (MigrateStorageclassQuota c (snd (MigrateStorageclassQuota c w)))) =
       quotas (snd (MigrateStorageclassQuota c w))"
proof -
  let ?w1 = "snd (MigrateStorageclassQuota c w)"
  let ?w2 = "snd (MigrateStorageclassQuota c ?w1)"
  let ?R = "concat (map (\<lambda>rq. sent (Migrate_decide c rq)) Items)"
  let ?Items1 = "map (replay_obj ?R) Items"
  have l: "ResourceQuotas_List (client c) (namespace c) w = Inr Items"
    using listing_in_scope [OF list_ok] scope by simp
  note run1 = Migrate_run_facts [OF l scope(2)]
  have e1: "fst (MigrateStorageclassQuota c w) = None"
    by (simp only: run1 failures_none [OF patch_ok] NewAggregate.simps)
  have o1: "new_outcomes w ?w1 =
       map (\<lambda>rq. (Namespace rq, Name rq,
                  if \<exists>q. Hard rq ''requests.storage'' = Some q \<and> String q \<noteq> '''' then Applied
                  else Skipped ''no existing quota'')) Items"
    by (simp only: run1 Migrate_outcome_ok [OF patch_ok])
  have q1: "quotas ?w1 = replay ?R (quotas w)"
    by (simp only: run1 all_succeed [OF patch_ok])
  have s1: "in_scope (namespace c) (quotas ?w1) = ?Items1"
    by (simp only: q1 in_scope_replay scope)
  have dq: "\<And>rq. rq \<in> set Items \<Longrightarrow>
      map (\<lambda>r. decode (req_patch r)) (sent (Migrate_decide c rq)) =
      (case Hard rq ''requests.storage'' of
         None \<Rightarrow> []
       | Some v \<Rightarrow>
           if String v = '''' then []
           else [Some [(oldStorageclass c @ ''.storageclass.storage.k8s.io/requests.storage'',
                        Some (String v)),
                       (newStorageclass c @ ''.storageclass.storage.k8s.io/requests.storage'',
                        Some ''0'')]])"
    using stored names
    by (auto simp: Migrate_decide_def patch_request_def plain_quota_def decode_Migrate
             split: option.splits)
  have "map (\<lambda>r. decode (req_patch r)) (new_requests w ?w1) =
          concat (map (\<lambda>rq. map (\<lambda>r. decode (req_patch r)) (sent (Migrate_decide c rq))) Items)"
    by (simp only: run1 map_concat map_map comp_def)
  also have "\<dots> = concat (map (\<lambda>rq. case Hard rq ''requests.storage'' of
                            None \<Rightarrow> []
                          | Some v \<Rightarrow>
                              if String v = '''' then []
                              else [Some [(oldStorageclass c @ ''.storageclass.storage.k8s.io/requests.storage'',
                                           Some (String v)),
                                          (newStorageclass c @ ''.storageclass.storage.k8s.io/requests.storage'',
                                           Some ''0'')]]) Items)"
    by (rule arg_cong [where f = concat], rule map_cong [OF refl]) (rule dq)
  finally have p1: "map (\<lambda>r. decode (req_patch r)) (new_requests w ?w1) =
       concat (map (\<lambda>rq. case Hard rq ''requests.storage'' of
                            None \<Rightarrow> []
                          | Some v \<Rightarrow>
                              if String v = '''' then []
                              else [Some [(oldStorageclass c @ ''.storageclass.storage.k8s.io/requests.storage'',
                                           Some (String v)),
                                          (newStorageclass c @ ''.storageclass.storage.k8s.io/requests.storage'',
                                           Some ''0'')]]) Items)" .
  have k: "\<forall>r \<in> set ?R. ''requests.storage'' \<notin> fst ` set (read_patch (req_patch r))"
    using Migrate_sent_keys [OF names stored] by blast
  note same = Migrate_decide_replay [OF k]
  have g1: "map (\<lambda>q. Hard q ''requests.storage'') (quotas ?w1) =
            map (\<lambda>q. Hard q ''requests.storage'') (quotas w)"
    by (simp add: q1 replay_map comp_def replay_obj_other [OF k])
  have l2: "ResourceQuotas_List (client c) (namespace c) ?w1 = Inr ?Items1"
    using listing_in_scope [OF list_ok, of ?w1] s1 by simp
  have n2: "?Items1 \<noteq> []" using scope(2) by simp
  note run2 = Migrate_run_facts [OF l2 n2]
  have e2: "fst (MigrateStorageclassQuota c ?w1) = None"
    by (simp only: run2 failures_none [OF patch_ok] NewAggregate.simps)
  have r2': "new_requests ?w1 ?w2 = ?R"
    by (simp only: run2 map_map comp_def same)
  then have r2: "new_requests ?w1 ?w2 = new_requests w ?w1"
    by (simp only: run1)
  have o2: "new_outcomes ?w1 ?w2 = new_outcomes w ?w1"
    by (simp only: run1 run2 map_map comp_def same replay_obj_id)
  have "quotas ?w2 = replay ?R (quotas ?w1)"
    by (simp only: run2 all_succeed [OF patch_ok] map_map comp_def same)
  then have q2: "quotas ?w2 = quotas ?w1"
    by (simp only: q1 replay_idem)
  from e1 p1 o1 g1 e2 r2 o2 q2 show ?thesis by (simp only: simp_thms)
qed

theorem Migrate_twice_witness:
  "List_error (client (migrate_cfg ok_client)) (namespace (migrate_cfg ok_client)) = None \<and>
   (\<forall>r. Patch_error (client (migrate_cfg ok_client)) r = None) \<and>
   in_scope (namespace (migrate_cfg ok_client)) (quotas (world_of [rq_a, rq_bare])) = [rq_a, rq_bare] \<and>
   plain (oldStorageclass (migrate_cfg ok_client)) \<and> plain (newStorageclass (migrate_cfg ok_client)) \<and>
   plain_quota rq_a \<and> plain_quota rq_bare \<and>
   map (\<lambda>r. decode (req_patch r))
     (new_requests (world_of [rq_a, rq_bare])
        (snd (MigrateStorageclassQuota (migrate_cfg ok_client) (world_of [rq_a, rq_bare])))) =
     [Some [(''slow.storageclass.storage.k8s.io/requests.storage'', Some ''50G''),
            (''fast.storageclass.storage.k8s.io/requests.storage'', Some ''0'')]] \<and>
   new_outcomes (world_of [rq_a, rq_bare])
     (snd (MigrateStorageclassQuota (migrate_cfg ok_client) (world_of [rq_a, rq_bare]))) =
     [(''team-a'', ''rq-a'', Applied), (''team-d'', ''rq-d'', Skipped ''no existing quota'')] \<and>
   new_outcomes (snd (MigrateStorageclassQuota (migrate_cfg ok_client) (world_of [rq_a, rq_bare])))
     (snd (MigrateStorageclassQuota (migrate_cfg ok_client)
        (snd (MigrateStorageclassQuota (migrate_cfg ok_client) (world_of [rq_a, rq_bare]))))) =
     [(''team-a'', ''rq-a'', Applied), (''team-d'', ''rq-d'', Skipped ''no existing quota'')] \<and>
   new_requests (snd (MigrateStorageclassQuota (migrate_cfg ok_client) (world_of [rq_a, rq_bare])))
     (snd (MigrateStorageclassQuota (migrate_cfg ok_client)
        (snd (MigrateStorageclassQuota (migrate_cfg ok_client) (world_of [rq_a, rq_bare]))))) =
     [\<lparr>req_namespace = ''team-a'', req_name = ''rq-a'',
       req_patch = patchMigrateTemplate ''slow'' ''50G'' ''fast'',
       FieldManager = ''storageclass-migration''\<rparr>] \<and>
   quotas (snd (MigrateStorageclassQuota (migrate_cfg ok_client)
        (snd (MigrateStorageclassQuota (migrate_cfg ok_client) (world_of [rq_a, rq_bare]))))) =
     quotas (snd (MigrateStorageclassQuota (migrate_cfg ok_client) (world_of [rq_a, rq_bare])))"
proof -
  let ?c = "migrate_cfg ok_client"
  let ?W = "world_of [rq_a, rq_bare]"
  have h1: "List_error (client ?c) (namespace ?c) = None"
    and h2: "\<forall>r. Patch_error (client ?c) r = None"
    by (simp_all add: migrate_cfg_def ok_client_def)
  have h3: "in_scope (namespace ?c) (quotas ?W) = [rq_a, rq_bare]"
    by (simp add: in_scope_def migrate_cfg_def world_of_def)
  have h4: "[rq_a, rq_bare] \<noteq> []" by simp
  have l: "ResourceQuotas_List (client ?c) (namespace ?c) ?W = Inr [rq_a, rq_bare]"
    using listing_in_scope [OF h1, of ?W] h3 by simp
  have r1: "new_requests ?W (snd (MigrateStorageclassQuota ?c ?W)) =
     [\<lparr>req_namespace = ''team-a'', req_name = ''rq-a'',
       req_patch = patchMigrateTemplate ''slow'' ''50G'' ''fast'',
       FieldManager = ''storageclass-migration''\<rparr>]"
    by (simp only: Migrate_run_facts(2) [OF l h4])
       (simp add: Migrate_decide_def patch_request_def rq_a_def rq_bare_def migrate_cfg_def)
  have h5: "plain (oldStorageclass ?c)" and h6: "plain (newStorageclass ?c)"
    by (simp_all add: migrate_cfg_def plain_def)
  have pa: "plain_quota rq_a" and pb: "plain_quota rq_bare"
    by (simp_all add: plain_quota_def rq_a_def rq_bare_def plain_def)
  then have h7: "\<forall>rq \<in> set [rq_a, rq_bare]. plain_quota rq" by simp
  note t = Migrate_twice [OF h1 h2 h3 h4 h5 h6 h7]
  from t have p1: "map (\<lambda>r. decode (req_patch r)) (new_requests ?W (snd (MigrateStorageclassQuota ?c ?W))) =
     [Some [(''slow.storageclass.storage.k8s.io/requests.storage'', Some ''50G''),
            (''fast.storageclass.storage.k8s.io/requests.storage'', Some ''0'')]]"
    by (simp add: rq_a_def rq_bare_def migrate_cfg_def)
  from t have o1: "new_outcomes ?W (snd (MigrateStorageclassQuota ?c ?W)) =
     [(''team-a'', ''rq-a'', Applied), (''team-d'', ''rq-d'', Skipped ''no existing quota'')]"
    by (simp add: rq_a_def rq_bare_def)
  from t o1 have o2: "new_outcomes (snd (MigrateStorageclassQuota ?c ?W))
     (snd (MigrateStorageclassQuota ?c (snd (MigrateStorageclassQuota ?c ?W)))) =
     [(''team-a'', ''rq-a'', Applied), (''team-d'', ''rq-d'', Skipped ''no existing quota'')]"
    by simp
  from t r1 have r2: "new_requests (snd (MigrateStorageclassQuota ?c ?W))
     (snd (MigrateStorageclassQuota ?c (snd (MigrateStorageclassQuota ?c ?W)))) =
     [\<lparr>req_namespace = ''team-a'', req_name = ''rq-a'',
       req_patch = patchMigrateTemplate ''slow'' ''50G'' ''fast'',
       FieldManager = ''storageclass-migration''\<rparr>]"
    by simp
  from t have q: "quotas (snd (MigrateStorageclassQuota ?c (snd (MigrateStorageclassQuota ?c ?W)))) =
     quotas (snd (MigrateStorageclassQuota ?c ?W))"
    by simp
  from h1 h2 h3 h5 h6 pa pb p1 o1 o2 r2 q show ?thesis by simp
qed

end
